theory Spec2Isabelle
  imports Main "HOL-Library.Log_Nat" "HOL-Library.Multiset" "HOL-Library.Char_ord"
    "HOL-Library.List_Lexorder"
begin

section \<open>Python numbers\<close>

subsection \<open>Floats: IEEE 754 binary64\<close>

text \<open>
  A Python \<^verbatim>\<open>float\<close> is an IEEE 754 binary64 value: a finite number (a rational
  \<open>n * 2 ^ e\<close> with \<open>\<bar>n\<bar> < 2 ^ 53\<close> and \<open>- 1074 \<le> e \<le> 971\<close>), a signed zero, a signed
  infinity or a NaN.  \<open>Finite 0\<close> is \<^verbatim>\<open>0.0\<close> and \<open>NegZero\<close> is \<^verbatim>\<open>-0.0\<close>.
\<close>

datatype pyfloat = Finite rat | NegZero | PosInf | NegInf | NaN

definition pow2 :: "int \<Rightarrow> rat" where
  "pow2 e = (if 0 \<le> e then 2 ^ nat e else 1 / 2 ^ nat (- e))"

text \<open>Rounding a rational to the nearest integer, ties to the even one.\<close>

definition rne :: "rat \<Rightarrow> int" where
  "rne q = (let f = \<lfloor>q\<rfloor>; d = q - of_int f in
     if d < 1 / 2 then f else if 1 / 2 < d then f + 1 else if even f then f else f + 1)"

text \<open>The binary exponent \<open>\<lfloor>log\<^sub>2 \<bar>q\<bar>\<rfloor>\<close> of a rational \<open>q \<noteq> 0\<close>.\<close>

definition fl_exponent :: "rat \<Rightarrow> int" where
  "fl_exponent q =
     (if 1 \<le> \<bar>q\<bar> then bitlen \<lfloor>\<bar>q\<bar>\<rfloor> - 1
      else let j = bitlen \<lfloor>1 / \<bar>q\<bar>\<rfloor> - 1
           in if \<bar>q\<bar> = pow2 (- j) then - j else - j - 1)"

text \<open>
  The binary64 value nearest to a rational (round to nearest, ties to even), as every
  arithmetic operation of the hardware and the decimal-to-binary conversion of CPython
  deliver it: 53 significant bits, subnormals below \<open>2 ^ - 1022\<close>, overflow to an infinity
  from \<open>2 ^ 1024\<close> on, and a result that underflows to zero keeps the sign.
\<close>

definition round_binary64 :: "rat \<Rightarrow> pyfloat" where
  "round_binary64 q =
     (if q = 0 then Finite 0
      else let e = max (fl_exponent q) (- 1022);
               n = rne (q / pow2 (e - 52))
           in if 1023 < e \<or> (e = 1023 \<and> 9007199254740992 \<le> \<bar>n\<bar>)
              then (if 0 < q then PosInf else NegInf)
              else if n = 0 then (if q < 0 then NegZero else Finite 0)
              else Finite (of_int n * pow2 (e - 52)))"

text \<open>\<^verbatim>\<open>x + y\<close> on floats.\<close>

fun fadd :: "pyfloat \<Rightarrow> pyfloat \<Rightarrow> pyfloat" where
  "fadd NaN _ = NaN"
| "fadd _ NaN = NaN"
| "fadd PosInf NegInf = NaN"
| "fadd NegInf PosInf = NaN"
| "fadd PosInf _ = PosInf"
| "fadd _ PosInf = PosInf"
| "fadd NegInf _ = NegInf"
| "fadd _ NegInf = NegInf"
| "fadd NegZero NegZero = NegZero"
| "fadd NegZero (Finite b) = Finite b"
| "fadd (Finite a) NegZero = Finite a"
| "fadd (Finite a) (Finite b) = round_binary64 (a + b)"

text \<open>
  \<^verbatim>\<open>x / n\<close> for a float \<open>x\<close> and a positive list length \<open>n\<close> (a length is far below
  \<open>2 ^ 53\<close>, so its conversion to a float is exact).
\<close>

fun fdiv_len :: "pyfloat \<Rightarrow> nat \<Rightarrow> pyfloat" where
  "fdiv_len (Finite q) n = (if q = 0 then Finite 0 else round_binary64 (q / of_nat n))"
| "fdiv_len x n = x"

text \<open>
  \<^verbatim>\<open>round(x, 2)\<close>: CPython converts \<open>x\<close> to the decimal with two fractional digits
  nearest to its exact value (ties to the even digit) and converts that decimal back to
  the nearest float; zeros, infinities and NaN are returned as they are.
\<close>

definition py_round2 :: "pyfloat \<Rightarrow> pyfloat" where
  "py_round2 x =
     (case x of
        Finite q \<Rightarrow>
          (let k = rne (q * 100)
           in if k = 0 then (if q < 0 then NegZero else Finite 0)
              else round_binary64 (of_int k / 100))
      | _ \<Rightarrow> x)"

text \<open>\<^verbatim>\<open>x < y\<close> on floats: false whenever a NaN takes part; the two zeros are equal.\<close>

fun fin_val :: "pyfloat \<Rightarrow> rat" where
  "fin_val (Finite q) = q"
| "fin_val _ = 0"

fun flt :: "pyfloat \<Rightarrow> pyfloat \<Rightarrow> bool" where
  "flt NaN _ = False"
| "flt _ NaN = False"
| "flt _ NegInf = False"
| "flt NegInf _ = True"
| "flt PosInf _ = False"
| "flt _ PosInf = True"
| "flt x y = (fin_val x < fin_val y)"


text \<open>
  \<^verbatim>\<open>sum(xs)\<close> on a list of floats: the interpreter starts from the integer 0 and adds
  the items from left to right, each addition rounded.
\<close>

definition py_sum :: "pyfloat list \<Rightarrow> pyfloat" where
  "py_sum xs = foldl fadd (Finite 0) xs"

subsection \<open>Exceptions\<close>

datatype pyexc = ValueError | TypeError | ZeroDivisionError | CsvError

definition then_do :: "pyexc + 'a \<Rightarrow> ('a \<Rightarrow> pyexc + 'b) \<Rightarrow> pyexc + 'b" where
  "then_do r f = (case r of Inl e \<Rightarrow> Inl e | Inr x \<Rightarrow> f x)"

text \<open>\<^verbatim>\<open>x / len(xs)\<close>: division by zero raises.\<close>

definition py_truediv :: "pyfloat \<Rightarrow> nat \<Rightarrow> pyexc + pyfloat" where
  "py_truediv x n = (if n = 0 then Inl ZeroDivisionError else Inr (fdiv_len x n))"

text \<open>
  The arithmetic mean of the specification, in the arithmetic of the program: the sum of
  the values divided by their number.
\<close>

definition mean :: "pyfloat list \<Rightarrow> pyexc + pyfloat" where
  "mean xs = py_truediv (py_sum xs) (length xs)"

text \<open>
  \<^verbatim>\<open>max(xs)\<close> and \<^verbatim>\<open>min(xs)\<close>: the first item is the candidate, and a later item
  replaces it when \<^verbatim>\<open>item > candidate\<close> (for \<^verbatim>\<open>min\<close>: \<^verbatim>\<open>item < candidate\<close>); an empty
  list raises \<^verbatim>\<open>ValueError\<close>.
\<close>

fun py_max :: "pyfloat list \<Rightarrow> pyexc + pyfloat" where
  "py_max [] = Inl ValueError"
| "py_max (x # xs) = Inr (foldl (\<lambda>m v. if flt m v then v else m) x xs)"

fun py_min :: "pyfloat list \<Rightarrow> pyexc + pyfloat" where
  "py_min [] = Inl ValueError"
| "py_min (x # xs) = Inr (foldl (\<lambda>m v. if flt v m then v else m) x xs)"

subsection \<open>Integers as text\<close>

definition digit_char :: "nat \<Rightarrow> char" where
  "digit_char d = ''0123456789'' ! d"

fun py_str_nat :: "nat \<Rightarrow> string" where
  "py_str_nat n = (if n < 10 then [digit_char n] else py_str_nat (n div 10) @ [digit_char (n mod 10)])"

text \<open>\<^verbatim>\<open>str(i)\<close>, which is what \<^verbatim>\<open>f"{i}"\<close> puts into a string.\<close>

definition py_str :: "int \<Rightarrow> string" where
  "py_str i = (if i < 0 then CHR ''-'' # py_str_nat (nat (- i)) else py_str_nat (nat i))"

text \<open>\<^verbatim>\<open>f"{i:02d}"\<close>: the decimal digits, padded with zeros to two characters.\<close>

definition py_format_02d :: "int \<Rightarrow> string" where
  "py_format_02d i =
     (if i < 0 then CHR ''-'' # py_str_nat (nat (- i))
      else let s = py_str_nat (nat i) in replicate (2 - length s) (CHR ''0'') @ s)"

definition is_digit :: "char \<Rightarrow> bool" where
  "is_digit c = (48 \<le> (of_char c :: nat) \<and> (of_char c :: nat) \<le> 57)"

definition is_space :: "char \<Rightarrow> bool" where
  "is_space c = ((of_char c :: nat) \<in> set [9, 10, 11, 12, 13, 28, 29, 30, 31, 32])"

definition nat_of_digits :: "string \<Rightarrow> nat" where
  "nat_of_digits ds = foldl (\<lambda>a c. 10 * a + (of_char c - 48)) 0 ds"

definition py_strip :: "string \<Rightarrow> string" where
  "py_strip s = rev (dropWhile is_space (rev (dropWhile is_space s)))"

text \<open>
  \<^verbatim>\<open>int(s)\<close> for a string: surrounding white space is dropped, a sign may lead, and
  the rest must be decimal digits.  The components that reach \<^verbatim>\<open>int\<close> come out of
  \<^verbatim>\<open>split('_')\<close>, so the underscore grouping of digits that \<^verbatim>\<open>int\<close> accepts cannot
  occur; digits and white space outside ASCII are not covered.
\<close>

definition py_int :: "string \<Rightarrow> pyexc + int" where
  "py_int s =
     (let t = py_strip s;
          neg = (t \<noteq> [] \<and> hd t = CHR ''-'');
          ds = (if t \<noteq> [] \<and> (hd t = CHR ''-'' \<or> hd t = CHR ''+'') then tl t else t)
      in if ds \<noteq> [] \<and> list_all is_digit ds
         then Inr (if neg then - int (nat_of_digits ds) else int (nat_of_digits ds))
         else Inl ValueError)"

subsection \<open>Strings\<close>

definition py_startswith :: "string \<Rightarrow> string \<Rightarrow> bool" where
  "py_startswith s p = (take (length p) s = p)"

text \<open>\<^verbatim>\<open>s.split(c)\<close> for a separator of one character.\<close>

fun py_split :: "char \<Rightarrow> string \<Rightarrow> string list" where
  "py_split c [] = [[]]"
| "py_split c (x # xs) =
     (if x = c then [] # py_split c xs
      else (case py_split c xs of w # ws \<Rightarrow> (x # w) # ws | [] \<Rightarrow> [[x]]))"

text \<open>\<^verbatim>\<open>a, b, c = parts\<close>: any other number of parts raises \<^verbatim>\<open>ValueError\<close>.\<close>

fun unpack3 :: "'a list \<Rightarrow> pyexc + ('a \<times> 'a \<times> 'a)" where
  "unpack3 [a, b, c] = Inr (a, b, c)"
| "unpack3 _ = Inl ValueError"

subsection \<open>Dates\<close>

text \<open>
  \<^verbatim>\<open>datetime(year, month, 1).strftime('%B')\<close>: the constructor raises \<^verbatim>\<open>ValueError\<close>
  outside the years 1..9999 and the months 1..12; \<^verbatim>\<open>%B\<close> is the month's name.
\<close>

definition month_names :: "string list" where
  "month_names = [''January'', ''February'', ''March'', ''April'', ''May'', ''June'', ''July'',
     ''August'', ''September'', ''October'', ''November'', ''December'']"

definition strftime_B :: "int \<Rightarrow> int \<Rightarrow> pyexc + string" where
  "strftime_B year month =
     (if 1 \<le> year \<and> year \<le> 9999 \<and> 1 \<le> month \<and> month \<le> 12
      then Inr (month_names ! nat (month - 1)) else Inl ValueError)"

subsection \<open>Library functions of the line parsers\<close>

text \<open>
  The two line parsers call \<^verbatim>\<open>csv.reader\<close>, \<^verbatim>\<open>float\<close> and
  \<^verbatim>\<open>datetime.strptime(_, '%Y-%m-%d')\<close>.  They are parameters of the model: the row of a
  line or the exception of the reader, the float of a field or its exception, and the
  year and month of a date or its exception.
\<close>

record pylib =
  csv_reader :: "string \<Rightarrow> pyexc + string list"
  float_of_str :: "string \<Rightarrow> pyexc + pyfloat"
  strptime_ymd :: "string \<Rightarrow> pyexc + int \<times> int"

section \<open>The map-reduce framework\<close>

text \<open>
  A value that travels under a key is either a payload of the job or, under the key
  \<^verbatim>\<open>"ERROR"\<close>, the text of an error message (a prefix and the exception it reports).
  Payloads that the job writes with \<^verbatim>\<open>json.dumps\<close> and reads with \<^verbatim>\<open>json.loads\<close> are
  the records themselves: reading back what was written returns it.  An error text is not
  JSON, so \<^verbatim>\<open>json.loads\<close> raises on it.
\<close>

datatype 'a payload = Payload 'a | ErrorText string pyexc

text \<open>The payloads among the values: the loop \<^verbatim>\<open>try: json.loads(v) ... except: continue\<close>.\<close>

fun loaded :: "'a payload list \<Rightarrow> 'a list" where
  "loaded [] = []"
| "loaded (Payload x # vs) = x # loaded vs"
| "loaded (ErrorText p e # vs) = loaded vs"

text \<open>
  Between a mapper and a reducer the framework writes every key as JSON text, as
  \<^verbatim>\<open>json.dumps\<close> of the standard library produces it for a string: between double
  quotes, the printable ASCII characters stand for themselves, the double quote, the
  backslash and five control characters have a two-character escape, and every other
  character is written \<^verbatim>\<open>\uXXXX\<close> with the four hexadecimal digits of its code (a
  character beyond \<open>0xFFFF\<close> as the two halves of its surrogate pair).  A string of the
  model is the UTF-8 encoding of a Python string, so the escape of a character outside
  ASCII is computed from the two, three or four bytes that encode it.
\<close>

definition hex_digit :: "nat \<Rightarrow> char" where
  "hex_digit d = ''0123456789abcdef'' ! d"

definition json_u :: "nat \<Rightarrow> string" where
  "json_u n = [CHR 0x5C, CHR ''u'', hex_digit (n div 4096 mod 16), hex_digit (n div 256 mod 16),
     hex_digit (n div 16 mod 16), hex_digit (n mod 16)]"

definition json_point :: "nat \<Rightarrow> string" where
  "json_point n =
     (if n < 0x10000 then json_u n
      else json_u (0xD800 + (n - 0x10000) div 1024) @ json_u (0xDC00 + (n - 0x10000) mod 1024))"

definition json_ascii :: "char \<Rightarrow> string" where
  "json_ascii c =
     (if c = CHR 0x22 then [CHR 0x5C, CHR 0x22]
      else if c = CHR 0x5C then [CHR 0x5C, CHR 0x5C]
      else if c = CHR 0x0A then [CHR 0x5C, CHR ''n'']
      else if c = CHR 0x0D then [CHR 0x5C, CHR ''r'']
      else if c = CHR 0x09 then [CHR 0x5C, CHR ''t'']
      else if c = CHR 0x08 then [CHR 0x5C, CHR ''b'']
      else if c = CHR 0x0C then [CHR 0x5C, CHR ''f'']
      else if 0x20 \<le> (of_char c :: nat) \<and> (of_char c :: nat) \<le> 0x7E then [c]
      else json_u (of_char c))"

fun json_escape :: "string \<Rightarrow> string" where
  "json_escape [] = []"
| "json_escape (c # cs) =
     (let b = of_char c :: nat in
      if b < 0x80 then json_ascii c @ json_escape cs
      else if b < 0xE0 then
        (case cs of
           c1 # r \<Rightarrow> json_point ((b - 0xC0) * 64 + of_char c1 mod 64) @ json_escape r
         | _ \<Rightarrow> json_u b)
      else if b < 0xF0 then
        (case cs of
           c1 # c2 # r \<Rightarrow>
             json_point (((b - 0xE0) * 64 + of_char c1 mod 64) * 64 + of_char c2 mod 64) @
             json_escape r
         | _ \<Rightarrow> json_u b)
      else
        (case cs of
           c1 # c2 # c3 # r \<Rightarrow>
             json_point ((((b - 0xF0) * 64 + of_char c1 mod 64) * 64 + of_char c2 mod 64) * 64 +
               of_char c3 mod 64) @
             json_escape r
         | _ \<Rightarrow> json_u b))"

definition json_dumps_str :: "string \<Rightarrow> string" where
  "json_dumps_str s = CHR 0x22 # json_escape s @ [CHR 0x22]"

text \<open>
  One step of a job: every input goes through the mapper, the emitted pairs are sorted
  by the bytes of the JSON text of their key, and the reducer runs once for every key
  that occurs, in that order of the keys, on the list of that key's values in the order
  in which the mapper emitted them (the sort is stable and leaves the pairs of one key
  as they came).  What the reducers emit, in that order, is the output of the step.  An
  exception that leaves a reducer ends the job.
\<close>

definition values_of :: "'k \<Rightarrow> ('k \<times> 'v) list \<Rightarrow> 'v list" where
  "values_of k kvs = map snd (filter (\<lambda>kv. fst kv = k) kvs)"

definition shuffle :: "(string \<times> 'v) list \<Rightarrow> (string \<times> 'v list) list" where
  "shuffle kvs =
     map (\<lambda>k. (k, values_of k kvs)) (sort_key json_dumps_str (remdups (map fst kvs)))"

fun collect :: "(pyexc + 'a list) list \<Rightarrow> pyexc + 'a list" where
  "collect [] = Inr []"
| "collect (r # rs) = then_do r (\<lambda>xs. then_do (collect rs) (\<lambda>ys. Inr (xs @ ys)))"

definition run_step ::
  "('i \<Rightarrow> (string \<times> 'v) list) \<Rightarrow> (string \<Rightarrow> 'v list \<Rightarrow> pyexc + 'o list) \<Rightarrow> 'i list \<Rightarrow>
     pyexc + 'o list" where
  "run_step mapper reducer inputs =
     collect (map (\<lambda>(k, vs). reducer k vs) (shuffle (concat (map mapper inputs))))"

text \<open>The key of the first stage of both jobs: \<^verbatim>\<open>f"{city}_{year}_{month:02d}"\<close>.\<close>

definition stage1_key :: "string \<Rightarrow> int \<Rightarrow> int \<Rightarrow> string" where
  "stage1_key city year month = city @ ''_'' @ py_str year @ ''_'' @ py_format_02d month"

text \<open>\<^verbatim>\<open>float(field) if field else alternative\<close>.\<close>

definition float_or :: "pylib \<Rightarrow> 'a \<Rightarrow> (pyfloat \<Rightarrow> 'a) \<Rightarrow> string \<Rightarrow> pyexc + 'a" where
  "float_or lib alt f field =
     (if field = [] then Inr alt else then_do (float_of_str lib field) (\<lambda>x. Inr (f x)))"

section \<open>The season of a month\<close>

text \<open>
  \<^verbatim>\<open>get_season\<close>.  The labels are the source's strings in UTF-8: \<open>0xC3 0xB3\<close> is the
  letter o with an acute accent, \<open>0xC3 0xAD\<close> the letter i with an acute accent.
\<close>

definition get_season :: "int \<Rightarrow> string" where
  "get_season month =
     (if month \<in> set [12, 1, 2] then ''Verano''
      else if month \<in> set [3, 4, 5] then ''Transici'' @ [CHR 0xC3, CHR 0xB3] @ ''n''
      else if month \<in> set [6, 7, 8] then ''Invierno''
      else ''Lluvias_Tard'' @ [CHR 0xC3, CHR 0xAD] @ ''as'')"

section \<open>Temperature analysis\<close>

record temp_obs =
  temp_max :: pyfloat
  temp_min :: pyfloat
  temp_mean :: pyfloat
  count :: int

record temp_stats =
  city_year_month :: string
  avg_temp_max :: pyfloat
  avg_temp_min :: pyfloat
  avg_temp_mean :: pyfloat
  max_temp_recorded :: pyfloat
  min_temp_recorded :: pyfloat
  total_days :: int

text \<open>
  The dictionary \<^verbatim>\<open>output\<close> of the second mapper: the statistics and the four entries
  the mapper adds.  The last reducer prints one line per dictionary: city, year, month
  (two digits), month name, the five temperatures and the day count, joined by commas.
\<close>

record temp_output = temp_stats +
  city :: string
  year :: int
  month :: int
  month_name :: string

text \<open>The body of the \<^verbatim>\<open>try\<close> of \<^verbatim>\<open>mapper_parse_data\<close>: the pairs it yields, or the exception.\<close>

definition parse_data :: "pylib \<Rightarrow> string \<Rightarrow> pyexc + (string \<times> temp_obs payload) list" where
  "parse_data lib line =
     (if py_startswith line ''time,temperature'' then Inr []
      else then_do (csv_reader lib line) (\<lambda>row.
        if length row < 8 then Inr []
        else let date_str = row ! 0 in
          then_do (float_or lib None Some (row ! 1)) (\<lambda>temp_max.
          then_do (float_or lib None Some (row ! 2)) (\<lambda>temp_min.
          then_do (float_or lib None Some (row ! 3)) (\<lambda>temp_mean.
            let city = row ! 7 in
            (case (temp_max, temp_min, temp_mean) of
               (Some tmax, Some tmin, Some tmean) \<Rightarrow>
                 then_do (strptime_ymd lib date_str) (\<lambda>(year, month).
                   Inr [(stage1_key city year month,
                         Payload \<lparr>temp_max = tmax, temp_min = tmin, temp_mean = tmean, count = 1\<rparr>)])
             | _ \<Rightarrow> Inr []))))))"

definition mapper_parse_data :: "pylib \<Rightarrow> string \<Rightarrow> (string \<times> temp_obs payload) list" where
  "mapper_parse_data lib line =
     (case parse_data lib line of
        Inr pairs \<Rightarrow> pairs
      | Inl e \<Rightarrow> [(''ERROR'', ErrorText ''Error processing line: '' e)])"

definition reducer_aggregate_temps ::
  "string \<Rightarrow> temp_obs payload list \<Rightarrow> pyexc + (string \<times> temp_stats) list" where
  "reducer_aggregate_temps key values =
     (if key = ''ERROR'' then Inr []
      else let obs = loaded values;
               temp_max_list = map temp_max obs;
               temp_min_list = map temp_min obs;
               temp_mean_list = map temp_mean obs;
               total_days = sum_list (map count obs)
           in if temp_max_list = [] then Inr []
              else
                then_do (py_truediv (py_sum temp_max_list) (length temp_max_list)) (\<lambda>mean_max.
                then_do (py_truediv (py_sum temp_min_list) (length temp_min_list)) (\<lambda>mean_min.
                then_do (py_truediv (py_sum temp_mean_list) (length temp_mean_list)) (\<lambda>mean_mean.
                then_do (py_max temp_max_list) (\<lambda>highest.
                then_do (py_min temp_min_list) (\<lambda>lowest.
                  Inr [(key,
                    \<lparr>city_year_month = key,
                     avg_temp_max = py_round2 mean_max,
                     avg_temp_min = py_round2 mean_min,
                     avg_temp_mean = py_round2 mean_mean,
                     max_temp_recorded = py_round2 highest,
                     min_temp_recorded = py_round2 lowest,
                     total_days = total_days\<rparr>)]))))))"

text \<open>The body of the \<^verbatim>\<open>try\<close> of \<^verbatim>\<open>mapper_format_output\<close>.\<close>

definition format_output :: "string \<Rightarrow> temp_stats \<Rightarrow> pyexc + (string \<times> temp_output payload) list" where
  "format_output key stats =
     then_do (unpack3 (py_split (CHR ''_'') key)) (\<lambda>(city, year, month).
     then_do (py_int year) (\<lambda>year_int.
     then_do (py_int month) (\<lambda>month_int.
     then_do (strftime_B year_int month_int) (\<lambda>name.
       Inr [(city @ ''_'' @ year,
             Payload (temp_stats.extend stats
               \<lparr>city = city, year = year_int, month = month_int, month_name = name\<rparr>))]))))"

definition mapper_format_output :: "string \<Rightarrow> temp_stats \<Rightarrow> (string \<times> temp_output payload) list" where
  "mapper_format_output key value =
     (if key = ''ERROR'' then []
      else case format_output key value of
             Inr pairs \<Rightarrow> pairs
           | Inl e \<Rightarrow> [(''ERROR'', ErrorText ''Format error: '' e)])"

definition reducer_final_output :: "string \<Rightarrow> temp_output payload list \<Rightarrow> pyexc + temp_output list" where
  "reducer_final_output key values =
     (if key = ''ERROR'' then Inr []
      else let city_data = loaded values in Inr (sort_key month city_data))"

text \<open>\<^verbatim>\<open>steps\<close>: the two steps, the second on the pairs the first one emits.\<close>

definition temperature_analysis :: "pylib \<Rightarrow> string list \<Rightarrow> pyexc + temp_output list" where
  "temperature_analysis lib lines =
     then_do (run_step (mapper_parse_data lib) reducer_aggregate_temps lines) (\<lambda>monthly.
       run_step (\<lambda>(key, value). mapper_format_output key value) reducer_final_output monthly)"


section \<open>Precipitation analysis\<close>

text \<open>
  The monthly statistics, the dictionary \<^verbatim>\<open>enhanced_data\<close> of the second mapper (the
  statistics and the four entries it adds) and the dictionary \<^verbatim>\<open>result\<close> of the last
  reducer, which prints its eight entries in this order, joined by commas.
\<close>

record precip_stats =
  monthly_total :: pyfloat
  days_with_rain :: int
  max_daily_precipitation :: pyfloat
  avg_daily_precipitation :: pyfloat
  total_days :: int

record season_data = precip_stats +
  city :: string
  year :: int
  month :: int
  season :: string

record season_result =
  city :: string
  year :: int
  season :: string
  total_seasonal_precipitation :: pyfloat
  avg_monthly_precipitation :: pyfloat
  max_monthly_precipitation :: pyfloat
  total_rainy_days :: int
  months_in_season :: int

text \<open>The body of the \<^verbatim>\<open>try\<close> of \<^verbatim>\<open>mapper_parse_precipitation\<close>.\<close>

definition parse_precipitation :: "pylib \<Rightarrow> string \<Rightarrow> pyexc + (string \<times> pyfloat payload) list" where
  "parse_precipitation lib line =
     (if py_startswith line ''time,temperature'' then Inr []
      else then_do (csv_reader lib line) (\<lambda>row.
        if length row < 8 then Inr []
        else let date_str = row ! 0 in
          then_do (float_or lib (Finite 0) (\<lambda>x. x) (row ! 4)) (\<lambda>precipitation.
            let city = row ! 7 in
            then_do (strptime_ymd lib date_str) (\<lambda>(year, month).
              Inr [(stage1_key city year month, Payload precipitation)]))))"

definition mapper_parse_precipitation :: "pylib \<Rightarrow> string \<Rightarrow> (string \<times> pyfloat payload) list" where
  "mapper_parse_precipitation lib line =
     (case parse_precipitation lib line of
        Inr pairs \<Rightarrow> pairs
      | Inl e \<Rightarrow> [(''ERROR'', ErrorText ''Parse error: '' e)])"

text \<open>
  \<^verbatim>\<open>list(values)\<close> of the monthly reducer.  The values are used as numbers without a
  \<^verbatim>\<open>try\<close>: an error text among them makes \<^verbatim>\<open>sum\<close> raise \<^verbatim>\<open>TypeError\<close>.
\<close>

fun numbers :: "pyfloat payload list \<Rightarrow> pyexc + pyfloat list" where
  "numbers [] = Inr []"
| "numbers (Payload x # vs) = then_do (numbers vs) (\<lambda>xs. Inr (x # xs))"
| "numbers (ErrorText p e # vs) = Inl TypeError"

text \<open>
  For an empty list the source takes the integer 0 as maximum and as mean, and \<^verbatim>\<open>sum\<close>
  is the integer 0; the model writes the float \<open>Finite 0\<close> for it.  The framework calls a
  reducer only for a key with at least one value.
\<close>

definition reducer_monthly_totals ::
  "string \<Rightarrow> pyfloat payload list \<Rightarrow> pyexc + (string \<times> precip_stats) list" where
  "reducer_monthly_totals key values =
     (if key = ''ERROR'' then Inr []
      else
        then_do (numbers values) (\<lambda>daily_values.
          let monthly_total = py_sum daily_values;
              days_with_rain = int (length (filter (\<lambda>v. flt (Finite 0) v) daily_values))
          in
          then_do (if daily_values \<noteq> [] then py_max daily_values else Inr (Finite 0)) (\<lambda>max_daily.
          then_do (if daily_values \<noteq> [] then py_truediv monthly_total (length daily_values)
                   else Inr (Finite 0)) (\<lambda>avg_daily.
            Inr [(key,
              \<lparr>monthly_total = py_round2 monthly_total,
               days_with_rain = days_with_rain,
               max_daily_precipitation = py_round2 max_daily,
               avg_daily_precipitation = py_round2 avg_daily,
               total_days = int (length daily_values)\<rparr>)]))))"

text \<open>The body of the \<^verbatim>\<open>try\<close> of \<^verbatim>\<open>mapper_add_season\<close>.\<close>

definition add_season :: "string \<Rightarrow> precip_stats \<Rightarrow> pyexc + (string \<times> season_data payload) list" where
  "add_season key data =
     then_do (unpack3 (py_split (CHR ''_'') key)) (\<lambda>(city, year, month).
     then_do (py_int month) (\<lambda>month_num.
       let season = get_season month_num;
           seasonal_key = city @ ''_'' @ season @ ''_'' @ year
       in
       then_do (py_int year) (\<lambda>year_int.
         Inr [(seasonal_key,
               Payload (precip_stats.extend data
                 \<lparr>season_data.city = city, season_data.year = year_int,
                  season_data.month = month_num, season_data.season = season\<rparr>))])))"

definition mapper_add_season :: "string \<Rightarrow> precip_stats \<Rightarrow> (string \<times> season_data payload) list" where
  "mapper_add_season key value =
     (if key = ''ERROR'' then []
      else case add_season key value of
             Inr pairs \<Rightarrow> pairs
           | Inl e \<Rightarrow> [(''ERROR'', ErrorText ''Season mapping error: '' e)])"

definition reducer_seasonal_analysis ::
  "string \<Rightarrow> season_data payload list \<Rightarrow> pyexc + season_result list" where
  "reducer_seasonal_analysis key values =
     (if key = ''ERROR'' then Inr []
      else let seasonal_data = loaded values in
        if seasonal_data = [] then Inr []
        else
          let total_precipitation = py_sum (map monthly_total seasonal_data);
              total_rainy_days = sum_list (map days_with_rain seasonal_data)
          in
          then_do (py_max (map monthly_total seasonal_data)) (\<lambda>max_monthly.
          then_do (py_truediv total_precipitation (length seasonal_data)) (\<lambda>avg_monthly.
            Inr [\<lparr>city = season_data.city (hd seasonal_data),
                  year = season_data.year (hd seasonal_data),
                  season = season_data.season (hd seasonal_data),
                  total_seasonal_precipitation = py_round2 total_precipitation,
                  avg_monthly_precipitation = py_round2 avg_monthly,
                  max_monthly_precipitation = py_round2 max_monthly,
                  total_rainy_days = total_rainy_days,
                  months_in_season = int (length seasonal_data)\<rparr>])))"

definition precipitation_analysis :: "pylib \<Rightarrow> string list \<Rightarrow> pyexc + season_result list" where
  "precipitation_analysis lib lines =
     then_do (run_step (mapper_parse_precipitation lib) reducer_monthly_totals lines) (\<lambda>monthly.
       run_step (\<lambda>(key, value). mapper_add_season key value) reducer_seasonal_analysis monthly)"


section \<open>A reference instance of the library functions\<close>

text \<open>
  The library functions on plain input, for running the jobs on concrete lines: the CSV
  reader on a line without quote, carriage return, line feed or NUL characters (where it
  splits at the commas, and an empty line has no field); \<^verbatim>\<open>float\<close> on a decimal numeral
  \<^verbatim>\<open>[-]digits[.digits]\<close> and on \<^verbatim>\<open>nan\<close>; and \<^verbatim>\<open>strptime\<close> on a date written
  \<^verbatim>\<open>YYYY-MM-DD\<close> with four, two and two digits.  On such input they return what the
  Python functions return.  Every other input is outside this instance, and the instance
  answers it with an exception, also where the Python function accepts the input (a
  numeral with an exponent, a sign \<^verbatim>\<open>+\<close> or surrounding white space for \<^verbatim>\<open>float\<close>, a
  month or day of one digit for \<^verbatim>\<open>strptime\<close>, a quoted field for the reader).  The
  instance serves only to run the jobs on the concrete lines below, all of them plain;
  every general statement is about an arbitrary instance of the library functions.
\<close>

definition plain_csv :: "string \<Rightarrow> pyexc + string list" where
  "plain_csv line =
     (if line = [] then Inr []
      else if list_ex (\<lambda>c. c \<in> set [CHR 0x22, CHR 0x0D, CHR 0x0A, CHR 0x00]) line then Inl CsvError
      else Inr (py_split (CHR '','') line))"

definition plain_float :: "string \<Rightarrow> pyexc + pyfloat" where
  "plain_float s =
     (if s = ''nan'' then Inr NaN
      else
        let neg = (s \<noteq> [] \<and> hd s = CHR ''-'');
            t = (if neg then tl s else s);
            whole = takeWhile is_digit t;
            rest = dropWhile is_digit t;
            frac = (if rest = [] then [] else tl rest)
        in if whole \<noteq> [] \<and> (rest = [] \<or> (hd rest = CHR ''.'' \<and> frac \<noteq> [] \<and> list_all is_digit frac))
           then let q = of_nat (nat_of_digits (whole @ frac)) / 10 ^ length frac
                in Inr (if q = 0 \<and> neg then NegZero else round_binary64 (if neg then - q else q))
           else Inl ValueError)"

definition days_in_month :: "nat \<Rightarrow> nat \<Rightarrow> nat" where
  "days_in_month y m =
     (if m = 2 then (if y mod 4 = 0 \<and> (y mod 100 \<noteq> 0 \<or> y mod 400 = 0) then 29 else 28)
      else if m \<in> set [4, 6, 9, 11] then 30 else 31)"

definition plain_strptime :: "string \<Rightarrow> pyexc + int \<times> int" where
  "plain_strptime s =
     (case py_split (CHR ''-'') s of
        [ys, ms, ds] \<Rightarrow>
          (let y = nat_of_digits ys; m = nat_of_digits ms; d = nat_of_digits ds
           in if length ys = 4 \<and> length ms = 2 \<and> length ds = 2 \<and> list_all is_digit (ys @ ms @ ds) \<and>
                 1 \<le> y \<and> 1 \<le> m \<and> m \<le> 12 \<and> 1 \<le> d \<and> d \<le> days_in_month y m
              then Inr (int y, int m) else Inl ValueError)
      | _ \<Rightarrow> Inl ValueError)"

definition plain_lib :: pylib where
  "plain_lib = \<lparr>csv_reader = plain_csv, float_of_str = plain_float, strptime_ymd = plain_strptime\<rparr>"


section \<open>Facts about the text functions\<close>

lemma py_split_not_Nil [simp]: "py_split c s \<noteq> []"
  by (induction s) (auto split: list.splits)

lemma py_split_append: "py_split c (xs @ c # ys) = py_split c xs @ py_split c ys"
proof (induction xs)
  case Nil
  show ?case by simp
next
  case (Cons x xs)
  obtain w ws where w: "py_split c xs = w # ws"
    by (cases "py_split c xs") simp_all
  with Cons show ?case by simp
qed

lemma py_split_none: "c \<notin> set s \<Longrightarrow> py_split c s = [s]"
  by (induction s) auto

lemma py_split_parts: "w \<in> set (py_split c s) \<Longrightarrow> c \<notin> set w"
proof (induction s arbitrary: w)
  case Nil
  then show ?case by simp
next
  case (Cons x xs)
  obtain v vs where v: "py_split c xs = v # vs"
    by (cases "py_split c xs") simp_all
  with Cons show ?case by (auto split: if_splits)
qed

lemma length_py_split: "length (py_split c s) = Suc (length (filter (\<lambda>x. x = c) s))"
proof (induction s)
  case Nil
  show ?case by simp
next
  case (Cons x xs)
  obtain v vs where v: "py_split c xs = v # vs"
    by (cases "py_split c xs") simp_all
  with Cons show ?case by auto
qed

lemma py_split_two_parts: "c \<in> set s \<Longrightarrow> 2 \<le> length (py_split c s)"
proof -
  assume "c \<in> set s"
  then have "filter (\<lambda>x. x = c) s \<noteq> []"
    by (simp add: filter_empty_conv)
  then have "0 < length (filter (\<lambda>x. x = c) s)" by blast
  then show ?thesis by (simp add: length_py_split Suc_le_eq)
qed

lemma digit_char_is_digit: "d < 10 \<Longrightarrow> is_digit (digit_char d)"
proof -
  assume "d < 10"
  then have "d \<in> set [0, 1, 2, 3, 4, 5, 6, 7, 8, 9]" by simp presburger
  then show ?thesis by (auto simp: digit_char_def is_digit_def)
qed

lemma digit_char_value: "d < 10 \<Longrightarrow> (of_char (digit_char d) :: nat) = 48 + d"
proof -
  assume "d < 10"
  then have "d \<in> set [0, 1, 2, 3, 4, 5, 6, 7, 8, 9]" by simp presburger
  then show ?thesis by (auto simp: digit_char_def)
qed

declare py_str_nat.simps [simp del]

lemma py_str_nat_not_Nil [simp]: "py_str_nat n \<noteq> []"
  by (subst py_str_nat.simps) simp

lemma py_str_nat_digits: "list_all is_digit (py_str_nat n)"
proof (induction n rule: py_str_nat.induct)
  case (1 n)
  show ?case
  proof (cases "n < 10")
    case True
    then show ?thesis
      by (subst py_str_nat.simps) (simp add: digit_char_is_digit)
  next
    case False
    with 1 show ?thesis
      by (subst py_str_nat.simps) (simp add: digit_char_is_digit)
  qed
qed

lemma nat_of_digits_snoc: "nat_of_digits (ds @ [c]) = 10 * nat_of_digits ds + (of_char c - 48)"
  by (simp add: nat_of_digits_def)

lemma nat_of_digits_py_str_nat: "nat_of_digits (py_str_nat n) = n"
proof (induction n rule: py_str_nat.induct)
  case (1 n)
  show ?case
  proof (cases "n < 10")
    case True
    then show ?thesis
      by (subst py_str_nat.simps) (simp add: nat_of_digits_def digit_char_value)
  next
    case False
    with 1 show ?thesis
      by (subst py_str_nat.simps) (simp add: nat_of_digits_snoc digit_char_value)
  qed
qed

lemma nat_of_digits_zeros: "nat_of_digits (replicate k (CHR ''0'') @ ds) = nat_of_digits ds"
proof -
  have "foldl (\<lambda>a c. 10 * a + (of_char c - 48)) 0 (replicate k (CHR ''0'')) = (0::nat)"
    by (induction k) simp_all
  then show ?thesis by (simp add: nat_of_digits_def)
qed

lemma is_digit_facts:
  "is_digit c \<Longrightarrow> \<not> is_space c" "is_digit c \<Longrightarrow> c \<noteq> CHR ''-''" "is_digit c \<Longrightarrow> c \<noteq> CHR ''+''"
  "is_digit c \<Longrightarrow> c \<noteq> CHR ''_''" "is_digit (CHR ''0'')" "\<not> is_space (CHR ''-'')"
  by (auto simp: is_digit_def is_space_def)

lemma py_strip_id: "s \<noteq> [] \<Longrightarrow> \<not> is_space (hd s) \<Longrightarrow> \<not> is_space (last s) \<Longrightarrow> py_strip s = s"
proof -
  assume s: "s \<noteq> []" and h: "\<not> is_space (hd s)" and l: "\<not> is_space (last s)"
  from s h have "dropWhile is_space s = s" by (cases s) simp_all
  moreover from s l have "dropWhile is_space (rev s) = rev s"
    by (cases "rev s") (simp_all add: last_rev [symmetric] del: last_rev)
  ultimately show ?thesis by (simp add: py_strip_def)
qed

lemma digits_ends:
  assumes "ds \<noteq> []" "list_all is_digit ds"
  shows "is_digit (hd ds)" "is_digit (last ds)"
  using assms by (simp_all add: list_all_iff)

lemma py_int_digits:
  assumes "ds \<noteq> []" "list_all is_digit ds"
  shows "py_int ds = Inr (int (nat_of_digits ds))"
proof -
  have "py_strip ds = ds"
    using assms digits_ends [OF assms] by (simp add: py_strip_id is_digit_facts)
  moreover have "hd ds \<noteq> CHR ''-''" "hd ds \<noteq> CHR ''+''"
    using digits_ends [OF assms] by (simp_all add: is_digit_facts)
  ultimately show ?thesis
    using assms by (simp add: py_int_def)
qed

lemma py_int_minus_digits:
  assumes "ds \<noteq> []" "list_all is_digit ds"
  shows "py_int (CHR ''-'' # ds) = Inr (- int (nat_of_digits ds))"
proof -
  have "last (CHR ''-'' # ds) = last ds" using assms by simp
  then have "py_strip (CHR ''-'' # ds) = CHR ''-'' # ds"
    using digits_ends [OF assms] by (simp add: py_strip_id is_digit_facts)
  then show ?thesis
    using assms by (simp add: py_int_def)
qed

lemma py_int_py_str: "py_int (py_str i) = Inr i"
  by (simp add: py_str_def py_int_digits py_int_minus_digits py_str_nat_digits
      nat_of_digits_py_str_nat)

lemma py_int_py_format_02d: "py_int (py_format_02d i) = Inr i"
proof (cases "i < 0")
  case True
  then show ?thesis
    by (simp add: py_format_02d_def py_int_minus_digits py_str_nat_digits nat_of_digits_py_str_nat)
next
  case False
  have "list_all is_digit (replicate k (CHR ''0'') @ py_str_nat (nat i))" for k
    using py_str_nat_digits [of "nat i"] by (auto simp: list_all_iff is_digit_facts)
  with False show ?thesis
    by (simp add: py_format_02d_def Let_def py_int_digits nat_of_digits_zeros
        nat_of_digits_py_str_nat)
qed

lemma no_underscore_digits: "list_all is_digit ds \<Longrightarrow> CHR ''_'' \<notin> set ds"
  by (auto simp: list_all_iff is_digit_def)

lemma no_underscore_py_str: "CHR ''_'' \<notin> set (py_str i)"
  using no_underscore_digits [OF py_str_nat_digits] by (simp add: py_str_def)

lemma no_underscore_py_format_02d: "CHR ''_'' \<notin> set (py_format_02d i)"
  using no_underscore_digits [OF py_str_nat_digits] by (auto simp: py_format_02d_def Let_def)

lemma split_stage1_key:
  "py_split (CHR ''_'') (stage1_key c y m) =
     py_split (CHR ''_'') c @ [py_str y, py_format_02d m]"
proof -
  have "stage1_key c y m = c @ CHR ''_'' # (py_str y @ CHR ''_'' # py_format_02d m)"
    by (simp add: stage1_key_def)
  then show ?thesis
    by (simp only: py_split_append)
      (simp add: py_split_none no_underscore_py_str no_underscore_py_format_02d)
qed

lemma stage1_key_not_ERROR: "stage1_key c y m \<noteq> ''ERROR''"
proof
  assume "stage1_key c y m = ''ERROR''"
  then have "CHR ''_'' \<in> set ''ERROR''"
    by (metis in_set_conv_decomp stage1_key_def append_Cons append_Nil)
  then show False by simp
qed


section \<open>Evaluating the model on concrete input\<close>

lemma floor_rat_numeral [simp]: "\<lfloor>numeral a / numeral b :: rat\<rfloor> = numeral a div numeral b"
  using floor_divide_of_int_eq [of "numeral a" "numeral b", where ?'a = rat] by simp

lemmas float_eval = round_binary64_def fl_exponent_def rne_def pow2_def Let_def compute_bitlen
  py_round2_def py_sum_def py_truediv_def then_do_def

lemmas text_eval = py_startswith_def py_str_def py_format_02d_def digit_char_def is_digit_def
  is_space_def nat_of_digits_def py_strip_def py_int_def stage1_key_def strftime_B_def
  month_names_def py_str_nat.simps

lemmas plain_eval = plain_lib_def plain_csv_def plain_float_def plain_strptime_def
  days_in_month_def float_or_def

lemmas json_eval = json_dumps_str_def json_ascii_def json_u_def json_point_def hex_digit_def
  less_char_def less_eq_char_def

section \<open>The season function\<close>

lemma get_season_labels:
  "distinct [get_season 1, get_season 3, get_season 6, get_season 9]"
  "get_season 1 = ''Verano''" "get_season 6 = ''Invierno''"
  by (simp_all add: get_season_def)

lemma get_season_unfold:
  "get_season m =
     (if m \<in> {12, 1, 2} then get_season 1 else if m \<in> {3, 4, 5} then get_season 3
      else if m \<in> {6, 7, 8} then get_season 6 else get_season 9)"
  by (simp add: get_season_def)

text \<open>
  Claim C3.  On the months 1..12 the season function assigns one of four pairwise
  different labels, and a month receives a label exactly when it lies in that label's
  bucket: {12, 1, 2} for Verano, {3, 4, 5} for Transicion, {6, 7, 8} for Invierno and
  {9, 10, 11} for Lluvias_Tardias.  Every month of 1..12 lies in exactly one bucket, so
  the buckets partition the months with no gap and no overlap.
\<close>

theorem C3_get_season_partition:
  "distinct [get_season 1, get_season 3, get_season 6, get_season 9] \<and>
   get_season 1 = ''Verano'' \<and> get_season 6 = ''Invierno'' \<and>
   (\<forall>m\<in>{1..12}.
      (get_season m = get_season 1) = (m \<in> {12, 1, 2}) \<and>
      (get_season m = get_season 3) = (m \<in> {3, 4, 5}) \<and>
      (get_season m = get_season 6) = (m \<in> {6, 7, 8}) \<and>
      (get_season m = get_season 9) = (m \<in> {9, 10, 11}))"
proof -
  define a b c d where "a = get_season 1" and "b = get_season 3"
    and "c = get_season 6" and "d = get_season 9"
  have dist: "distinct [a, b, c, d]"
    unfolding a_def b_def c_def d_def by (rule get_season_labels)
  have "(get_season m = a) = (m \<in> {12, 1, 2}) \<and> (get_season m = b) = (m \<in> {3, 4, 5}) \<and>
        (get_season m = c) = (m \<in> {6, 7, 8}) \<and> (get_season m = d) = (m \<in> {9, 10, 11})"
    if "m \<in> {1..12}" for m
  proof -
    have u: "get_season m =
       (if m \<in> {12, 1, 2} then a else if m \<in> {3, 4, 5} then b
        else if m \<in> {6, 7, 8} then c else d)"
      unfolding a_def b_def c_def d_def by (rule get_season_unfold)
    have "m \<in> {12, 1, 2} \<or> m \<in> {3, 4, 5} \<or> m \<in> {6, 7, 8} \<or> m \<in> {9, 10, 11}"
      using that by simp presburger
    then show ?thesis
      using dist unfolding u by auto
  qed
  then show ?thesis
    using get_season_labels unfolding a_def b_def c_def d_def by blast
qed

theorem C3_get_season_partition_witness:
  "(7::int) \<in> {1..12} \<and> (get_season 7 = get_season 6) = ((7::int) \<in> {6, 7, 8}) \<and>
   (get_season 7 = get_season 1) = ((7::int) \<in> {12, 1, 2}) \<and> get_season 6 = ''Invierno''"
proof -
  have h: "(7::int) \<in> {1..12}" by simp
  have "\<forall>m\<in>{1..12}.
      (get_season m = get_season 1) = (m \<in> {12, 1, 2}) \<and>
      (get_season m = get_season 3) = (m \<in> {3, 4, 5}) \<and>
      (get_season m = get_season 6) = (m \<in> {6, 7, 8}) \<and>
      (get_season m = get_season 9) = (m \<in> {9, 10, 11})"
    and l: "get_season 6 = ''Invierno''"
    using C3_get_season_partition by blast+
  from bspec [OF this(1) h] h l show ?thesis by blast
qed

section \<open>Rows with fewer than eight fields\<close>

text \<open>
  Claim C5, as the code has it.  A line whose row has fewer than eight fields makes both
  line parsers return without yielding anything: no record under a city key and no record
  under the error key either.  So the line is part of no group, and no error record
  reports it.
\<close>

theorem C5_short_row_yields_nothing:
  "csv_reader lib line = Inr row \<Longrightarrow> length row < 8 \<Longrightarrow>
     mapper_parse_data lib line = [] \<and> mapper_parse_precipitation lib line = []"
  by (simp add: mapper_parse_data_def parse_data_def mapper_parse_precipitation_def
      parse_precipitation_def then_do_def)

theorem C5_short_row_yields_nothing_witness:
  "csv_reader plain_lib ''2023-06-01,30.1,Cali'' = Inr [''2023-06-01'', ''30.1'', ''Cali''] \<and>
   length [''2023-06-01'', ''30.1'', ''Cali''] < 8 \<and>
   mapper_parse_data plain_lib ''2023-06-01,30.1,Cali'' = [] \<and>
   mapper_parse_precipitation plain_lib ''2023-06-01,30.1,Cali'' = []"
proof -
  have r: "csv_reader plain_lib ''2023-06-01,30.1,Cali'' = Inr [''2023-06-01'', ''30.1'', ''Cali'']"
    by (simp add: plain_eval)
  have l: "length [''2023-06-01'', ''30.1'', ''Cali''] < 8" by simp
  from C5_short_row_yields_nothing [OF r l] r l show ?thesis by blast
qed

text \<open>
  The claim as the specification words it fails: the line below has six fields, and the
  parsers put nothing on the error channel for it.
\<close>

theorem C5_short_row_counterexample:
  "csv_reader plain_lib ''2023-06-01,30.1,20.2,25.0,0.0,10.0'' =
     Inr [''2023-06-01'', ''30.1'', ''20.2'', ''25.0'', ''0.0'', ''10.0''] \<and>
   mapper_parse_data plain_lib ''2023-06-01,30.1,20.2,25.0,0.0,10.0'' = [] \<and>
   mapper_parse_precipitation plain_lib ''2023-06-01,30.1,20.2,25.0,0.0,10.0'' = []"
  by (simp add: mapper_parse_data_def parse_data_def mapper_parse_precipitation_def
      parse_precipitation_def then_do_def plain_eval py_startswith_def)

section \<open>Keys of the first stage read back in the second\<close>

lemma unpack3_stage1_key:
  "CHR ''_'' \<notin> set c \<Longrightarrow>
     unpack3 (py_split (CHR ''_'') (stage1_key c y m)) = Inr (c, py_str y, py_format_02d m)"
  by (simp add: split_stage1_key py_split_none)

lemma unpack3_length: "length xs \<noteq> 3 \<Longrightarrow> unpack3 xs = Inl ValueError"
  by (cases xs rule: unpack3.cases) simp_all

lemma unpack3_stage1_key_underscore:
  "CHR ''_'' \<in> set c \<Longrightarrow> unpack3 (py_split (CHR ''_'') (stage1_key c y m)) = Inl ValueError"
proof -
  assume "CHR ''_'' \<in> set c"
  from py_split_two_parts [OF this]
  have "length (py_split (CHR ''_'') (stage1_key c y m)) \<noteq> 3"
    by (simp add: split_stage1_key)
  then show ?thesis by (rule unpack3_length)
qed

text \<open>
  Claim C4, as the code has it.  The key of the first stage is one string, the city, the
  year and the two-digit month joined by underscores.  For a city name without an
  underscore (and a year and month that form a date) the second-stage mappers of both jobs
  split the key into exactly the city, year and month that built it.
\<close>

theorem C4_key_round_trip:
  "CHR ''_'' \<notin> set c \<Longrightarrow> 1 \<le> y \<Longrightarrow> y \<le> 9999 \<Longrightarrow> 1 \<le> m \<Longrightarrow> m \<le> 12 \<Longrightarrow>
     mapper_format_output (stage1_key c y m) stats =
       [(c @ ''_'' @ py_str y,
         Payload (temp_stats.extend stats
           \<lparr>temp_output.city = c, temp_output.year = y, temp_output.month = m,
            month_name = month_names ! nat (m - 1)\<rparr>))] \<and>
     mapper_add_season (stage1_key c y m) data =
       [(c @ ''_'' @ get_season m @ ''_'' @ py_str y,
         Payload (precip_stats.extend data
           \<lparr>season_data.city = c, season_data.year = y, season_data.month = m,
            season_data.season = get_season m\<rparr>))]"
  by (simp add: mapper_format_output_def format_output_def mapper_add_season_def add_season_def
      stage1_key_not_ERROR unpack3_stage1_key then_do_def py_int_py_str py_int_py_format_02d
      strftime_B_def Let_def)


theorem C4_key_round_trip_witness:
  "CHR ''_'' \<notin> set ''Cali'' \<and> (1::int) \<le> 2023 \<and> (2023::int) \<le> 9999 \<and> (1::int) \<le> 6 \<and> (6::int) \<le> 12 \<and>
   stage1_key ''Cali'' 2023 6 = ''Cali_2023_06'' \<and>
   (\<forall>stats. mapper_format_output ''Cali_2023_06'' stats =
       [(''Cali_2023'',
         Payload (temp_stats.extend stats
           \<lparr>temp_output.city = ''Cali'', temp_output.year = 2023, temp_output.month = 6,
            month_name = ''June''\<rparr>))]) \<and>
   (\<forall>data. mapper_add_season ''Cali_2023_06'' data =
       [(''Cali_Invierno_2023'',
         Payload (precip_stats.extend data
           \<lparr>season_data.city = ''Cali'', season_data.year = 2023, season_data.month = 6,
            season_data.season = ''Invierno''\<rparr>))])"
proof -
  have h: "CHR ''_'' \<notin> set ''Cali''" "(1::int) \<le> 2023" "(2023::int) \<le> 9999" "(1::int) \<le> 6"
    "(6::int) \<le> 12"
    by simp_all
  have k: "stage1_key ''Cali'' 2023 6 = ''Cali_2023_06''" "py_str 2023 = ''2023''"
    "get_season 6 = ''Invierno''" "month_names ! nat (6 - 1) = ''June''"
    by (simp_all add: text_eval get_season_def)
  note r = C4_key_round_trip [OF h, unfolded k]
  from h k(1) r show ?thesis by simp
qed

text \<open>
  The claim as the specification words it fails: the key is a string, and for the city
  name San_Andres the second mapper splits it into four parts, cannot unpack them into
  three and sends the record to the error key instead of recovering city, year and month.
\<close>

theorem C4_key_round_trip_counterexample:
  "stage1_key ''San_Andres'' 2023 6 = ''San_Andres_2023_06'' \<and>
   py_split (CHR ''_'') ''San_Andres_2023_06'' = [''San'', ''Andres'', ''2023'', ''06''] \<and>
   mapper_format_output ''San_Andres_2023_06''
     \<lparr>city_year_month = ''San_Andres_2023_06'', avg_temp_max = Finite 30,
      avg_temp_min = Finite 20, avg_temp_mean = Finite 25, max_temp_recorded = Finite 30,
      min_temp_recorded = Finite 20, temp_stats.total_days = 30\<rparr> =
     [(''ERROR'', ErrorText ''Format error: '' ValueError)]"
  by (simp add: mapper_format_output_def format_output_def then_do_def text_eval)

section \<open>Facts about the framework\<close>

lemma collect_Inr:
  "(\<And>r. r \<in> set rs \<Longrightarrow> \<exists>xs. r = Inr xs) \<Longrightarrow> collect rs = Inr (concat (map projr rs))"
proof (induction rs)
  case Nil
  show ?case by simp
next
  case (Cons r rs)
  from Cons.prems obtain xs where "r = Inr xs" by auto
  moreover have "collect rs = Inr (concat (map projr rs))"
    using Cons by simp
  ultimately show ?case by (simp add: then_do_def)
qed

lemma collect_Inr_D:
  "collect rs = Inr out \<Longrightarrow> (\<forall>r\<in>set rs. \<exists>xs. r = Inr xs) \<and> out = concat (map projr rs)"
proof (induction rs arbitrary: out)
  case Nil
  then show ?case by simp
next
  case (Cons r rs)
  then show ?case
    by (auto simp: then_do_def split: sum.splits)
qed

lemma shuffle_member:
  "(k, vs) \<in> set (shuffle kvs) \<Longrightarrow>
     vs = values_of k kvs \<and> vs \<noteq> [] \<and> (\<forall>v\<in>set vs. (k, v) \<in> set kvs)"
  by (fastforce simp: shuffle_def values_of_def filter_empty_conv)

lemma shuffle_distinct: "distinct (map fst (shuffle kvs))"
  by (simp add: shuffle_def comp_def)

lemma run_step_total:
  assumes "\<And>k vs. (k, vs) \<in> set (shuffle (concat (map mapper inputs))) \<Longrightarrow> \<exists>out. reducer k vs = Inr out"
  shows "run_step mapper reducer inputs =
     Inr (concat (map (\<lambda>(k, vs). projr (reducer k vs)) (shuffle (concat (map mapper inputs)))))"
proof -
  have "collect (map (\<lambda>(k, vs). reducer k vs) (shuffle (concat (map mapper inputs)))) =
    Inr (concat (map projr (map (\<lambda>(k, vs). reducer k vs) (shuffle (concat (map mapper inputs))))))"
    by (rule collect_Inr) (use assms in auto)
  then show ?thesis
    by (simp add: run_step_def comp_def case_prod_unfold)
qed

lemma run_step_member:
  assumes "run_step mapper reducer inputs = Inr out" "x \<in> set out"
  shows "\<exists>k vs xs. (k, vs) \<in> set (shuffle (concat (map mapper inputs))) \<and>
     reducer k vs = Inr xs \<and> x \<in> set xs"
proof -
  from collect_Inr_D [OF assms(1) [unfolded run_step_def]] assms(2)
  obtain r where r: "r \<in> set (map (\<lambda>(k, vs). reducer k vs) (shuffle (concat (map mapper inputs))))"
    "x \<in> set (projr r)" and all: "\<forall>r\<in>set (map (\<lambda>(k, vs). reducer k vs) (shuffle (concat (map mapper inputs)))). \<exists>xs. r = Inr xs"
    by auto
  from all r(1) obtain xs where xs: "r = Inr xs" by blast
  from r(1) obtain k vs where "(k, vs) \<in> set (shuffle (concat (map mapper inputs)))"
    "r = reducer k vs"
    by auto
  with xs r(2) show ?thesis by (metis sum.sel(2))
qed

lemma loaded_member: "x \<in> set (loaded vs) \<longleftrightarrow> Payload x \<in> set vs"
  by (induction vs rule: loaded.induct) auto

lemma loaded_map_Payload [simp]: "loaded (map Payload xs) = xs"
  by (induction xs) simp_all


lemma all_payloads: "(\<forall>v\<in>set vs. \<exists>x. v = Payload x) \<Longrightarrow> map Payload (loaded vs) = vs"
  by (induction vs rule: loaded.induct) auto

lemma length_loaded_le: "length (loaded vs) \<le> length vs"
  by (induction vs rule: loaded.induct) auto

section \<open>The monthly temperature aggregate\<close>

lemma mapper_parse_data_pairs:
  "(k, v) \<in> set (mapper_parse_data lib line) \<Longrightarrow>
     (k = ''ERROR'' \<and> (\<exists>e. v = ErrorText ''Error processing line: '' e)) \<or>
     (\<exists>c y m obs. k = stage1_key c y m \<and> v = Payload obs \<and> count obs = 1)"
  by (auto simp: mapper_parse_data_def parse_data_def then_do_def float_or_def Let_def
      split: sum.splits if_splits option.splits prod.splits) blast+

lemma py_max_Cons: "xs \<noteq> [] \<Longrightarrow> \<exists>m. py_max xs = Inr m"
  by (cases xs) simp_all

lemma py_min_Cons: "xs \<noteq> [] \<Longrightarrow> \<exists>m. py_min xs = Inr m"
  by (cases xs) simp_all

lemma mean_Cons: "xs \<noteq> [] \<Longrightarrow> mean xs = Inr (fdiv_len (py_sum xs) (length xs))"
  by (simp add: mean_def py_truediv_def)

lemma reducer_aggregate_temps_payloads:
  assumes "key \<noteq> ''ERROR''" "obs \<noteq> []"
  shows "\<exists>a b c mx mn.
     mean (map temp_max obs) = Inr a \<and> mean (map temp_min obs) = Inr b \<and>
     mean (map temp_mean obs) = Inr c \<and>
     py_max (map temp_max obs) = Inr mx \<and> py_min (map temp_min obs) = Inr mn \<and>
     reducer_aggregate_temps key (map Payload obs) =
       Inr [(key,
         \<lparr>city_year_month = key, avg_temp_max = py_round2 a, avg_temp_min = py_round2 b,
          avg_temp_mean = py_round2 c, max_temp_recorded = py_round2 mx,
          min_temp_recorded = py_round2 mn,
          temp_stats.total_days = sum_list (map count obs)\<rparr>)]"
proof -
  from assms(2) obtain mx mn where m: "py_max (map temp_max obs) = Inr mx"
    "py_min (map temp_min obs) = Inr mn"
    using py_max_Cons [of "map temp_max obs"] py_min_Cons [of "map temp_min obs"] by auto
  with assms show ?thesis
    by (simp add: reducer_aggregate_temps_def mean_Cons mean_def [symmetric] then_do_def)
qed

lemma sum_list_ones: "(\<forall>x\<in>set xs. f x = (1::int)) \<Longrightarrow> sum_list (map f xs) = int (length xs)"
  by (induction xs) simp_all

text \<open>
  Claim C1, as the code has it.  Take a key other than the error key and a non-empty
  group of values that the line parser emitted under it, that is, N valid daily records.
  The monthly reducer emits one record for the key: the day count is N; each of the three
  averages is the mean of its column, rounded to two decimals; and the recorded maximum
  and minimum are the maximum of the daily maxima and the minimum of the daily minima,
  each rounded to two decimals as well.
\<close>

theorem C1_monthly_temperature_aggregate:
  assumes "key \<noteq> ''ERROR''" and "values \<noteq> []"
    and "\<forall>v\<in>set values. \<exists>line. (key, v) \<in> set (mapper_parse_data lib line)"
  shows "\<exists>obs a b c mx mn.
     values = map Payload obs \<and>
     mean (map temp_max obs) = Inr a \<and> mean (map temp_min obs) = Inr b \<and>
     mean (map temp_mean obs) = Inr c \<and>
     py_max (map temp_max obs) = Inr mx \<and> py_min (map temp_min obs) = Inr mn \<and>
     reducer_aggregate_temps key values =
       Inr [(key,
         \<lparr>city_year_month = key, avg_temp_max = py_round2 a, avg_temp_min = py_round2 b,
          avg_temp_mean = py_round2 c, max_temp_recorded = py_round2 mx,
          min_temp_recorded = py_round2 mn,
          temp_stats.total_days = int (length values)\<rparr>)]"
proof -
  have shape: "\<exists>obs. v = Payload obs \<and> count obs = 1" if "v \<in> set values" for v
    using assms(1,3) that mapper_parse_data_pairs by blast
  then have vs: "map Payload (loaded values) = values"
    by (intro all_payloads) blast
  have ones: "\<forall>obs\<in>set (loaded values). count obs = 1"
    using shape by (fastforce simp: loaded_member)
  have ne: "loaded values \<noteq> []"
    using vs assms(2) by auto
  have len: "length (loaded values) = length values"
    using vs by (metis length_map)
  from reducer_aggregate_temps_payloads [OF assms(1) ne]
  show ?thesis
    unfolding vs sum_list_ones [OF ones] len using vs by metis
qed


theorem C1_monthly_temperature_aggregate_witness:
  "''Cali_2023_06'' \<noteq> ''ERROR'' \<and>
   mapper_parse_data plain_lib ''2023-06-01,29.5,21.0,25.0,0.0,10.0,3600.0,Cali'' =
     [(''Cali_2023_06'',
       Payload \<lparr>temp_max = Finite (59 / 2), temp_min = Finite 21, temp_mean = Finite 25, count = 1\<rparr>)] \<and>
   mapper_parse_data plain_lib ''2023-06-02,31.0,20.5,25.5,0.0,10.0,3600.0,Cali'' =
     [(''Cali_2023_06'',
       Payload \<lparr>temp_max = Finite 31, temp_min = Finite (41 / 2), temp_mean = Finite (51 / 2), count = 1\<rparr>)] \<and>
   mapper_parse_data plain_lib ''2023-06-03,30.0,19.0,24.25,0.0,10.0,3600.0,Cali'' =
     [(''Cali_2023_06'',
       Payload \<lparr>temp_max = Finite 30, temp_min = Finite 19, temp_mean = Finite (97 / 4), count = 1\<rparr>)] \<and>
   mean [Finite (59 / 2), Finite 31, Finite 30] =
     Inr (Finite (8491161797438123 / 281474976710656)) \<and>
   mean [Finite 21, Finite (41 / 2), Finite 19] =
     Inr (Finite (5676412030331563 / 281474976710656)) \<and>
   mean [Finite 25, Finite (51 / 2), Finite (97 / 4)] =
     Inr (Finite (7013418169707179 / 281474976710656)) \<and>
   py_max [Finite (59 / 2), Finite 31, Finite 30] = Inr (Finite 31) \<and>
   py_min [Finite 21, Finite (41 / 2), Finite 19] = Inr (Finite 19) \<and>
   reducer_aggregate_temps ''Cali_2023_06''
     [Payload \<lparr>temp_max = Finite (59 / 2), temp_min = Finite 21, temp_mean = Finite 25, count = 1\<rparr>,
      Payload \<lparr>temp_max = Finite 31, temp_min = Finite (41 / 2), temp_mean = Finite (51 / 2), count = 1\<rparr>,
      Payload \<lparr>temp_max = Finite 30, temp_min = Finite 19, temp_mean = Finite (97 / 4), count = 1\<rparr>] =
     Inr [(''Cali_2023_06'',
       \<lparr>city_year_month = ''Cali_2023_06'',
        avg_temp_max = Finite (2123025011840123 / 70368744177664),
        avg_temp_min = Finite (1419337570063483 / 70368744177664),
        avg_temp_mean = Finite (1753589104907387 / 70368744177664),
        max_temp_recorded = Finite 31, min_temp_recorded = Finite 19,
        temp_stats.total_days = 3\<rparr>)]"
proof -
  let ?o1 = "\<lparr>temp_max = Finite (59 / 2), temp_min = Finite 21, temp_mean = Finite 25, count = 1\<rparr>"
  let ?o2 = "\<lparr>temp_max = Finite 31, temp_min = Finite (41 / 2), temp_mean = Finite (51 / 2), count = 1\<rparr>"
  let ?o3 = "\<lparr>temp_max = Finite 30, temp_min = Finite 19, temp_mean = Finite (97 / 4), count = 1\<rparr>"
  have m1: "mapper_parse_data plain_lib ''2023-06-01,29.5,21.0,25.0,0.0,10.0,3600.0,Cali'' =
      [(''Cali_2023_06'', Payload ?o1)]"
    by (simp add: mapper_parse_data_def parse_data_def plain_eval float_eval text_eval)
  have m2: "mapper_parse_data plain_lib ''2023-06-02,31.0,20.5,25.5,0.0,10.0,3600.0,Cali'' =
      [(''Cali_2023_06'', Payload ?o2)]"
    by (simp add: mapper_parse_data_def parse_data_def plain_eval float_eval text_eval)
  have m3: "mapper_parse_data plain_lib ''2023-06-03,30.0,19.0,24.25,0.0,10.0,3600.0,Cali'' =
      [(''Cali_2023_06'', Payload ?o3)]"
    by (simp add: mapper_parse_data_def parse_data_def plain_eval float_eval text_eval)
  have e1: "mean [Finite (59 / 2), Finite 31, Finite 30] =
      Inr (Finite (8491161797438123 / 281474976710656))"
    by (simp add: mean_def float_eval)
  have e2: "mean [Finite 21, Finite (41 / 2), Finite 19] =
      Inr (Finite (5676412030331563 / 281474976710656))"
    by (simp add: mean_def float_eval)
  have e3: "mean [Finite 25, Finite (51 / 2), Finite (97 / 4)] =
      Inr (Finite (7013418169707179 / 281474976710656))"
    by (simp add: mean_def float_eval)
  have e4: "py_max [Finite (59 / 2), Finite 31, Finite 30] = Inr (Finite 31)"
    and e5: "py_min [Finite 21, Finite (41 / 2), Finite 19] = Inr (Finite 19)"
    by simp_all
  have r1: "py_round2 (Finite (8491161797438123 / 281474976710656)) =
      Finite (2123025011840123 / 70368744177664)"
    and r2: "py_round2 (Finite (5676412030331563 / 281474976710656)) =
      Finite (1419337570063483 / 70368744177664)"
    and r3: "py_round2 (Finite (7013418169707179 / 281474976710656)) =
      Finite (1753589104907387 / 70368744177664)"
    and r4: "py_round2 (Finite 31) = Finite 31" and r5: "py_round2 (Finite 19) = Finite 19"
    by (simp_all add: float_eval)
  have h1: "''Cali_2023_06'' \<noteq> ''ERROR''"
    and h2: "[Payload ?o1, Payload ?o2, Payload ?o3] \<noteq> []"
    by simp_all
  have h3: "\<forall>v\<in>set [Payload ?o1, Payload ?o2, Payload ?o3].
      \<exists>line. (''Cali_2023_06'', v) \<in> set (mapper_parse_data plain_lib line)"
  proof -
    have "\<exists>line. (''Cali_2023_06'', Payload ?o1) \<in> set (mapper_parse_data plain_lib line)"
      by (rule exI [of _ "''2023-06-01,29.5,21.0,25.0,0.0,10.0,3600.0,Cali''"]) (simp only: m1 list.set_intros)
    moreover have "\<exists>line. (''Cali_2023_06'', Payload ?o2) \<in> set (mapper_parse_data plain_lib line)"
      by (rule exI [of _ "''2023-06-02,31.0,20.5,25.5,0.0,10.0,3600.0,Cali''"]) (simp only: m2 list.set_intros)
    moreover have "\<exists>line. (''Cali_2023_06'', Payload ?o3) \<in> set (mapper_parse_data plain_lib line)"
      by (rule exI [of _ "''2023-06-03,30.0,19.0,24.25,0.0,10.0,3600.0,Cali''"]) (simp only: m3 list.set_intros)
    ultimately show ?thesis by simp
  qed
  have r: "reducer_aggregate_temps ''Cali_2023_06'' [Payload ?o1, Payload ?o2, Payload ?o3] =
     Inr [(''Cali_2023_06'',
       \<lparr>city_year_month = ''Cali_2023_06'',
        avg_temp_max = Finite (2123025011840123 / 70368744177664),
        avg_temp_min = Finite (1419337570063483 / 70368744177664),
        avg_temp_mean = Finite (1753589104907387 / 70368744177664),
        max_temp_recorded = Finite 31, min_temp_recorded = Finite 19,
        temp_stats.total_days = 3\<rparr>)]"
    using C1_monthly_temperature_aggregate [OF h1 h2 h3]
  proof (elim exE conjE)
    fix obs a b c mx mn
    assume v: "[Payload ?o1, Payload ?o2, Payload ?o3] = map Payload obs"
      and a: "mean (map temp_max obs) = Inr a" and b: "mean (map temp_min obs) = Inr b"
      and c: "mean (map temp_mean obs) = Inr c"
      and mx: "py_max (map temp_max obs) = Inr mx" and mn: "py_min (map temp_min obs) = Inr mn"
      and red: "reducer_aggregate_temps ''Cali_2023_06'' [Payload ?o1, Payload ?o2, Payload ?o3] =
        Inr [(''Cali_2023_06'',
          \<lparr>city_year_month = ''Cali_2023_06'', avg_temp_max = py_round2 a,
           avg_temp_min = py_round2 b, avg_temp_mean = py_round2 c,
           max_temp_recorded = py_round2 mx, min_temp_recorded = py_round2 mn,
           temp_stats.total_days = int (length [Payload ?o1, Payload ?o2, Payload ?o3])\<rparr>)]"
    from v have "loaded [Payload ?o1, Payload ?o2, Payload ?o3] = loaded (map Payload obs)"
      by (rule arg_cong)
    then have obs: "obs = [?o1, ?o2, ?o3]" by simp
    from a b c mx mn have "a = Finite (8491161797438123 / 281474976710656)"
      "b = Finite (5676412030331563 / 281474976710656)"
      "c = Finite (7013418169707179 / 281474976710656)" "mx = Finite 31" "mn = Finite 19"
      unfolding obs by (simp_all add: e1 e2 e3 e4 e5)
    with red show ?thesis by (simp add: r1 r2 r3 r4 r5)
  qed
  from h1 m1 m2 m3 e1 e2 e3 e4 e5 r show ?thesis by (intro conjI)
qed

text \<open>
  The claim as the specification words it fails in one place: the recorded maximum and
  minimum are not the maximum of the daily maxima and the minimum of the daily minima but
  those values rounded to two decimals.  Three days of one month have the maxima 29.0,
  30.125 and 28.0 and the minima 21.0, 20.0 and 19.875.  The maximum of the maxima is the
  float 30.125 (\<open>241 / 8\<close>) of the second day and the minimum of the minima is the float
  19.875 (\<open>159 / 8\<close>) of the third day; the reducer records the floats nearest to 30.12 and
  to 19.88.
\<close>

theorem C1_monthly_temperature_counterexample:
  "mapper_parse_data plain_lib ''2023-06-01,29.0,21.0,25.0,0.0,10.0,3600.0,Cali'' =
     [(''Cali_2023_06'',
       Payload \<lparr>temp_max = Finite 29, temp_min = Finite 21, temp_mean = Finite 25, count = 1\<rparr>)] \<and>
   mapper_parse_data plain_lib ''2023-06-02,30.125,20.0,25.5,0.0,10.0,3600.0,Cali'' =
     [(''Cali_2023_06'',
       Payload \<lparr>temp_max = Finite (241 / 8), temp_min = Finite 20, temp_mean = Finite (51 / 2), count = 1\<rparr>)] \<and>
   mapper_parse_data plain_lib ''2023-06-03,28.0,19.875,24.25,0.0,10.0,3600.0,Cali'' =
     [(''Cali_2023_06'',
       Payload \<lparr>temp_max = Finite 28, temp_min = Finite (159 / 8), temp_mean = Finite (97 / 4), count = 1\<rparr>)] \<and>
   py_max [Finite 29, Finite (241 / 8), Finite 28] = Inr (Finite (241 / 8)) \<and>
   py_min [Finite 21, Finite 20, Finite (159 / 8)] = Inr (Finite (159 / 8)) \<and>
   reducer_aggregate_temps ''Cali_2023_06''
     [Payload \<lparr>temp_max = Finite 29, temp_min = Finite 21, temp_mean = Finite 25, count = 1\<rparr>,
      Payload \<lparr>temp_max = Finite (241 / 8), temp_min = Finite 20, temp_mean = Finite (51 / 2), count = 1\<rparr>,
      Payload \<lparr>temp_max = Finite 28, temp_min = Finite (159 / 8), temp_mean = Finite (97 / 4), count = 1\<rparr>] =
     Inr [(''Cali_2023_06'',
       \<lparr>city_year_month = ''Cali_2023_06'',
        avg_temp_max = Finite (4087016661838725 / 140737488355328),
        avg_temp_min = Finite (2855563638729605 / 140737488355328),
        avg_temp_mean = Finite (1753589104907387 / 70368744177664),
        max_temp_recorded = Finite (8478026298524959 / 281474976710656),
        min_temp_recorded = Finite (5595722537007841 / 281474976710656),
        temp_stats.total_days = 3\<rparr>)] \<and>
   Finite (8478026298524959 / 281474976710656) \<noteq> Finite (241 / 8) \<and>
   Finite (5595722537007841 / 281474976710656) \<noteq> Finite (159 / 8)"
proof -
  have m: "mapper_parse_data plain_lib ''2023-06-01,29.0,21.0,25.0,0.0,10.0,3600.0,Cali'' =
     [(''Cali_2023_06'',
       Payload \<lparr>temp_max = Finite 29, temp_min = Finite 21, temp_mean = Finite 25, count = 1\<rparr>)]"
    "mapper_parse_data plain_lib ''2023-06-02,30.125,20.0,25.5,0.0,10.0,3600.0,Cali'' =
     [(''Cali_2023_06'',
       Payload \<lparr>temp_max = Finite (241 / 8), temp_min = Finite 20, temp_mean = Finite (51 / 2), count = 1\<rparr>)]"
    "mapper_parse_data plain_lib ''2023-06-03,28.0,19.875,24.25,0.0,10.0,3600.0,Cali'' =
     [(''Cali_2023_06'',
       Payload \<lparr>temp_max = Finite 28, temp_min = Finite (159 / 8), temp_mean = Finite (97 / 4), count = 1\<rparr>)]"
    by (simp_all add: mapper_parse_data_def parse_data_def plain_eval float_eval text_eval)
  have x: "py_max [Finite 29, Finite (241 / 8), Finite 28] = Inr (Finite (241 / 8))"
    "py_min [Finite 21, Finite 20, Finite (159 / 8)] = Inr (Finite (159 / 8))"
    by simp_all
  have r: "reducer_aggregate_temps ''Cali_2023_06''
     [Payload \<lparr>temp_max = Finite 29, temp_min = Finite 21, temp_mean = Finite 25, count = 1\<rparr>,
      Payload \<lparr>temp_max = Finite (241 / 8), temp_min = Finite 20, temp_mean = Finite (51 / 2), count = 1\<rparr>,
      Payload \<lparr>temp_max = Finite 28, temp_min = Finite (159 / 8), temp_mean = Finite (97 / 4), count = 1\<rparr>] =
     Inr [(''Cali_2023_06'',
       \<lparr>city_year_month = ''Cali_2023_06'',
        avg_temp_max = Finite (4087016661838725 / 140737488355328),
        avg_temp_min = Finite (2855563638729605 / 140737488355328),
        avg_temp_mean = Finite (1753589104907387 / 70368744177664),
        max_temp_recorded = Finite (8478026298524959 / 281474976710656),
        min_temp_recorded = Finite (5595722537007841 / 281474976710656),
        temp_stats.total_days = 3\<rparr>)]"
    by (simp add: reducer_aggregate_temps_def float_eval)
  have n: "Finite (8478026298524959 / 281474976710656) \<noteq> Finite (241 / 8)"
    "Finite (5595722537007841 / 281474976710656) \<noteq> Finite (159 / 8)"
    by simp_all
  from m x r n show ?thesis by (intro conjI)
qed

section \<open>What the second-stage mappers emit\<close>

lemma unpack3_Inr: "unpack3 xs = Inr (a, b, c) \<longleftrightarrow> xs = [a, b, c]"
  by (cases xs rule: unpack3.cases) auto

lemma mapper_format_output_pairs:
  "(k, v) \<in> set (mapper_format_output k1 s) \<Longrightarrow>
     (k = ''ERROR'' \<and> (\<exists>e. v = ErrorText ''Format error: '' e)) \<or>
     (\<exists>c ys ms y m. py_split (CHR ''_'') k1 = [c, ys, ms] \<and> py_int ys = Inr y \<and>
        py_int ms = Inr m \<and> 1 \<le> m \<and> m \<le> 12 \<and> k = c @ ''_'' @ ys \<and>
        v = Payload (temp_stats.extend s
              \<lparr>temp_output.city = c, temp_output.year = y, temp_output.month = m,
               month_name = month_names ! nat (m - 1)\<rparr>))"
  by (auto simp: mapper_format_output_def format_output_def then_do_def strftime_B_def
      unpack3_Inr split: sum.splits if_splits prod.splits)

lemma mapper_add_season_pairs:
  "(k, v) \<in> set (mapper_add_season k1 s) \<Longrightarrow>
     (k = ''ERROR'' \<and> (\<exists>e. v = ErrorText ''Season mapping error: '' e)) \<or>
     (\<exists>c ys ms y m. py_split (CHR ''_'') k1 = [c, ys, ms] \<and> py_int ys = Inr y \<and>
        py_int ms = Inr m \<and> k = c @ ''_'' @ get_season m @ ''_'' @ ys \<and>
        v = Payload (precip_stats.extend s
              \<lparr>season_data.city = c, season_data.year = y, season_data.month = m,
               season_data.season = get_season m\<rparr>))"
  by (auto simp: mapper_add_season_def add_season_def then_do_def Let_def
      unpack3_Inr split: sum.splits if_splits prod.splits)

section \<open>The seasonal aggregate\<close>

lemma reducer_seasonal_analysis_payloads:
  assumes "key \<noteq> ''ERROR''" "ds \<noteq> []"
  shows "\<exists>avg mx.
     mean (map monthly_total ds) = Inr avg \<and> py_max (map monthly_total ds) = Inr mx \<and>
     reducer_seasonal_analysis key (map Payload ds) =
       Inr [\<lparr>season_result.city = season_data.city (hd ds),
             season_result.year = season_data.year (hd ds),
             season_result.season = season_data.season (hd ds),
             total_seasonal_precipitation = py_round2 (py_sum (map monthly_total ds)),
             avg_monthly_precipitation = py_round2 avg,
             max_monthly_precipitation = py_round2 mx,
             total_rainy_days = sum_list (map days_with_rain ds),
             months_in_season = int (length ds)\<rparr>]"
proof -
  from assms(2) obtain mx where m: "py_max (map monthly_total ds) = Inr mx"
    using py_max_Cons [of "map monthly_total ds"] by auto
  with assms show ?thesis
    by (simp add: reducer_seasonal_analysis_def mean_def py_truediv_def then_do_def Let_def)
qed

text \<open>
  Claim C2, as the code has it.  Take a key other than the error key and a non-empty
  group of values that the season mapper emitted under it: S monthly records of one city,
  season and year.  The seasonal reducer emits one row.  Its average is the sum of the
  monthly totals divided by S, the number of records present (never by a fixed season
  length), rounded to two decimals, and S is the row's number of months.  The row also
  holds the sum of the monthly totals rounded to two decimals, the sum of the days with
  rain, and the maximum of the monthly totals rounded to two decimals.
\<close>

theorem C2_seasonal_aggregate:
  assumes "key \<noteq> ''ERROR''" and "values \<noteq> []"
    and "\<forall>v\<in>set values. \<exists>k1 s. (key, v) \<in> set (mapper_add_season k1 s)"
  shows "\<exists>ds avg mx.
     values = map Payload ds \<and>
     mean (map monthly_total ds) = Inr avg \<and> py_max (map monthly_total ds) = Inr mx \<and>
     reducer_seasonal_analysis key values =
       Inr [\<lparr>season_result.city = season_data.city (hd ds),
             season_result.year = season_data.year (hd ds),
             season_result.season = season_data.season (hd ds),
             total_seasonal_precipitation = py_round2 (py_sum (map monthly_total ds)),
             avg_monthly_precipitation = py_round2 avg,
             max_monthly_precipitation = py_round2 mx,
             total_rainy_days = sum_list (map days_with_rain ds),
             months_in_season = int (length values)\<rparr>]"
proof -
  have shape: "\<exists>d. v = Payload d" if "v \<in> set values" for v
    using assms(1,3) that mapper_add_season_pairs by blast
  then have vs: "map Payload (loaded values) = values"
    by (intro all_payloads) blast
  have ne: "loaded values \<noteq> []"
    using vs assms(2) by auto
  have len: "length (loaded values) = length values"
    using vs by (metis length_map)
  from reducer_seasonal_analysis_payloads [OF assms(1) ne]
  show ?thesis
    unfolding vs len using vs by metis
qed


theorem C2_seasonal_aggregate_witness:
  "''Cali_Invierno_2023'' \<noteq> ''ERROR'' \<and>
   [Payload \<lparr>monthly_total = Finite (3602879701896397 / 36028797018963968), days_with_rain = 1,
        max_daily_precipitation = Finite (3602879701896397 / 36028797018963968),
        avg_daily_precipitation = Finite 0, precip_stats.total_days = 30,
        season_data.city = ''Cali'', season_data.year = 2023, season_data.month = 6,
        season_data.season = ''Invierno''\<rparr>, Payload \<lparr>monthly_total = Finite (3602879701896397 / 18014398509481984), days_with_rain = 2,
        max_daily_precipitation = Finite (3602879701896397 / 36028797018963968),
        avg_daily_precipitation = Finite (5764607523034235 / 576460752303423488),
        precip_stats.total_days = 31,
        season_data.city = ''Cali'', season_data.year = 2023, season_data.month = 7,
        season_data.season = ''Invierno''\<rparr>] \<noteq> [] \<and>
   (''Cali_Invierno_2023'', Payload \<lparr>monthly_total = Finite (3602879701896397 / 36028797018963968), days_with_rain = 1,
        max_daily_precipitation = Finite (3602879701896397 / 36028797018963968),
        avg_daily_precipitation = Finite 0, precip_stats.total_days = 30,
        season_data.city = ''Cali'', season_data.year = 2023, season_data.month = 6,
        season_data.season = ''Invierno''\<rparr>) \<in> set (mapper_add_season ''Cali_2023_06'' \<lparr>monthly_total = Finite (3602879701896397 / 36028797018963968), days_with_rain = 1,
        max_daily_precipitation = Finite (3602879701896397 / 36028797018963968),
        avg_daily_precipitation = Finite 0, precip_stats.total_days = 30\<rparr>) \<and>
   (''Cali_Invierno_2023'', Payload \<lparr>monthly_total = Finite (3602879701896397 / 18014398509481984), days_with_rain = 2,
        max_daily_precipitation = Finite (3602879701896397 / 36028797018963968),
        avg_daily_precipitation = Finite (5764607523034235 / 576460752303423488),
        precip_stats.total_days = 31,
        season_data.city = ''Cali'', season_data.year = 2023, season_data.month = 7,
        season_data.season = ''Invierno''\<rparr>) \<in> set (mapper_add_season ''Cali_2023_07'' \<lparr>monthly_total = Finite (3602879701896397 / 18014398509481984), days_with_rain = 2,
        max_daily_precipitation = Finite (3602879701896397 / 36028797018963968),
        avg_daily_precipitation = Finite (5764607523034235 / 576460752303423488),
        precip_stats.total_days = 31\<rparr>) \<and>
   (\<exists>ds avg mx.
     [Payload \<lparr>monthly_total = Finite (3602879701896397 / 36028797018963968), days_with_rain = 1,
        max_daily_precipitation = Finite (3602879701896397 / 36028797018963968),
        avg_daily_precipitation = Finite 0, precip_stats.total_days = 30,
        season_data.city = ''Cali'', season_data.year = 2023, season_data.month = 6,
        season_data.season = ''Invierno''\<rparr>, Payload \<lparr>monthly_total = Finite (3602879701896397 / 18014398509481984), days_with_rain = 2,
        max_daily_precipitation = Finite (3602879701896397 / 36028797018963968),
        avg_daily_precipitation = Finite (5764607523034235 / 576460752303423488),
        precip_stats.total_days = 31,
        season_data.city = ''Cali'', season_data.year = 2023, season_data.month = 7,
        season_data.season = ''Invierno''\<rparr>] = map Payload ds \<and>
     mean (map monthly_total ds) = Inr avg \<and> py_max (map monthly_total ds) = Inr mx \<and>
     reducer_seasonal_analysis ''Cali_Invierno_2023'' [Payload \<lparr>monthly_total = Finite (3602879701896397 / 36028797018963968), days_with_rain = 1,
        max_daily_precipitation = Finite (3602879701896397 / 36028797018963968),
        avg_daily_precipitation = Finite 0, precip_stats.total_days = 30,
        season_data.city = ''Cali'', season_data.year = 2023, season_data.month = 6,
        season_data.season = ''Invierno''\<rparr>, Payload \<lparr>monthly_total = Finite (3602879701896397 / 18014398509481984), days_with_rain = 2,
        max_daily_precipitation = Finite (3602879701896397 / 36028797018963968),
        avg_daily_precipitation = Finite (5764607523034235 / 576460752303423488),
        precip_stats.total_days = 31,
        season_data.city = ''Cali'', season_data.year = 2023, season_data.month = 7,
        season_data.season = ''Invierno''\<rparr>] =
       Inr [\<lparr>season_result.city = season_data.city (hd ds),
             season_result.year = season_data.year (hd ds),
             season_result.season = season_data.season (hd ds),
             total_seasonal_precipitation = py_round2 (py_sum (map monthly_total ds)),
             avg_monthly_precipitation = py_round2 avg,
             max_monthly_precipitation = py_round2 mx,
             total_rainy_days = sum_list (map days_with_rain ds),
             months_in_season = int (length [Payload \<lparr>monthly_total = Finite (3602879701896397 / 36028797018963968), days_with_rain = 1,
        max_daily_precipitation = Finite (3602879701896397 / 36028797018963968),
        avg_daily_precipitation = Finite 0, precip_stats.total_days = 30,
        season_data.city = ''Cali'', season_data.year = 2023, season_data.month = 6,
        season_data.season = ''Invierno''\<rparr>, Payload \<lparr>monthly_total = Finite (3602879701896397 / 18014398509481984), days_with_rain = 2,
        max_daily_precipitation = Finite (3602879701896397 / 36028797018963968),
        avg_daily_precipitation = Finite (5764607523034235 / 576460752303423488),
        precip_stats.total_days = 31,
        season_data.city = ''Cali'', season_data.year = 2023, season_data.month = 7,
        season_data.season = ''Invierno''\<rparr>])\<rparr>])"
proof -
  let ?d1 = "\<lparr>monthly_total = Finite (3602879701896397 / 36028797018963968), days_with_rain = 1,
        max_daily_precipitation = Finite (3602879701896397 / 36028797018963968),
        avg_daily_precipitation = Finite 0, precip_stats.total_days = 30,
        season_data.city = ''Cali'', season_data.year = 2023, season_data.month = 6,
        season_data.season = ''Invierno''\<rparr>"
  let ?d2 = "\<lparr>monthly_total = Finite (3602879701896397 / 18014398509481984), days_with_rain = 2,
        max_daily_precipitation = Finite (3602879701896397 / 36028797018963968),
        avg_daily_precipitation = Finite (5764607523034235 / 576460752303423488),
        precip_stats.total_days = 31,
        season_data.city = ''Cali'', season_data.year = 2023, season_data.month = 7,
        season_data.season = ''Invierno''\<rparr>"
  let ?s1 = "\<lparr>monthly_total = Finite (3602879701896397 / 36028797018963968), days_with_rain = 1,
        max_daily_precipitation = Finite (3602879701896397 / 36028797018963968),
        avg_daily_precipitation = Finite 0, precip_stats.total_days = 30\<rparr>"
  let ?s2 = "\<lparr>monthly_total = Finite (3602879701896397 / 18014398509481984), days_with_rain = 2,
        max_daily_precipitation = Finite (3602879701896397 / 36028797018963968),
        avg_daily_precipitation = Finite (5764607523034235 / 576460752303423488),
        precip_stats.total_days = 31\<rparr>"
  have h1: "''Cali_Invierno_2023'' \<noteq> ''ERROR''" and h2: "[Payload ?d1, Payload ?d2] \<noteq> []"
    by simp_all
  have m1: "(''Cali_Invierno_2023'', Payload ?d1) \<in> set (mapper_add_season ''Cali_2023_06'' ?s1)"
    by (simp add: mapper_add_season_def add_season_def then_do_def text_eval get_season_def
        precip_stats.defs season_data.defs)
  have m2: "(''Cali_Invierno_2023'', Payload ?d2) \<in> set (mapper_add_season ''Cali_2023_07'' ?s2)"
    by (simp add: mapper_add_season_def add_season_def then_do_def text_eval get_season_def
        precip_stats.defs season_data.defs)
  from m1 m2 have h3: "\<forall>v\<in>set [Payload ?d1, Payload ?d2].
      \<exists>k1 s. (''Cali_Invierno_2023'', v) \<in> set (mapper_add_season k1 s)"
    by (metis set_ConsD empty_iff empty_set)
  from h1 h2 m1 m2 C2_seasonal_aggregate [OF h1 h2 h3]
  show ?thesis by (intro conjI)
qed

text \<open>
  The claim as the specification words it fails in one place: the row does not hold the
  sum of the monthly totals but that sum rounded to two decimals.  For the monthly totals
  0.1 and 0.2 the sum is the float 0.30000000000000004 (that is
  \<open>1351079888211149 / 4503599627370496\<close>), and the row holds the float nearest to 0.3.
\<close>

theorem C2_seasonal_aggregate_counterexample:
  "reducer_seasonal_analysis ''Cali_Invierno_2023''
     [Payload \<lparr>monthly_total = Finite (3602879701896397 / 36028797018963968), days_with_rain = 1,
        max_daily_precipitation = Finite (3602879701896397 / 36028797018963968),
        avg_daily_precipitation = Finite 0, precip_stats.total_days = 30,
        season_data.city = ''Cali'', season_data.year = 2023, season_data.month = 6,
        season_data.season = ''Invierno''\<rparr>,
      Payload \<lparr>monthly_total = Finite (3602879701896397 / 18014398509481984), days_with_rain = 2,
        max_daily_precipitation = Finite (3602879701896397 / 36028797018963968),
        avg_daily_precipitation = Finite (5764607523034235 / 576460752303423488),
        precip_stats.total_days = 31,
        season_data.city = ''Cali'', season_data.year = 2023, season_data.month = 7,
        season_data.season = ''Invierno''\<rparr>] =
     Inr [\<lparr>season_result.city = ''Cali'', season_result.year = 2023,
           season_result.season = ''Invierno'',
           total_seasonal_precipitation = Finite (5404319552844595 / 18014398509481984),
           avg_monthly_precipitation = Finite (5404319552844595 / 36028797018963968),
           max_monthly_precipitation = Finite (3602879701896397 / 18014398509481984),
           total_rainy_days = 3, months_in_season = 2\<rparr>] \<and>
   py_sum [Finite (3602879701896397 / 36028797018963968),
           Finite (3602879701896397 / 18014398509481984)] =
     Finite (1351079888211149 / 4503599627370496) \<and>
   Finite (5404319552844595 / 18014398509481984) \<noteq> Finite (1351079888211149 / 4503599627370496)"
  by (simp add: reducer_seasonal_analysis_def float_eval)


section \<open>The order of the values of a key\<close>

lemma mset_loaded:
  "mset (loaded vs) =
     image_mset (\<lambda>v. case v of Payload x \<Rightarrow> x)
       (filter_mset (\<lambda>v. case v of Payload x \<Rightarrow> True | ErrorText p e \<Rightarrow> False) (mset vs))"
  by (induction vs rule: loaded.induct) simp_all

lemma mset_loaded_cong: "mset vs' = mset vs \<Longrightarrow> mset (loaded vs') = mset (loaded vs)"
  by (simp add: mset_loaded)

lemma mset_eq_Nil: "mset xs' = mset xs \<Longrightarrow> (xs' = []) = (xs = [])"
  by (metis mset_zero_iff)

lemma mset_eq_sum_list: "mset xs' = mset xs \<Longrightarrow> sum_list (map f xs') = (sum_list (map f xs) :: int)"
  by (metis mset_map sum_mset_sum_list)

lemma mset_eq_count_if: "mset xs' = mset xs \<Longrightarrow> length (filter P xs') = length (filter P xs)"
  by (metis mset_filter size_mset)

lemma reducer_aggregate_temps_counts:
  "map_sum id (map (\<lambda>(k, s). (k, city_year_month s, temp_stats.total_days s)))
     (reducer_aggregate_temps key vs) =
   Inr (if key = ''ERROR'' \<or> loaded vs = [] then []
        else [(key, key, sum_list (map count (loaded vs)))])"
proof (cases "key = ''ERROR'' \<or> loaded vs = []")
  case True
  then show ?thesis by (auto simp: reducer_aggregate_temps_def)
next
  case False
  then obtain mx mn where "py_max (map temp_max (loaded vs)) = Inr mx"
    "py_min (map temp_min (loaded vs)) = Inr mn"
    using py_max_Cons [of "map temp_max (loaded vs)"] py_min_Cons [of "map temp_min (loaded vs)"]
    by auto
  with False show ?thesis
    by (simp add: reducer_aggregate_temps_def py_truediv_def then_do_def Let_def)
qed

lemma numbers_eq:
  "numbers vs = (if list_ex (\<lambda>v. case v of Payload x \<Rightarrow> False | ErrorText p e \<Rightarrow> True) vs
                 then Inl TypeError else Inr (loaded vs))"
  by (induction vs rule: numbers.induct) (simp_all add: then_do_def)

lemma reducer_monthly_totals_counts:
  "map_sum id (map (\<lambda>(k, s). (k, days_with_rain s, precip_stats.total_days s)))
     (reducer_monthly_totals key vs) =
   (if key = ''ERROR'' then Inr []
    else if list_ex (\<lambda>v. case v of Payload x \<Rightarrow> False | ErrorText p e \<Rightarrow> True) vs
    then Inl TypeError
    else Inr [(key, int (length (filter (\<lambda>v. flt (Finite 0) v) (loaded vs))),
               int (length (loaded vs)))])"
proof (cases "loaded vs")
  case Nil
  then show ?thesis
    by (simp add: reducer_monthly_totals_def numbers_eq then_do_def)
next
  case (Cons x xs)
  then obtain mx where "py_max (loaded vs) = Inr mx" by auto
  with Cons show ?thesis
    by (simp add: reducer_monthly_totals_def numbers_eq then_do_def py_truediv_def Let_def)
qed

lemma reducer_seasonal_analysis_counts:
  "map_sum id (map (\<lambda>r. (total_rainy_days r, months_in_season r)))
     (reducer_seasonal_analysis key vs) =
   Inr (if key = ''ERROR'' \<or> loaded vs = [] then []
        else [(sum_list (map days_with_rain (loaded vs)), int (length (loaded vs)))])"
proof (cases "key = ''ERROR'' \<or> loaded vs = []")
  case True
  then show ?thesis by (auto simp: reducer_seasonal_analysis_def)
next
  case False
  then obtain mx where "py_max (map monthly_total (loaded vs)) = Inr mx"
    using py_max_Cons [of "map monthly_total (loaded vs)"] by auto
  with False show ?thesis
    by (simp add: reducer_seasonal_analysis_def py_truediv_def then_do_def Let_def)
qed

text \<open>
  Claim C6, as the code has it.  For every key and every list of values, each of the
  three reducers applied to a permutation of the list ends the same way (it raises, emits
  nothing, or emits one record) and, when it emits, under the same key and with the same
  integer fields: the day count of the monthly temperature record; the days with rain
  and the day count of the monthly precipitation record; the rainy days and the number of
  months of the seasonal row.  The floating-point fields (sums, means, maxima, minima)
  are computed in the order of the list and are not covered.
\<close>

theorem C6_reducer_counts_order_independent:
  assumes "mset tvalues' = mset tvalues" and "mset pvalues' = mset pvalues"
    and "mset svalues' = mset svalues"
  shows
    "map_sum id (map (\<lambda>(k, s). (k, city_year_month s, temp_stats.total_days s)))
       (reducer_aggregate_temps tkey tvalues') =
     map_sum id (map (\<lambda>(k, s). (k, city_year_month s, temp_stats.total_days s)))
       (reducer_aggregate_temps tkey tvalues) \<and>
     map_sum id (map (\<lambda>(k, s). (k, days_with_rain s, precip_stats.total_days s)))
       (reducer_monthly_totals pkey pvalues') =
     map_sum id (map (\<lambda>(k, s). (k, days_with_rain s, precip_stats.total_days s)))
       (reducer_monthly_totals pkey pvalues) \<and>
     map_sum id (map (\<lambda>r. (total_rainy_days r, months_in_season r)))
       (reducer_seasonal_analysis skey svalues') =
     map_sum id (map (\<lambda>r. (total_rainy_days r, months_in_season r)))
       (reducer_seasonal_analysis skey svalues)"
proof -
  note t = mset_loaded_cong [OF assms(1)]
  note p = mset_loaded_cong [OF assms(2)]
  note s = mset_loaded_cong [OF assms(3)]
  have "set pvalues' = set pvalues"
    using assms(2) by (rule mset_eq_setD)
  then have e: "list_ex P pvalues' = list_ex P pvalues" for P
    by (simp add: list_ex_iff)
  have l: "length (loaded pvalues') = length (loaded pvalues)"
    "length (loaded svalues') = length (loaded svalues)"
    using p s by (metis size_mset)+
  show ?thesis
    unfolding reducer_aggregate_temps_counts reducer_monthly_totals_counts
      reducer_seasonal_analysis_counts
    by (simp add: mset_eq_Nil [OF t] mset_eq_Nil [OF s] mset_eq_sum_list [OF t]
        mset_eq_sum_list [OF s] mset_eq_count_if [OF p] e l)
qed


theorem C6_reducer_counts_order_independent_witness:
  "mset [Payload \<lparr>temp_max = Finite 30, temp_min = Finite 21, temp_mean = Finite 26, count = 1\<rparr>,
      Payload \<lparr>temp_max = Finite 31, temp_min = Finite 20, temp_mean = Finite 25, count = 1\<rparr>] =
   mset [Payload \<lparr>temp_max = Finite 31, temp_min = Finite 20, temp_mean = Finite 25, count = 1\<rparr>,
      Payload \<lparr>temp_max = Finite 30, temp_min = Finite 21, temp_mean = Finite 26, count = 1\<rparr>] \<and>
   mset [Payload (Finite 5), Payload (Finite 0)] = mset [Payload (Finite 0), Payload (Finite 5)] \<and>
   mset [Payload \<lparr>monthly_total = Finite 31, days_with_rain = 9,
          max_daily_precipitation = Finite 8, avg_daily_precipitation = Finite 1,
          precip_stats.total_days = 31, season_data.city = ''Cali'', season_data.year = 2023,
          season_data.month = 7, season_data.season = ''Invierno''\<rparr>,
      Payload \<lparr>monthly_total = Finite 12, days_with_rain = 4,
          max_daily_precipitation = Finite 5, avg_daily_precipitation = Finite (2 / 5),
          precip_stats.total_days = 30, season_data.city = ''Cali'', season_data.year = 2023,
          season_data.month = 6, season_data.season = ''Invierno''\<rparr>] =
   mset [Payload \<lparr>monthly_total = Finite 12, days_with_rain = 4,
          max_daily_precipitation = Finite 5, avg_daily_precipitation = Finite (2 / 5),
          precip_stats.total_days = 30, season_data.city = ''Cali'', season_data.year = 2023,
          season_data.month = 6, season_data.season = ''Invierno''\<rparr>,
      Payload \<lparr>monthly_total = Finite 31, days_with_rain = 9,
          max_daily_precipitation = Finite 8, avg_daily_precipitation = Finite 1,
          precip_stats.total_days = 31, season_data.city = ''Cali'', season_data.year = 2023,
          season_data.month = 7, season_data.season = ''Invierno''\<rparr>] \<and>
   map_sum id (map (\<lambda>(k, s). (k, city_year_month s, temp_stats.total_days s)))
     (reducer_aggregate_temps ''Cali_2023_06''
     [Payload \<lparr>temp_max = Finite 30, temp_min = Finite 21, temp_mean = Finite 26, count = 1\<rparr>,
      Payload \<lparr>temp_max = Finite 31, temp_min = Finite 20, temp_mean = Finite 25, count = 1\<rparr>]) =
   map_sum id (map (\<lambda>(k, s). (k, city_year_month s, temp_stats.total_days s)))
     (reducer_aggregate_temps ''Cali_2023_06''
     [Payload \<lparr>temp_max = Finite 31, temp_min = Finite 20, temp_mean = Finite 25, count = 1\<rparr>,
      Payload \<lparr>temp_max = Finite 30, temp_min = Finite 21, temp_mean = Finite 26, count = 1\<rparr>]) \<and>
   map_sum id (map (\<lambda>(k, s). (k, days_with_rain s, precip_stats.total_days s)))
     (reducer_monthly_totals ''Cali_2023_06'' [Payload (Finite 5), Payload (Finite 0)]) =
   map_sum id (map (\<lambda>(k, s). (k, days_with_rain s, precip_stats.total_days s)))
     (reducer_monthly_totals ''Cali_2023_06'' [Payload (Finite 0), Payload (Finite 5)]) \<and>
   map_sum id (map (\<lambda>r. (total_rainy_days r, months_in_season r)))
     (reducer_seasonal_analysis ''Cali_Invierno_2023''
     [Payload \<lparr>monthly_total = Finite 31, days_with_rain = 9,
          max_daily_precipitation = Finite 8, avg_daily_precipitation = Finite 1,
          precip_stats.total_days = 31, season_data.city = ''Cali'', season_data.year = 2023,
          season_data.month = 7, season_data.season = ''Invierno''\<rparr>,
      Payload \<lparr>monthly_total = Finite 12, days_with_rain = 4,
          max_daily_precipitation = Finite 5, avg_daily_precipitation = Finite (2 / 5),
          precip_stats.total_days = 30, season_data.city = ''Cali'', season_data.year = 2023,
          season_data.month = 6, season_data.season = ''Invierno''\<rparr>]) =
   map_sum id (map (\<lambda>r. (total_rainy_days r, months_in_season r)))
     (reducer_seasonal_analysis ''Cali_Invierno_2023''
     [Payload \<lparr>monthly_total = Finite 12, days_with_rain = 4,
          max_daily_precipitation = Finite 5, avg_daily_precipitation = Finite (2 / 5),
          precip_stats.total_days = 30, season_data.city = ''Cali'', season_data.year = 2023,
          season_data.month = 6, season_data.season = ''Invierno''\<rparr>,
      Payload \<lparr>monthly_total = Finite 31, days_with_rain = 9,
          max_daily_precipitation = Finite 8, avg_daily_precipitation = Finite 1,
          precip_stats.total_days = 31, season_data.city = ''Cali'', season_data.year = 2023,
          season_data.month = 7, season_data.season = ''Invierno''\<rparr>])"
proof -
  have h1: "mset [Payload \<lparr>temp_max = Finite 30, temp_min = Finite 21, temp_mean = Finite 26, count = 1\<rparr>,
      Payload \<lparr>temp_max = Finite 31, temp_min = Finite 20, temp_mean = Finite 25, count = 1\<rparr>] =
   mset [Payload \<lparr>temp_max = Finite 31, temp_min = Finite 20, temp_mean = Finite 25, count = 1\<rparr>,
      Payload \<lparr>temp_max = Finite 30, temp_min = Finite 21, temp_mean = Finite 26, count = 1\<rparr>]"
    by (simp add: add_mset_commute)
  have h2: "mset [Payload (Finite 5), Payload (Finite 0)] = mset [Payload (Finite 0), Payload (Finite 5)]"
    by (simp add: add_mset_commute)
  have h3: "mset [Payload \<lparr>monthly_total = Finite 31, days_with_rain = 9,
          max_daily_precipitation = Finite 8, avg_daily_precipitation = Finite 1,
          precip_stats.total_days = 31, season_data.city = ''Cali'', season_data.year = 2023,
          season_data.month = 7, season_data.season = ''Invierno''\<rparr>,
      Payload \<lparr>monthly_total = Finite 12, days_with_rain = 4,
          max_daily_precipitation = Finite 5, avg_daily_precipitation = Finite (2 / 5),
          precip_stats.total_days = 30, season_data.city = ''Cali'', season_data.year = 2023,
          season_data.month = 6, season_data.season = ''Invierno''\<rparr>] =
   mset [Payload \<lparr>monthly_total = Finite 12, days_with_rain = 4,
          max_daily_precipitation = Finite 5, avg_daily_precipitation = Finite (2 / 5),
          precip_stats.total_days = 30, season_data.city = ''Cali'', season_data.year = 2023,
          season_data.month = 6, season_data.season = ''Invierno''\<rparr>,
      Payload \<lparr>monthly_total = Finite 31, days_with_rain = 9,
          max_daily_precipitation = Finite 8, avg_daily_precipitation = Finite 1,
          precip_stats.total_days = 31, season_data.city = ''Cali'', season_data.year = 2023,
          season_data.month = 7, season_data.season = ''Invierno''\<rparr>]"
    by (simp add: add_mset_commute)
  from h1 h2 h3
    C6_reducer_counts_order_independent [OF h1 h2 h3, where tkey = "''Cali_2023_06''"
      and pkey = "''Cali_2023_06''" and skey = "''Cali_Invierno_2023''"]
  show ?thesis by iprover
qed

text \<open>
  The claim as the specification words it fails: the output record depends on the order
  of the values.  Python's \<^verbatim>\<open>max\<close> keeps a NaN that comes first and skips one that comes
  later, so the two orders of the same two daily records give the recorded maximum NaN
  and the recorded maximum 30.
\<close>

theorem C6_reducer_order_counterexample:
  "mset [Payload \<lparr>temp_max = NaN, temp_min = Finite 20, temp_mean = Finite 25, count = 1\<rparr>,
         Payload \<lparr>temp_max = Finite 30, temp_min = Finite 21, temp_mean = Finite 26, count = 1\<rparr>] =
   mset [Payload \<lparr>temp_max = Finite 30, temp_min = Finite 21, temp_mean = Finite 26, count = 1\<rparr>,
         Payload \<lparr>temp_max = NaN, temp_min = Finite 20, temp_mean = Finite 25, count = 1\<rparr>] \<and>
   reducer_aggregate_temps ''Cali_2023_06''
     [Payload \<lparr>temp_max = NaN, temp_min = Finite 20, temp_mean = Finite 25, count = 1\<rparr>,
      Payload \<lparr>temp_max = Finite 30, temp_min = Finite 21, temp_mean = Finite 26, count = 1\<rparr>] =
     Inr [(''Cali_2023_06'',
       \<lparr>city_year_month = ''Cali_2023_06'', avg_temp_max = NaN,
        avg_temp_min = Finite (41 / 2), avg_temp_mean = Finite (51 / 2),
        max_temp_recorded = NaN, min_temp_recorded = Finite 20,
        temp_stats.total_days = 2\<rparr>)] \<and>
   reducer_aggregate_temps ''Cali_2023_06''
     [Payload \<lparr>temp_max = Finite 30, temp_min = Finite 21, temp_mean = Finite 26, count = 1\<rparr>,
      Payload \<lparr>temp_max = NaN, temp_min = Finite 20, temp_mean = Finite 25, count = 1\<rparr>] =
     Inr [(''Cali_2023_06'',
       \<lparr>city_year_month = ''Cali_2023_06'', avg_temp_max = NaN,
        avg_temp_min = Finite (41 / 2), avg_temp_mean = Finite (51 / 2),
        max_temp_recorded = Finite 30, min_temp_recorded = Finite 20,
        temp_stats.total_days = 2\<rparr>)] \<and>
   NaN \<noteq> Finite 30"
  by (simp add: reducer_aggregate_temps_def float_eval add_mset_commute)

text \<open>
  The order matters for ordinary data too, through the rounding of every addition of
  \<^verbatim>\<open>sum\<close>: the daily maxima 25.1, 22.7, 22.0 and 26.7 have the rounded mean 24.12 in this
  order and 24.13 in the order 22.7, 22.0, 25.1, 26.7.
\<close>

lemma rounded_mean_depends_on_order:
  "map_sum id py_round2
     (mean [Finite (3532510957718733 / 140737488355328), Finite (6389481971331891 / 281474976710656),
            Finite 22, Finite (7515381878174515 / 281474976710656)]) =
     Inr (Finite (6789176438261023 / 281474976710656))"
  "map_sum id py_round2
     (mean [Finite (6389481971331891 / 281474976710656), Finite 22,
            Finite (3532510957718733 / 140737488355328), Finite (7515381878174515 / 281474976710656)]) =
     Inr (Finite (6791991188028129 / 281474976710656))"
  by (simp_all add: mean_def float_eval)


section \<open>Malformed lines and the error key\<close>

lemma then_do_Inr [simp]: "then_do r Inr = r"
  by (cases r) (simp_all add: then_do_def)

lemma then_do_Inr_left [simp]: "then_do (Inr x) f = f x"
  by (simp add: then_do_def)

lemma collect_skip:
  "(\<And>x. x \<in> set xs \<Longrightarrow> \<not> P x \<Longrightarrow> f x = Inr []) \<Longrightarrow>
     collect (map f xs) = collect (map f (filter P xs))"
proof (induction xs)
  case Nil
  show ?case by simp
next
  case (Cons x xs)
  then have ih: "collect (map f xs) = collect (map f (filter P xs))" by simp
  show ?case
  proof (cases "P x")
    case True
    with ih show ?thesis by simp
  next
    case False
    with Cons.prems have "f x = Inr []" by simp
    with False ih show ?thesis by simp
  qed
qed

lemma run_step_keys:
  "run_step mapper reducer inputs =
     collect (map (\<lambda>k. reducer k (values_of k (concat (map mapper inputs))))
       (sort_key json_dumps_str (remdups (map fst (concat (map mapper inputs))))))"
  by (simp add: run_step_def shuffle_def comp_def)

lemma run_step_skip:
  assumes red: "\<And>vs. reducer E vs = Inr []"
    and bad: "\<forall>kv\<in>set (mapper bad). fst kv = E"
  shows "run_step mapper reducer (xs @ bad # ys) = run_step mapper reducer (xs @ ys)"
proof -
  define A where "A = concat (map mapper xs)"
  define C where "C = concat (map mapper ys)"
  define f where "f kvs = (\<lambda>k. reducer k (values_of k kvs))" for kvs
  have B: "filter (\<lambda>k. k \<noteq> E) (map fst (mapper bad)) = []"
    using bad by (auto simp: filter_empty_conv)
  have vals: "values_of k (A @ mapper bad @ C) = values_of k (A @ C)" if "k \<noteq> E" for k
  proof -
    have "filter (\<lambda>kv. fst kv = k) (mapper bad) = []"
      using bad that by (auto simp: filter_empty_conv)
    then show ?thesis by (simp add: values_of_def)
  qed
  have keys: "filter (\<lambda>k. k \<noteq> E) (remdups (map fst (A @ mapper bad @ C))) =
      filter (\<lambda>k. k \<noteq> E) (remdups (map fst (A @ C)))"
    by (simp add: remdups_filter [symmetric] B)
  have skeys: "filter (\<lambda>k. k \<noteq> E) (sort_key json_dumps_str (remdups (map fst (A @ mapper bad @ C)))) =
      filter (\<lambda>k. k \<noteq> E) (sort_key json_dumps_str (remdups (map fst (A @ C))))"
    by (simp only: filter_sort keys)
  have "collect (map (f (A @ mapper bad @ C))
        (sort_key json_dumps_str (remdups (map fst (A @ mapper bad @ C))))) =
      collect (map (f (A @ mapper bad @ C))
        (filter (\<lambda>k. k \<noteq> E) (sort_key json_dumps_str (remdups (map fst (A @ mapper bad @ C))))))"
    by (rule collect_skip) (simp add: f_def red)
  also have "\<dots> = collect (map (f (A @ C))
        (filter (\<lambda>k. k \<noteq> E) (sort_key json_dumps_str (remdups (map fst (A @ C))))))"
    unfolding skeys by (rule arg_cong [where f = collect], rule map_cong) (simp_all add: f_def vals)
  also have "\<dots> = collect (map (f (A @ C)) (sort_key json_dumps_str (remdups (map fst (A @ C)))))"
    by (rule collect_skip [symmetric]) (simp add: f_def red)
  finally show ?thesis
    by (simp add: run_step_keys f_def A_def C_def)
qed

lemma error_key_dropped:
  "reducer_aggregate_temps ''ERROR'' tvalues = Inr []"
  "reducer_monthly_totals ''ERROR'' pvalues = Inr []"
  "mapper_format_output ''ERROR'' stats = []"
  "mapper_add_season ''ERROR'' data = []"
  "reducer_final_output ''ERROR'' fvalues = Inr []"
  "reducer_seasonal_analysis ''ERROR'' svalues = Inr []"
  by (simp_all add: reducer_aggregate_temps_def reducer_monthly_totals_def
      mapper_format_output_def mapper_add_season_def reducer_final_output_def
      reducer_seasonal_analysis_def)

text \<open>
  Claim C9.  Whatever travels under the error key is discarded: the four reducers emit
  nothing for that key, and the two second-stage mappers pass nothing on.  A malformed
  line is a line for which a line parser yields no record under a city key (it yields
  nothing, or a message under the error key).  Adding such a line anywhere in a batch
  leaves the monthly aggregates of the first stage and the final output of the job as
  they are.
\<close>

theorem C9_malformed_line_changes_nothing:
  "reducer_aggregate_temps ''ERROR'' tvalues = Inr [] \<and>
   reducer_monthly_totals ''ERROR'' pvalues = Inr [] \<and>
   mapper_format_output ''ERROR'' stats = [] \<and>
   mapper_add_season ''ERROR'' data = [] \<and>
   reducer_final_output ''ERROR'' fvalues = Inr [] \<and>
   reducer_seasonal_analysis ''ERROR'' svalues = Inr [] \<and>
   ((\<forall>kv\<in>set (mapper_parse_data lib bad). fst kv = ''ERROR'') \<longrightarrow>
      run_step (mapper_parse_data lib) reducer_aggregate_temps (xs @ bad # ys) =
      run_step (mapper_parse_data lib) reducer_aggregate_temps (xs @ ys) \<and>
      temperature_analysis lib (xs @ bad # ys) = temperature_analysis lib (xs @ ys)) \<and>
   ((\<forall>kv\<in>set (mapper_parse_precipitation lib bad). fst kv = ''ERROR'') \<longrightarrow>
      run_step (mapper_parse_precipitation lib) reducer_monthly_totals (xs @ bad # ys) =
      run_step (mapper_parse_precipitation lib) reducer_monthly_totals (xs @ ys) \<and>
      precipitation_analysis lib (xs @ bad # ys) = precipitation_analysis lib (xs @ ys))"
proof -
  have t: "run_step (mapper_parse_data lib) reducer_aggregate_temps (xs @ bad # ys) =
      run_step (mapper_parse_data lib) reducer_aggregate_temps (xs @ ys)"
    if "\<forall>kv\<in>set (mapper_parse_data lib bad). fst kv = ''ERROR''"
    using error_key_dropped(1) that by (rule run_step_skip)
  have p: "run_step (mapper_parse_precipitation lib) reducer_monthly_totals (xs @ bad # ys) =
      run_step (mapper_parse_precipitation lib) reducer_monthly_totals (xs @ ys)"
    if "\<forall>kv\<in>set (mapper_parse_precipitation lib bad). fst kv = ''ERROR''"
    using error_key_dropped(2) that by (rule run_step_skip)
  show ?thesis
    using t p by (simp add: error_key_dropped temperature_analysis_def precipitation_analysis_def)
qed


theorem C9_malformed_line_changes_nothing_witness:
  "mapper_parse_data plain_lib ''2023-06-02,abc,20.0,25.0,xyz,10.0,3600.0,Cali'' =
     [(''ERROR'', ErrorText ''Error processing line: '' ValueError)] \<and>
   mapper_parse_precipitation plain_lib ''2023-06-02,abc,20.0,25.0,xyz,10.0,3600.0,Cali'' =
     [(''ERROR'', ErrorText ''Parse error: '' ValueError)] \<and>
   temperature_analysis plain_lib
     [''2023-06-01,31.0,20.0,25.0,4.5,10.0,3600.0,Cali'', ''2023-06-02,abc,20.0,25.0,xyz,10.0,3600.0,Cali''] =
   temperature_analysis plain_lib [''2023-06-01,31.0,20.0,25.0,4.5,10.0,3600.0,Cali''] \<and>
   precipitation_analysis plain_lib
     [''2023-06-01,31.0,20.0,25.0,4.5,10.0,3600.0,Cali'', ''2023-06-02,abc,20.0,25.0,xyz,10.0,3600.0,Cali''] =
   precipitation_analysis plain_lib [''2023-06-01,31.0,20.0,25.0,4.5,10.0,3600.0,Cali'']"
proof -
  have m1: "mapper_parse_data plain_lib ''2023-06-02,abc,20.0,25.0,xyz,10.0,3600.0,Cali'' =
     [(''ERROR'', ErrorText ''Error processing line: '' ValueError)]"
    by (simp add: mapper_parse_data_def parse_data_def plain_eval then_do_def py_startswith_def
        is_digit_def)
  have m2: "mapper_parse_precipitation plain_lib ''2023-06-02,abc,20.0,25.0,xyz,10.0,3600.0,Cali'' =
     [(''ERROR'', ErrorText ''Parse error: '' ValueError)]"
    by (simp add: mapper_parse_precipitation_def parse_precipitation_def plain_eval then_do_def
        py_startswith_def is_digit_def)
  have h1: "\<forall>kv\<in>set (mapper_parse_data plain_lib ''2023-06-02,abc,20.0,25.0,xyz,10.0,3600.0,Cali''). fst kv = ''ERROR''"
    unfolding m1 by simp
  have h2: "\<forall>kv\<in>set (mapper_parse_precipitation plain_lib ''2023-06-02,abc,20.0,25.0,xyz,10.0,3600.0,Cali'').
      fst kv = ''ERROR''"
    unfolding m2 by simp
  from C9_malformed_line_changes_nothing [where lib = plain_lib
      and bad = "''2023-06-02,abc,20.0,25.0,xyz,10.0,3600.0,Cali''"
      and xs = "[''2023-06-01,31.0,20.0,25.0,4.5,10.0,3600.0,Cali'']" and ys = "[]"] h1 h2
  have "temperature_analysis plain_lib
     ([''2023-06-01,31.0,20.0,25.0,4.5,10.0,3600.0,Cali''] @ ''2023-06-02,abc,20.0,25.0,xyz,10.0,3600.0,Cali'' # []) =
   temperature_analysis plain_lib ([''2023-06-01,31.0,20.0,25.0,4.5,10.0,3600.0,Cali''] @ [])"
    "precipitation_analysis plain_lib
     ([''2023-06-01,31.0,20.0,25.0,4.5,10.0,3600.0,Cali''] @ ''2023-06-02,abc,20.0,25.0,xyz,10.0,3600.0,Cali'' # []) =
   precipitation_analysis plain_lib ([''2023-06-01,31.0,20.0,25.0,4.5,10.0,3600.0,Cali''] @ [])"
    by blast+
  with m1 m2 show ?thesis by simp
qed


section \<open>The jobs, stage by stage\<close>

lemma mapper_parse_precipitation_pairs:
  "(k, v) \<in> set (mapper_parse_precipitation lib line) \<Longrightarrow>
     (k = ''ERROR'' \<and> (\<exists>e. v = ErrorText ''Parse error: '' e)) \<or>
     (\<exists>c y m x. k = stage1_key c y m \<and> v = Payload x)"
  by (auto simp: mapper_parse_precipitation_def parse_precipitation_def then_do_def float_or_def
      Let_def split: sum.splits if_splits prod.splits) blast+

lemma stage1_groups:
  assumes "(k, vs) \<in> set (shuffle (concat (map mapper lines)))"
  shows "vs = values_of k (concat (map mapper lines))" "vs \<noteq> []"
    "\<forall>v\<in>set vs. \<exists>line. (k, v) \<in> set (mapper line)"
  using shuffle_member [OF assms] by auto

lemma temperature_group_payloads:
  assumes "k \<noteq> ''ERROR''"
    and "\<forall>v\<in>set vs. \<exists>line. (k, v) \<in> set (mapper_parse_data lib line)"
  shows "map Payload (loaded vs) = vs" "\<forall>obs\<in>set (loaded vs). count obs = 1"
    "\<exists>c y m. vs \<noteq> [] \<longrightarrow> k = stage1_key c y m"
proof -
  have shape: "\<exists>obs. v = Payload obs \<and> count obs = 1 \<and> (\<exists>c y m. k = stage1_key c y m)"
    if "v \<in> set vs" for v
    using assms that mapper_parse_data_pairs by blast
  then show "map Payload (loaded vs) = vs"
    by (intro all_payloads) blast
  show "\<forall>obs\<in>set (loaded vs). count obs = 1"
    using shape by (fastforce simp: loaded_member)
  show "\<exists>c y m. vs \<noteq> [] \<longrightarrow> k = stage1_key c y m"
    using shape by (cases vs) auto
qed

lemma precipitation_group_payloads:
  assumes "k \<noteq> ''ERROR''"
    and "\<forall>v\<in>set vs. \<exists>line. (k, v) \<in> set (mapper_parse_precipitation lib line)"
  shows "map Payload (loaded vs) = vs" "\<exists>c y m. vs \<noteq> [] \<longrightarrow> k = stage1_key c y m"
proof -
  have shape: "\<exists>x. v = Payload x \<and> (\<exists>c y m. k = stage1_key c y m)" if "v \<in> set vs" for v
    using assms that mapper_parse_precipitation_pairs by blast
  then show "map Payload (loaded vs) = vs"
    by (intro all_payloads) blast
  show "\<exists>c y m. vs \<noteq> [] \<longrightarrow> k = stage1_key c y m"
    using shape by (cases vs) auto
qed

lemma reducer_aggregate_temps_total: "\<exists>out. reducer_aggregate_temps k vs = Inr out"
  using reducer_aggregate_temps_counts [of k vs]
  by (cases "reducer_aggregate_temps k vs") simp_all

lemma reducer_seasonal_analysis_total: "\<exists>out. reducer_seasonal_analysis k vs = Inr out"
  using reducer_seasonal_analysis_counts [of k vs]
  by (cases "reducer_seasonal_analysis k vs") simp_all

lemma reducer_final_output_total: "\<exists>out. reducer_final_output k vs = Inr out"
  by (simp add: reducer_final_output_def)

lemma reducer_monthly_totals_total:
  assumes "k = ''ERROR'' \<or> map Payload (loaded vs) = vs"
  shows "\<exists>out. reducer_monthly_totals k vs = Inr out"
proof -
  have "\<not> list_ex (\<lambda>v. case v of Payload x \<Rightarrow> False | ErrorText p e \<Rightarrow> True) vs"
    if "map Payload (loaded vs) = vs"
  proof -
    have "\<not> list_ex (\<lambda>v. case v of Payload x \<Rightarrow> False | ErrorText p e \<Rightarrow> True)
        (map Payload (loaded vs))"
      by (simp add: list_ex_iff)
    with that show ?thesis by metis
  qed
  with assms reducer_monthly_totals_counts [of k vs] show ?thesis
    by (cases "reducer_monthly_totals k vs") (auto split: if_splits)
qed

lemma aggregate_temps_member:
  assumes "reducer_aggregate_temps k vs = Inr out" "(k', s) \<in> set out"
  shows "k' = k" "k \<noteq> ''ERROR''" "loaded vs \<noteq> []"
    "temp_stats.total_days s = sum_list (map count (loaded vs))"
proof -
  from reducer_aggregate_temps_counts [of k vs] assms(1)
  have "map (\<lambda>(k, s). (k, city_year_month s, temp_stats.total_days s)) out =
      (if k = ''ERROR'' \<or> loaded vs = [] then []
       else [(k, k, sum_list (map count (loaded vs)))])"
    by simp
  moreover from assms(2)
  have "(k', city_year_month s, temp_stats.total_days s) \<in>
      set (map (\<lambda>(k, s). (k, city_year_month s, temp_stats.total_days s)) out)"
    by force
  ultimately show "k' = k" "k \<noteq> ''ERROR''" "loaded vs \<noteq> []"
    "temp_stats.total_days s = sum_list (map count (loaded vs))"
    by (auto split: if_splits)
qed

lemma monthly_totals_member:
  assumes "reducer_monthly_totals k vs = Inr out" "(k', s) \<in> set out"
  shows "k' = k" "k \<noteq> ''ERROR''" "precip_stats.total_days s = int (length (loaded vs))"
proof -
  from reducer_monthly_totals_counts [of k vs] assms(1)
  have "Inr (map (\<lambda>(k, s). (k, days_with_rain s, precip_stats.total_days s)) out) =
   (if k = ''ERROR'' then Inr []
    else if list_ex (\<lambda>v. case v of Payload x \<Rightarrow> False | ErrorText p e \<Rightarrow> True) vs
    then Inl TypeError
    else Inr [(k, int (length (filter (\<lambda>v. flt (Finite 0) v) (loaded vs))),
               int (length (loaded vs)))])"
    by simp
  moreover from assms(2)
  have "(k', days_with_rain s, precip_stats.total_days s) \<in>
      set (map (\<lambda>(k, s). (k, days_with_rain s, precip_stats.total_days s)) out)"
    by force
  ultimately show "k' = k" "k \<noteq> ''ERROR''"
    "precip_stats.total_days s = int (length (loaded vs))"
    by (auto split: if_splits)
qed

lemma seasonal_analysis_member:
  assumes "reducer_seasonal_analysis k vs = Inr out" "r \<in> set out"
  shows "k \<noteq> ''ERROR''" "loaded vs \<noteq> []" "months_in_season r = int (length (loaded vs))"
    "season_result.city r = season_data.city (hd (loaded vs))"
  using assms
  by (auto simp: reducer_seasonal_analysis_def Let_def then_do_def py_truediv_def
      split: if_splits sum.splits)

lemma final_output_member:
  assumes "reducer_final_output k vs = Inr out" "r \<in> set out"
  shows "k \<noteq> ''ERROR''" "Payload r \<in> set vs" "out = sort_key temp_output.month (loaded vs)"
  using assms by (auto simp: reducer_final_output_def loaded_member split: if_splits)

lemma temperature_stage1:
  "\<exists>monthly. run_step (mapper_parse_data lib) reducer_aggregate_temps lines = Inr monthly"
  using run_step_total [of "mapper_parse_data lib" lines reducer_aggregate_temps]
    reducer_aggregate_temps_total by blast

lemma temperature_stages:
  "\<exists>monthly rows.
     run_step (mapper_parse_data lib) reducer_aggregate_temps lines = Inr monthly \<and>
     run_step (\<lambda>(key, value). mapper_format_output key value) reducer_final_output monthly =
       Inr rows \<and>
     temperature_analysis lib lines = Inr rows"
proof -
  obtain monthly where
    m: "run_step (mapper_parse_data lib) reducer_aggregate_temps lines = Inr monthly"
    using temperature_stage1 by blast
  obtain rows where
    "run_step (\<lambda>(key, value). mapper_format_output key value) reducer_final_output monthly =
       Inr rows"
    using run_step_total [of "\<lambda>(key, value). mapper_format_output key value" monthly
        reducer_final_output]
      reducer_final_output_total by blast
  with m show ?thesis
    by (simp add: temperature_analysis_def)
qed

lemma precipitation_stage1:
  "\<exists>monthly. run_step (mapper_parse_precipitation lib) reducer_monthly_totals lines = Inr monthly"
proof -
  have "\<exists>out. reducer_monthly_totals k vs = Inr out"
    if "(k, vs) \<in> set (shuffle (concat (map (mapper_parse_precipitation lib) lines)))" for k vs
  proof (cases "k = ''ERROR''")
    case True
    then show ?thesis by (simp add: reducer_monthly_totals_total)
  next
    case False
    from precipitation_group_payloads(1) [OF False stage1_groups(3) [OF that]]
    show ?thesis by (simp add: reducer_monthly_totals_total)
  qed
  then show ?thesis
    using run_step_total [of "mapper_parse_precipitation lib" lines reducer_monthly_totals]
    by blast
qed

lemma precipitation_stages:
  "\<exists>monthly rows.
     run_step (mapper_parse_precipitation lib) reducer_monthly_totals lines = Inr monthly \<and>
     run_step (\<lambda>(key, value). mapper_add_season key value) reducer_seasonal_analysis monthly =
       Inr rows \<and>
     precipitation_analysis lib lines = Inr rows"
proof -
  obtain monthly where
    m: "run_step (mapper_parse_precipitation lib) reducer_monthly_totals lines = Inr monthly"
    using precipitation_stage1 by blast
  obtain rows where
    "run_step (\<lambda>(key, value). mapper_add_season key value) reducer_seasonal_analysis monthly =
       Inr rows"
    using run_step_total [of "\<lambda>(key, value). mapper_add_season key value" monthly
        reducer_seasonal_analysis]
      reducer_seasonal_analysis_total by blast
  with m show ?thesis
    by (simp add: precipitation_analysis_def)
qed


lemma concat_map_member:
  "(k, v) \<in> set (concat (map (\<lambda>(key, value). f key value) kvs)) \<Longrightarrow>
     \<exists>k1 s. (k1, s) \<in> set kvs \<and> (k, v) \<in> set (f k1 s)"
  by auto

lemma temperature_row_origin:
  assumes "run_step (\<lambda>(key, value). mapper_format_output key value) reducer_final_output monthly =
      Inr rows" and "r \<in> set rows"
  shows "\<exists>k1 s k2. (k1, s) \<in> set monthly \<and> (k2, Payload r) \<in> set (mapper_format_output k1 s)"
proof -
  from run_step_member [OF assms] obtain k2 vs out where
    g: "(k2, vs) \<in> set (shuffle (concat (map (\<lambda>(key, value). mapper_format_output key value) monthly)))"
    and o: "reducer_final_output k2 vs = Inr out" "r \<in> set out"
    by blast
  from final_output_member(2) [OF o] shuffle_member [OF g]
  have "(k2, Payload r) \<in> set (concat (map (\<lambda>(key, value). mapper_format_output key value) monthly))"
    by blast
  from concat_map_member [OF this] show ?thesis by blast
qed

lemma precipitation_row_origin:
  assumes "run_step (\<lambda>(key, value). mapper_add_season key value) reducer_seasonal_analysis monthly =
      Inr rows" and "r \<in> set rows"
  shows "\<exists>k1 s k2 d. (k1, s) \<in> set monthly \<and> (k2, Payload d) \<in> set (mapper_add_season k1 s) \<and>
     season_result.city r = season_data.city d \<and> 1 \<le> months_in_season r"
proof -
  from run_step_member [OF assms] obtain k2 vs out where
    g: "(k2, vs) \<in> set (shuffle (concat (map (\<lambda>(key, value). mapper_add_season key value) monthly)))"
    and o: "reducer_seasonal_analysis k2 vs = Inr out" "r \<in> set out"
    by blast
  note m = seasonal_analysis_member [OF o]
  from m(2) have "hd (loaded vs) \<in> set (loaded vs)" by simp
  then have "Payload (hd (loaded vs)) \<in> set vs" by (simp add: loaded_member)
  with shuffle_member [OF g]
  have "(k2, Payload (hd (loaded vs))) \<in>
      set (concat (map (\<lambda>(key, value). mapper_add_season key value) monthly))"
    by blast
  from concat_map_member [OF this] obtain k1 s where
    "(k1, s) \<in> set monthly" "(k2, Payload (hd (loaded vs))) \<in> set (mapper_add_season k1 s)"
    by blast
  moreover from m(2,3) have "1 \<le> months_in_season r"
    by (cases "loaded vs") simp_all
  ultimately show ?thesis using m(4) by blast
qed

lemma format_output_row:
  assumes "(k2, Payload r) \<in> set (mapper_format_output k1 s)"
  shows "temp_stats.total_days r = temp_stats.total_days s"
    "CHR ''_'' \<notin> set (temp_output.city r)"
proof -
  from mapper_format_output_pairs [OF assms] obtain c ys ms y m where
    sp: "py_split (CHR ''_'') k1 = [c, ys, ms]" and
    r: "r = temp_stats.extend s
              \<lparr>temp_output.city = c, temp_output.year = y, temp_output.month = m,
               month_name = month_names ! nat (m - 1)\<rparr>"
    by auto
  show "temp_stats.total_days r = temp_stats.total_days s"
    unfolding r by (simp add: temp_stats.defs)
  have "c \<in> set (py_split (CHR ''_'') k1)" unfolding sp by simp
  from py_split_parts [OF this] show "CHR ''_'' \<notin> set (temp_output.city r)"
    unfolding r by (simp add: temp_stats.defs)
qed

lemma add_season_row:
  assumes "(k2, Payload d) \<in> set (mapper_add_season k1 s)"
  shows "CHR ''_'' \<notin> set (season_data.city d)"
proof -
  from mapper_add_season_pairs [OF assms] obtain c ys ms y m where
    sp: "py_split (CHR ''_'') k1 = [c, ys, ms]" and
    d: "d = precip_stats.extend s
              \<lparr>season_data.city = c, season_data.year = y, season_data.month = m,
               season_data.season = get_season m\<rparr>"
    by auto
  have "c \<in> set (py_split (CHR ''_'') k1)" unfolding sp by simp
  from py_split_parts [OF this] show ?thesis
    unfolding d by (simp add: precip_stats.defs)
qed

lemma temperature_monthly_days:
  assumes "run_step (mapper_parse_data lib) reducer_aggregate_temps lines = Inr monthly"
    and "(k, s) \<in> set monthly"
  shows "temp_stats.total_days s =
      int (length (values_of k (concat (map (mapper_parse_data lib) lines))))"
    "1 \<le> temp_stats.total_days s" "\<exists>c y m. k = stage1_key c y m"
proof -
  from run_step_member [OF assms] obtain k' vs out where
    g: "(k', vs) \<in> set (shuffle (concat (map (mapper_parse_data lib) lines)))"
    and o: "reducer_aggregate_temps k' vs = Inr out" "(k, s) \<in> set out"
    by blast
  note m = aggregate_temps_member [OF o]
  note st = stage1_groups [OF g]
  note p = temperature_group_payloads [OF m(2) st(3)]
  have "length (loaded vs) = length vs"
    using p(1) by (metis length_map)
  with m(4) sum_list_ones [OF p(2)] have d: "temp_stats.total_days s = int (length vs)"
    by simp
  with st(1) m(1) show "temp_stats.total_days s =
      int (length (values_of k (concat (map (mapper_parse_data lib) lines))))"
    by simp
  from d st(2) show "1 \<le> temp_stats.total_days s"
    by (cases vs) simp_all
  from p(3) st(2) m(1) show "\<exists>c y m. k = stage1_key c y m" by blast
qed

lemma precipitation_monthly_days:
  assumes "run_step (mapper_parse_precipitation lib) reducer_monthly_totals lines = Inr monthly"
    and "(k, s) \<in> set monthly"
  shows "precip_stats.total_days s =
      int (length (values_of k (concat (map (mapper_parse_precipitation lib) lines))))"
    "1 \<le> precip_stats.total_days s" "\<exists>c y m. k = stage1_key c y m"
proof -
  from run_step_member [OF assms] obtain k' vs out where
    g: "(k', vs) \<in> set (shuffle (concat (map (mapper_parse_precipitation lib) lines)))"
    and o: "reducer_monthly_totals k' vs = Inr out" "(k, s) \<in> set out"
    by blast
  note m = monthly_totals_member [OF o]
  note st = stage1_groups [OF g]
  note p = precipitation_group_payloads [OF m(2) st(3)]
  have "length (loaded vs) = length vs"
    using p(1) by (metis length_map)
  with m(3) have d: "precip_stats.total_days s = int (length vs)"
    by simp
  with st(1) m(1) show "precip_stats.total_days s =
      int (length (values_of k (concat (map (mapper_parse_precipitation lib) lines))))"
    by simp
  from d st(2) show "1 \<le> precip_stats.total_days s"
    by (cases vs) simp_all
  from p(2) st(2) m(1) show "\<exists>c y m. k = stage1_key c y m" by blast
qed

section \<open>No record without contributing values\<close>

lemma no_division_by_zero:
  "reducer_aggregate_temps k tvalues \<noteq> Inl ZeroDivisionError"
  "reducer_monthly_totals k pvalues \<noteq> Inl ZeroDivisionError"
  "reducer_seasonal_analysis k svalues \<noteq> Inl ZeroDivisionError"
proof -
  show "reducer_aggregate_temps k tvalues \<noteq> Inl ZeroDivisionError"
    using reducer_aggregate_temps_total [of k tvalues] by auto
  show "reducer_seasonal_analysis k svalues \<noteq> Inl ZeroDivisionError"
    using reducer_seasonal_analysis_total [of k svalues] by auto
  show "reducer_monthly_totals k pvalues \<noteq> Inl ZeroDivisionError"
    using reducer_monthly_totals_counts [of k pvalues]
    by (cases "reducer_monthly_totals k pvalues") (auto split: if_splits)
qed

text \<open>
  Claim C8.  Both jobs run to their end on every batch of lines: no reducer raises, and
  no reducer can raise a division by zero on any list of values at all.  Every monthly
  record of the first stage has a day count that is the number of values grouped under
  its key, and that number is at least one; every final temperature row carries such a
  day count; and every seasonal row has at least one month.  So no record is emitted for
  a key without contributing values.
\<close>

theorem C8_every_record_has_contributors:
  "reducer_aggregate_temps k tvalues \<noteq> Inl ZeroDivisionError \<and>
   reducer_monthly_totals k pvalues \<noteq> Inl ZeroDivisionError \<and>
   reducer_seasonal_analysis k svalues \<noteq> Inl ZeroDivisionError \<and>
   (\<exists>tmonthly trows pmonthly prows.
      run_step (mapper_parse_data lib) reducer_aggregate_temps lines = Inr tmonthly \<and>
      temperature_analysis lib lines = Inr trows \<and>
      run_step (mapper_parse_precipitation lib) reducer_monthly_totals lines = Inr pmonthly \<and>
      precipitation_analysis lib lines = Inr prows \<and>
      (\<forall>(key, s)\<in>set tmonthly.
         temp_stats.total_days s =
           int (length (values_of key (concat (map (mapper_parse_data lib) lines)))) \<and>
         1 \<le> temp_stats.total_days s) \<and>
      (\<forall>r\<in>set trows. 1 \<le> temp_stats.total_days r) \<and>
      (\<forall>(key, s)\<in>set pmonthly.
         precip_stats.total_days s =
           int (length (values_of key (concat (map (mapper_parse_precipitation lib) lines)))) \<and>
         1 \<le> precip_stats.total_days s) \<and>
      (\<forall>r\<in>set prows. 1 \<le> months_in_season r))"
proof -
  obtain tmonthly trows where
    t: "run_step (mapper_parse_data lib) reducer_aggregate_temps lines = Inr tmonthly"
      "run_step (\<lambda>(key, value). mapper_format_output key value) reducer_final_output tmonthly =
         Inr trows"
      "temperature_analysis lib lines = Inr trows"
    using temperature_stages by blast
  obtain pmonthly prows where
    p: "run_step (mapper_parse_precipitation lib) reducer_monthly_totals lines = Inr pmonthly"
      "run_step (\<lambda>(key, value). mapper_add_season key value) reducer_seasonal_analysis pmonthly =
         Inr prows"
      "precipitation_analysis lib lines = Inr prows"
    using precipitation_stages by blast
  have a: "\<forall>(key, s)\<in>set tmonthly.
         temp_stats.total_days s =
           int (length (values_of key (concat (map (mapper_parse_data lib) lines)))) \<and>
         1 \<le> temp_stats.total_days s"
    using temperature_monthly_days(1,2) [OF t(1)] by blast
  have b: "\<forall>r\<in>set trows. 1 \<le> temp_stats.total_days r"
  proof
    fix r assume "r \<in> set trows"
    from temperature_row_origin [OF t(2) this] obtain k1 s k2 where
      "(k1, s) \<in> set tmonthly" "(k2, Payload r) \<in> set (mapper_format_output k1 s)"
      by blast
    with temperature_monthly_days(2) [OF t(1)] format_output_row(1)
    show "1 \<le> temp_stats.total_days r" by metis
  qed
  have c: "\<forall>(key, s)\<in>set pmonthly.
         precip_stats.total_days s =
           int (length (values_of key (concat (map (mapper_parse_precipitation lib) lines)))) \<and>
         1 \<le> precip_stats.total_days s"
    using precipitation_monthly_days(1,2) [OF p(1)] by blast
  have d: "\<forall>r\<in>set prows. 1 \<le> months_in_season r"
    using precipitation_row_origin [OF p(2)] by blast
  from t(1,3) p(1,3) a b c d no_division_by_zero show ?thesis by blast
qed


lemma one_good_line:
  "run_step (mapper_parse_data plain_lib) reducer_aggregate_temps
     [''2023-06-01,31.0,20.0,25.0,4.5,10.0,3600.0,Cali''] =
     Inr [(''Cali_2023_06'',
        \<lparr>city_year_month = ''Cali_2023_06'', avg_temp_max = Finite 31, avg_temp_min = Finite 20,
         avg_temp_mean = Finite 25, max_temp_recorded = Finite 31, min_temp_recorded = Finite 20,
         temp_stats.total_days = 1\<rparr>)]"
  "temperature_analysis plain_lib [''2023-06-01,31.0,20.0,25.0,4.5,10.0,3600.0,Cali''] =
     Inr [\<lparr>city_year_month = ''Cali_2023_06'', avg_temp_max = Finite 31, avg_temp_min = Finite 20,
         avg_temp_mean = Finite 25, max_temp_recorded = Finite 31, min_temp_recorded = Finite 20,
         temp_stats.total_days = 1, temp_output.city = ''Cali'', temp_output.year = 2023,
         temp_output.month = 6, month_name = ''June''\<rparr>]"
  "run_step (mapper_parse_precipitation plain_lib) reducer_monthly_totals
     [''2023-06-01,31.0,20.0,25.0,4.5,10.0,3600.0,Cali''] =
     Inr [(''Cali_2023_06'',
        \<lparr>monthly_total = Finite (9 / 2), days_with_rain = 1,
         max_daily_precipitation = Finite (9 / 2), avg_daily_precipitation = Finite (9 / 2),
         precip_stats.total_days = 1\<rparr>)]"
  "precipitation_analysis plain_lib [''2023-06-01,31.0,20.0,25.0,4.5,10.0,3600.0,Cali''] =
     Inr [\<lparr>season_result.city = ''Cali'', season_result.year = 2023,
         season_result.season = ''Invierno'', total_seasonal_precipitation = Finite (9 / 2),
         avg_monthly_precipitation = Finite (9 / 2), max_monthly_precipitation = Finite (9 / 2),
         total_rainy_days = 1, months_in_season = 1\<rparr>]"
  by (simp_all add: temperature_analysis_def precipitation_analysis_def run_step_def shuffle_def
      values_of_def mapper_parse_data_def parse_data_def mapper_parse_precipitation_def
      parse_precipitation_def plain_eval float_eval text_eval reducer_aggregate_temps_def
      reducer_monthly_totals_def mapper_format_output_def format_output_def
      mapper_add_season_def add_season_def get_season_def reducer_final_output_def
      reducer_seasonal_analysis_def temp_stats.defs temp_output.defs precip_stats.defs
      season_data.defs)

theorem C8_every_record_has_contributors_witness:
  "run_step (mapper_parse_data plain_lib) reducer_aggregate_temps
     [''2023-06-01,31.0,20.0,25.0,4.5,10.0,3600.0,Cali''] =
     Inr [(''Cali_2023_06'',
        \<lparr>city_year_month = ''Cali_2023_06'', avg_temp_max = Finite 31, avg_temp_min = Finite 20,
         avg_temp_mean = Finite 25, max_temp_recorded = Finite 31, min_temp_recorded = Finite 20,
         temp_stats.total_days = 1\<rparr>)] \<and>
   1 \<le> temp_stats.total_days
        \<lparr>city_year_month = ''Cali_2023_06'', avg_temp_max = Finite 31, avg_temp_min = Finite 20,
         avg_temp_mean = Finite 25, max_temp_recorded = Finite 31, min_temp_recorded = Finite 20,
         temp_stats.total_days = 1\<rparr> \<and>
   temperature_analysis plain_lib [''2023-06-01,31.0,20.0,25.0,4.5,10.0,3600.0,Cali''] =
     Inr [\<lparr>city_year_month = ''Cali_2023_06'', avg_temp_max = Finite 31, avg_temp_min = Finite 20,
         avg_temp_mean = Finite 25, max_temp_recorded = Finite 31, min_temp_recorded = Finite 20,
         temp_stats.total_days = 1, temp_output.city = ''Cali'', temp_output.year = 2023,
         temp_output.month = 6, month_name = ''June''\<rparr>] \<and>
   1 \<le> temp_stats.total_days
        \<lparr>city_year_month = ''Cali_2023_06'', avg_temp_max = Finite 31, avg_temp_min = Finite 20,
         avg_temp_mean = Finite 25, max_temp_recorded = Finite 31, min_temp_recorded = Finite 20,
         temp_stats.total_days = 1, temp_output.city = ''Cali'', temp_output.year = 2023,
         temp_output.month = 6, month_name = ''June''\<rparr> \<and>
   run_step (mapper_parse_precipitation plain_lib) reducer_monthly_totals
     [''2023-06-01,31.0,20.0,25.0,4.5,10.0,3600.0,Cali''] =
     Inr [(''Cali_2023_06'',
        \<lparr>monthly_total = Finite (9 / 2), days_with_rain = 1,
         max_daily_precipitation = Finite (9 / 2), avg_daily_precipitation = Finite (9 / 2),
         precip_stats.total_days = 1\<rparr>)] \<and>
   1 \<le> precip_stats.total_days
        \<lparr>monthly_total = Finite (9 / 2), days_with_rain = 1,
         max_daily_precipitation = Finite (9 / 2), avg_daily_precipitation = Finite (9 / 2),
         precip_stats.total_days = 1\<rparr> \<and>
   precipitation_analysis plain_lib [''2023-06-01,31.0,20.0,25.0,4.5,10.0,3600.0,Cali''] =
     Inr [\<lparr>season_result.city = ''Cali'', season_result.year = 2023,
         season_result.season = ''Invierno'', total_seasonal_precipitation = Finite (9 / 2),
         avg_monthly_precipitation = Finite (9 / 2), max_monthly_precipitation = Finite (9 / 2),
         total_rainy_days = 1, months_in_season = 1\<rparr>] \<and>
   1 \<le> months_in_season
        \<lparr>season_result.city = ''Cali'', season_result.year = 2023,
         season_result.season = ''Invierno'', total_seasonal_precipitation = Finite (9 / 2),
         avg_monthly_precipitation = Finite (9 / 2), max_monthly_precipitation = Finite (9 / 2),
         total_rainy_days = 1, months_in_season = 1\<rparr>"
proof -
  note c8 = C8_every_record_has_contributors [where lib = plain_lib
      and lines = "[''2023-06-01,31.0,20.0,25.0,4.5,10.0,3600.0,Cali'']",
      THEN conjunct2, THEN conjunct2, THEN conjunct2]
  from c8 show ?thesis
    unfolding one_good_line by (elim exE conjE) simp
qed


section \<open>City names with an underscore\<close>

lemma temperature_rows_city:
  assumes "temperature_analysis lib lines = Inr rows" "r \<in> set rows"
  shows "CHR ''_'' \<notin> set (temp_output.city r)"
proof -
  from temperature_stages [of lib lines] assms(1) obtain monthly where
    "run_step (\<lambda>(key, value). mapper_format_output key value) reducer_final_output monthly =
       Inr rows"
    by auto
  from temperature_row_origin [OF this assms(2)] format_output_row(2)
  show ?thesis by blast
qed

lemma precipitation_rows_city:
  assumes "precipitation_analysis lib lines = Inr rows" "r \<in> set rows"
  shows "CHR ''_'' \<notin> set (season_result.city r)"
proof -
  from precipitation_stages [of lib lines] assms(1) obtain monthly where
    "run_step (\<lambda>(key, value). mapper_add_season key value) reducer_seasonal_analysis monthly =
       Inr rows"
    by auto
  from precipitation_row_origin [OF this assms(2)] add_season_row
  show ?thesis by metis
qed

lemma run_step_emits:
  assumes "run_step mapper reducer inputs = Inr out"
    and "(k, v) \<in> set (concat (map mapper inputs))"
  shows "\<exists>xs. reducer k (values_of k (concat (map mapper inputs))) = Inr xs \<and> set xs \<subseteq> set out"
proof -
  define kvs where "kvs = concat (map mapper inputs)"
  from assms(2) have "k \<in> fst ` set kvs"
    unfolding kvs_def by force
  then have g: "(k, values_of k kvs) \<in> set (shuffle kvs)"
    by (simp add: shuffle_def image_iff)
  from collect_Inr_D [OF assms(1) [unfolded run_step_def]]
  have all: "\<forall>r\<in>set (map (\<lambda>(k, vs). reducer k vs) (shuffle kvs)). \<exists>xs. r = Inr xs"
    and out: "out = concat (map projr (map (\<lambda>(k, vs). reducer k vs) (shuffle kvs)))"
    unfolding kvs_def by simp_all
  from g have m: "reducer k (values_of k kvs) \<in> set (map (\<lambda>(k, vs). reducer k vs) (shuffle kvs))"
    by force
  with all obtain xs where xs: "reducer k (values_of k kvs) = Inr xs" by blast
  from m have "set (projr (reducer k (values_of k kvs))) \<subseteq> set out"
    unfolding out by auto
  with xs show ?thesis unfolding kvs_def by simp
qed

lemma values_of_pairs:
  "\<forall>v\<in>set (values_of k (concat (map mapper lines))). \<exists>line. (k, v) \<in> set (mapper line)"
  by (auto simp: values_of_def)

lemma values_of_not_Nil: "(k, v) \<in> set kvs \<Longrightarrow> values_of k kvs \<noteq> []"
  by (force simp: values_of_def filter_empty_conv)

lemma temperature_stage1_emits:
  assumes "run_step (mapper_parse_data lib) reducer_aggregate_temps lines = Inr monthly"
    and "line \<in> set lines" and "(stage1_key c y m, v) \<in> set (mapper_parse_data lib line)"
  shows "\<exists>s. reducer_aggregate_temps (stage1_key c y m)
        (values_of (stage1_key c y m) (concat (map (mapper_parse_data lib) lines))) =
        Inr [(stage1_key c y m, s)] \<and>
      (stage1_key c y m, s) \<in> set monthly"
proof -
  define k where "k = stage1_key c y m"
  define vs where "vs = values_of k (concat (map (mapper_parse_data lib) lines))"
  have k: "k \<noteq> ''ERROR''" unfolding k_def by (rule stage1_key_not_ERROR)
  from assms(2,3) have mem: "(k, v) \<in> set (concat (map (mapper_parse_data lib) lines))"
    unfolding k_def by auto
  then have ne: "vs \<noteq> []" unfolding vs_def by (rule values_of_not_Nil)
  have "\<forall>v\<in>set vs. \<exists>line. (k, v) \<in> set (mapper_parse_data lib line)"
    unfolding vs_def by (rule values_of_pairs)
  from temperature_group_payloads(1) [OF k this] have p: "map Payload (loaded vs) = vs" .
  with ne have "loaded vs \<noteq> []" by auto
  from reducer_aggregate_temps_payloads [OF k this] obtain s where
    s: "reducer_aggregate_temps k vs = Inr [(k, s)]"
    unfolding p by blast
  from run_step_emits [OF assms(1) mem] s have "(k, s) \<in> set monthly"
    unfolding vs_def by auto
  with s show ?thesis unfolding vs_def k_def by blast
qed

lemma reducer_monthly_totals_payloads:
  assumes "key \<noteq> ''ERROR''" "xs \<noteq> []"
  shows "\<exists>s. reducer_monthly_totals key (map Payload xs) = Inr [(key, s)]"
proof -
  have n: "numbers (map Payload xs) = Inr xs"
    by (simp add: numbers_eq list_ex_iff)
  from assms(2) obtain mx where "py_max xs = Inr mx"
    using py_max_Cons by blast
  with assms show ?thesis
    by (simp add: reducer_monthly_totals_def n py_truediv_def Let_def)
qed

lemma precipitation_stage1_emits:
  assumes "run_step (mapper_parse_precipitation lib) reducer_monthly_totals lines = Inr monthly"
    and "line \<in> set lines" and "(stage1_key c y m, v) \<in> set (mapper_parse_precipitation lib line)"
  shows "\<exists>s. reducer_monthly_totals (stage1_key c y m)
        (values_of (stage1_key c y m) (concat (map (mapper_parse_precipitation lib) lines))) =
        Inr [(stage1_key c y m, s)] \<and>
      (stage1_key c y m, s) \<in> set monthly"
proof -
  define k where "k = stage1_key c y m"
  define vs where "vs = values_of k (concat (map (mapper_parse_precipitation lib) lines))"
  have k: "k \<noteq> ''ERROR''" unfolding k_def by (rule stage1_key_not_ERROR)
  from assms(2,3) have mem: "(k, v) \<in> set (concat (map (mapper_parse_precipitation lib) lines))"
    unfolding k_def by auto
  then have ne: "vs \<noteq> []" unfolding vs_def by (rule values_of_not_Nil)
  have "\<forall>v\<in>set vs. \<exists>line. (k, v) \<in> set (mapper_parse_precipitation lib line)"
    unfolding vs_def by (rule values_of_pairs)
  from precipitation_group_payloads(1) [OF k this] have p: "map Payload (loaded vs) = vs" .
  with ne have "loaded vs \<noteq> []" by auto
  from reducer_monthly_totals_payloads [OF k this] obtain s where
    s: "reducer_monthly_totals k vs = Inr [(k, s)]"
    unfolding p by blast
  from run_step_emits [OF assms(1) mem] s have "(k, s) \<in> set monthly"
    unfolding vs_def by auto
  with s show ?thesis unfolding vs_def k_def by blast
qed

lemma mapper_parse_data_good:
  assumes "\<not> py_startswith l ''time,temperature''" "csv_reader lib l = Inr row" "8 \<le> length row"
    and "strptime_ymd lib (row ! 0) = Inr (y, m)"
    and "row ! 1 \<noteq> []" "float_of_str lib (row ! 1) = Inr tmax"
    and "row ! 2 \<noteq> []" "float_of_str lib (row ! 2) = Inr tmin"
    and "row ! 3 \<noteq> []" "float_of_str lib (row ! 3) = Inr tmean"
  shows "mapper_parse_data lib l =
     [(stage1_key (row ! 7) y m,
       Payload \<lparr>temp_max = tmax, temp_min = tmin, temp_mean = tmean, count = 1\<rparr>)]"
  using assms by (simp add: mapper_parse_data_def parse_data_def float_or_def then_do_def)

lemma mapper_parse_precipitation_good:
  assumes "\<not> py_startswith l ''time,temperature''" "csv_reader lib l = Inr row" "8 \<le> length row"
    and "strptime_ymd lib (row ! 0) = Inr (y, m)"
    and "row ! 4 \<noteq> []" "float_of_str lib (row ! 4) = Inr rain"
  shows "mapper_parse_precipitation lib l = [(stage1_key (row ! 7) y m, Payload rain)]"
  using assms
  by (simp add: mapper_parse_precipitation_def parse_precipitation_def float_or_def then_do_def)

text \<open>
  Claim C10.  Let the city name of a daily record contain an underscore.  The first stage
  of either job treats the record like any other: a line whose row has the eight fields,
  a date and the numbers the parser reads is parsed into a value under the key of its
  city, year and month, and whenever a line of the batch yields a value under that key,
  the monthly reducer emits one record for the key, which is among the output of the
  first stage.  The key splits into more than three parts, so the second-stage mapper of
  either job cannot unpack it, catches the \<^verbatim>\<open>ValueError\<close> and yields only a message
  under the error key, which the last reducer of either job discards.  Both jobs run to
  their end on every batch, and no row of either final output carries such a city name.
\<close>

theorem C10_underscore_city_dropped:
  "CHR ''_'' \<in> set c \<Longrightarrow>
     (\<not> py_startswith l ''time,temperature'' \<and> csv_reader lib l = Inr row \<and> 8 \<le> length row \<and>
      row ! 7 = c \<and> strptime_ymd lib (row ! 0) = Inr (y, m) \<and>
      row ! 1 \<noteq> [] \<and> float_of_str lib (row ! 1) = Inr tmax \<and>
      row ! 2 \<noteq> [] \<and> float_of_str lib (row ! 2) = Inr tmin \<and>
      row ! 3 \<noteq> [] \<and> float_of_str lib (row ! 3) = Inr tmean \<longrightarrow>
        mapper_parse_data lib l =
          [(stage1_key c y m,
            Payload \<lparr>temp_max = tmax, temp_min = tmin, temp_mean = tmean, count = 1\<rparr>)]) \<and>
     (\<not> py_startswith l ''time,temperature'' \<and> csv_reader lib l = Inr row \<and> 8 \<le> length row \<and>
      row ! 7 = c \<and> strptime_ymd lib (row ! 0) = Inr (y, m) \<and>
      row ! 4 \<noteq> [] \<and> float_of_str lib (row ! 4) = Inr rain \<longrightarrow>
        mapper_parse_precipitation lib l = [(stage1_key c y m, Payload rain)]) \<and>
     mapper_format_output (stage1_key c y m) stats =
       [(''ERROR'', ErrorText ''Format error: '' ValueError)] \<and>
     mapper_add_season (stage1_key c y m) data =
       [(''ERROR'', ErrorText ''Season mapping error: '' ValueError)] \<and>
     reducer_final_output ''ERROR'' fvalues = Inr [] \<and>
     reducer_seasonal_analysis ''ERROR'' svalues = Inr [] \<and>
     (\<exists>tmonthly trows pmonthly prows.
        run_step (mapper_parse_data lib) reducer_aggregate_temps lines = Inr tmonthly \<and>
        run_step (\<lambda>(key, value). mapper_format_output key value) reducer_final_output tmonthly =
          Inr trows \<and>
        temperature_analysis lib lines = Inr trows \<and>
        run_step (mapper_parse_precipitation lib) reducer_monthly_totals lines = Inr pmonthly \<and>
        run_step (\<lambda>(key, value). mapper_add_season key value) reducer_seasonal_analysis pmonthly =
          Inr prows \<and>
        precipitation_analysis lib lines = Inr prows \<and>
        ((\<exists>line\<in>set lines. \<exists>v. (stage1_key c y m, v) \<in> set (mapper_parse_data lib line)) \<longrightarrow>
           (\<exists>s. reducer_aggregate_temps (stage1_key c y m)
                  (values_of (stage1_key c y m) (concat (map (mapper_parse_data lib) lines))) =
                  Inr [(stage1_key c y m, s)] \<and>
                (stage1_key c y m, s) \<in> set tmonthly)) \<and>
        ((\<exists>line\<in>set lines. \<exists>v. (stage1_key c y m, v) \<in> set (mapper_parse_precipitation lib line)) \<longrightarrow>
           (\<exists>s. reducer_monthly_totals (stage1_key c y m)
                  (values_of (stage1_key c y m)
                     (concat (map (mapper_parse_precipitation lib) lines))) =
                  Inr [(stage1_key c y m, s)] \<and>
                (stage1_key c y m, s) \<in> set pmonthly)) \<and>
        (\<forall>r\<in>set trows. temp_output.city r \<noteq> c) \<and>
        (\<forall>r\<in>set prows. season_result.city r \<noteq> c))"
proof -
  assume c: "CHR ''_'' \<in> set c"
  obtain tmonthly trows where
    t: "run_step (mapper_parse_data lib) reducer_aggregate_temps lines = Inr tmonthly"
      "run_step (\<lambda>(key, value). mapper_format_output key value) reducer_final_output tmonthly =
         Inr trows"
      "temperature_analysis lib lines = Inr trows"
    using temperature_stages by blast
  obtain pmonthly prows where
    p: "run_step (mapper_parse_precipitation lib) reducer_monthly_totals lines = Inr pmonthly"
      "run_step (\<lambda>(key, value). mapper_add_season key value) reducer_seasonal_analysis pmonthly =
         Inr prows"
      "precipitation_analysis lib lines = Inr prows"
    using precipitation_stages by blast
  have r1: "\<forall>r\<in>set trows. temp_output.city r \<noteq> c"
    using temperature_rows_city [OF t(3)] c by blast
  have r2: "\<forall>r\<in>set prows. season_result.city r \<noteq> c"
    using precipitation_rows_city [OF p(3)] c by blast
  have e1: "(\<exists>line\<in>set lines. \<exists>v. (stage1_key c y m, v) \<in> set (mapper_parse_data lib line)) \<longrightarrow>
           (\<exists>s. reducer_aggregate_temps (stage1_key c y m)
                  (values_of (stage1_key c y m) (concat (map (mapper_parse_data lib) lines))) =
                  Inr [(stage1_key c y m, s)] \<and>
                (stage1_key c y m, s) \<in> set tmonthly)"
    using temperature_stage1_emits [OF t(1)] by blast
  have e2: "(\<exists>line\<in>set lines. \<exists>v. (stage1_key c y m, v) \<in> set (mapper_parse_precipitation lib line)) \<longrightarrow>
           (\<exists>s. reducer_monthly_totals (stage1_key c y m)
                  (values_of (stage1_key c y m)
                     (concat (map (mapper_parse_precipitation lib) lines))) =
                  Inr [(stage1_key c y m, s)] \<and>
                (stage1_key c y m, s) \<in> set pmonthly)"
    using precipitation_stage1_emits [OF p(1)] by blast
  have stages: "\<exists>tmonthly trows pmonthly prows.
        run_step (mapper_parse_data lib) reducer_aggregate_temps lines = Inr tmonthly \<and>
        run_step (\<lambda>(key, value). mapper_format_output key value) reducer_final_output tmonthly =
          Inr trows \<and>
        temperature_analysis lib lines = Inr trows \<and>
        run_step (mapper_parse_precipitation lib) reducer_monthly_totals lines = Inr pmonthly \<and>
        run_step (\<lambda>(key, value). mapper_add_season key value) reducer_seasonal_analysis pmonthly =
          Inr prows \<and>
        precipitation_analysis lib lines = Inr prows \<and>
        ((\<exists>line\<in>set lines. \<exists>v. (stage1_key c y m, v) \<in> set (mapper_parse_data lib line)) \<longrightarrow>
           (\<exists>s. reducer_aggregate_temps (stage1_key c y m)
                  (values_of (stage1_key c y m) (concat (map (mapper_parse_data lib) lines))) =
                  Inr [(stage1_key c y m, s)] \<and>
                (stage1_key c y m, s) \<in> set tmonthly)) \<and>
        ((\<exists>line\<in>set lines. \<exists>v. (stage1_key c y m, v) \<in> set (mapper_parse_precipitation lib line)) \<longrightarrow>
           (\<exists>s. reducer_monthly_totals (stage1_key c y m)
                  (values_of (stage1_key c y m)
                     (concat (map (mapper_parse_precipitation lib) lines))) =
                  Inr [(stage1_key c y m, s)] \<and>
                (stage1_key c y m, s) \<in> set pmonthly)) \<and>
        (\<forall>r\<in>set trows. temp_output.city r \<noteq> c) \<and>
        (\<forall>r\<in>set prows. season_result.city r \<noteq> c)"
    using t p e1 e2 r1 r2
    by (intro exI [of _ tmonthly] exI [of _ trows] exI [of _ pmonthly] exI [of _ prows] conjI)
  have f: "mapper_format_output (stage1_key c y m) stats =
       [(''ERROR'', ErrorText ''Format error: '' ValueError)]"
    by (simp add: mapper_format_output_def format_output_def stage1_key_not_ERROR
        unpack3_stage1_key_underscore [OF c] then_do_def)
  have a: "mapper_add_season (stage1_key c y m) data =
       [(''ERROR'', ErrorText ''Season mapping error: '' ValueError)]"
    by (simp add: mapper_add_season_def add_season_def stage1_key_not_ERROR
        unpack3_stage1_key_underscore [OF c] then_do_def)
  have g1: "\<not> py_startswith l ''time,temperature'' \<and> csv_reader lib l = Inr row \<and> 8 \<le> length row \<and>
      row ! 7 = c \<and> strptime_ymd lib (row ! 0) = Inr (y, m) \<and>
      row ! 1 \<noteq> [] \<and> float_of_str lib (row ! 1) = Inr tmax \<and>
      row ! 2 \<noteq> [] \<and> float_of_str lib (row ! 2) = Inr tmin \<and>
      row ! 3 \<noteq> [] \<and> float_of_str lib (row ! 3) = Inr tmean \<longrightarrow>
        mapper_parse_data lib l =
          [(stage1_key c y m,
            Payload \<lparr>temp_max = tmax, temp_min = tmin, temp_mean = tmean, count = 1\<rparr>)]"
    using mapper_parse_data_good [of l lib row y m tmax tmin tmean] by blast
  have g2: "\<not> py_startswith l ''time,temperature'' \<and> csv_reader lib l = Inr row \<and> 8 \<le> length row \<and>
      row ! 7 = c \<and> strptime_ymd lib (row ! 0) = Inr (y, m) \<and>
      row ! 4 \<noteq> [] \<and> float_of_str lib (row ! 4) = Inr rain \<longrightarrow>
        mapper_parse_precipitation lib l = [(stage1_key c y m, Payload rain)]"
    using mapper_parse_precipitation_good [of l lib row y m rain] by blast
  from g1 g2 f a error_key_dropped(5) [of fvalues] error_key_dropped(6) [of svalues] stages
  show ?thesis by (intro conjI)
qed

lemma two_cities:
  "run_step (mapper_parse_data plain_lib) reducer_aggregate_temps
     [''2023-06-01,29.0,21.0,24.0,2.5,10.0,3600.0,San_Andres'',
      ''2023-06-01,31.0,20.0,25.0,4.5,10.0,3600.0,Cali''] =
     Inr [(''Cali_2023_06'',
        \<lparr>city_year_month = ''Cali_2023_06'', avg_temp_max = Finite 31, avg_temp_min = Finite 20,
         avg_temp_mean = Finite 25, max_temp_recorded = Finite 31, min_temp_recorded = Finite 20,
         temp_stats.total_days = 1\<rparr>),
       (''San_Andres_2023_06'',
        \<lparr>city_year_month = ''San_Andres_2023_06'', avg_temp_max = Finite 29,
         avg_temp_min = Finite 21, avg_temp_mean = Finite 24, max_temp_recorded = Finite 29,
         min_temp_recorded = Finite 21, temp_stats.total_days = 1\<rparr>)]"
  "run_step (mapper_parse_precipitation plain_lib) reducer_monthly_totals
     [''2023-06-01,29.0,21.0,24.0,2.5,10.0,3600.0,San_Andres'',
      ''2023-06-01,31.0,20.0,25.0,4.5,10.0,3600.0,Cali''] =
     Inr [(''Cali_2023_06'',
        \<lparr>monthly_total = Finite (9 / 2), days_with_rain = 1,
         max_daily_precipitation = Finite (9 / 2), avg_daily_precipitation = Finite (9 / 2),
         precip_stats.total_days = 1\<rparr>),
       (''San_Andres_2023_06'',
        \<lparr>monthly_total = Finite (5 / 2), days_with_rain = 1,
         max_daily_precipitation = Finite (5 / 2), avg_daily_precipitation = Finite (5 / 2),
         precip_stats.total_days = 1\<rparr>)]"
  "temperature_analysis plain_lib
     [''2023-06-01,29.0,21.0,24.0,2.5,10.0,3600.0,San_Andres'',
      ''2023-06-01,31.0,20.0,25.0,4.5,10.0,3600.0,Cali''] =
     Inr [\<lparr>city_year_month = ''Cali_2023_06'', avg_temp_max = Finite 31, avg_temp_min = Finite 20,
         avg_temp_mean = Finite 25, max_temp_recorded = Finite 31, min_temp_recorded = Finite 20,
         temp_stats.total_days = 1, temp_output.city = ''Cali'', temp_output.year = 2023,
         temp_output.month = 6, month_name = ''June''\<rparr>]"
  "precipitation_analysis plain_lib
     [''2023-06-01,29.0,21.0,24.0,2.5,10.0,3600.0,San_Andres'',
      ''2023-06-01,31.0,20.0,25.0,4.5,10.0,3600.0,Cali''] =
     Inr [\<lparr>season_result.city = ''Cali'', season_result.year = 2023,
         season_result.season = ''Invierno'', total_seasonal_precipitation = Finite (9 / 2),
         avg_monthly_precipitation = Finite (9 / 2), max_monthly_precipitation = Finite (9 / 2),
         total_rainy_days = 1, months_in_season = 1\<rparr>]"
  by (simp_all add: temperature_analysis_def precipitation_analysis_def run_step_def shuffle_def
      values_of_def mapper_parse_data_def parse_data_def mapper_parse_precipitation_def
      parse_precipitation_def plain_eval float_eval text_eval json_eval reducer_aggregate_temps_def
      reducer_monthly_totals_def mapper_format_output_def format_output_def
      mapper_add_season_def add_season_def get_season_def reducer_final_output_def
      reducer_seasonal_analysis_def temp_stats.defs temp_output.defs precip_stats.defs
      season_data.defs)

lemma san_andres_line:
  "\<not> py_startswith ''2023-06-01,29.0,21.0,24.0,2.5,10.0,3600.0,San_Andres'' ''time,temperature'' \<and>
   csv_reader plain_lib ''2023-06-01,29.0,21.0,24.0,2.5,10.0,3600.0,San_Andres'' =
     Inr [''2023-06-01'', ''29.0'', ''21.0'', ''24.0'', ''2.5'', ''10.0'', ''3600.0'', ''San_Andres''] \<and>
   strptime_ymd plain_lib ''2023-06-01'' = Inr (2023, 6) \<and>
   float_of_str plain_lib ''29.0'' = Inr (Finite 29) \<and>
   float_of_str plain_lib ''21.0'' = Inr (Finite 21) \<and>
   float_of_str plain_lib ''24.0'' = Inr (Finite 24) \<and>
   float_of_str plain_lib ''2.5'' = Inr (Finite (5 / 2))"
  by (simp add: plain_eval float_eval text_eval)

lemma san_andres_key: "stage1_key ''San_Andres'' 2023 6 = ''San_Andres_2023_06''"
  by (simp add: text_eval)

theorem C10_underscore_city_dropped_witness:
  "CHR ''_'' \<in> set ''San_Andres'' \<and>
   \<not> py_startswith ''2023-06-01,29.0,21.0,24.0,2.5,10.0,3600.0,San_Andres'' ''time,temperature'' \<and>
   csv_reader plain_lib ''2023-06-01,29.0,21.0,24.0,2.5,10.0,3600.0,San_Andres'' =
     Inr [''2023-06-01'', ''29.0'', ''21.0'', ''24.0'', ''2.5'', ''10.0'', ''3600.0'', ''San_Andres''] \<and>
   strptime_ymd plain_lib ''2023-06-01'' = Inr (2023, 6) \<and>
   float_of_str plain_lib ''29.0'' = Inr (Finite 29) \<and>
   float_of_str plain_lib ''21.0'' = Inr (Finite 21) \<and>
   float_of_str plain_lib ''24.0'' = Inr (Finite 24) \<and>
   float_of_str plain_lib ''2.5'' = Inr (Finite (5 / 2)) \<and>
   mapper_parse_data plain_lib ''2023-06-01,29.0,21.0,24.0,2.5,10.0,3600.0,San_Andres'' =
     [(''San_Andres_2023_06'', Payload \<lparr>temp_max = Finite 29, temp_min = Finite 21, temp_mean = Finite 24, count = 1\<rparr>)] \<and>
   mapper_parse_precipitation plain_lib ''2023-06-01,29.0,21.0,24.0,2.5,10.0,3600.0,San_Andres'' =
     [(''San_Andres_2023_06'', Payload (Finite (5 / 2)))] \<and>
   run_step (mapper_parse_data plain_lib) reducer_aggregate_temps
     [''2023-06-01,29.0,21.0,24.0,2.5,10.0,3600.0,San_Andres'',
      ''2023-06-01,31.0,20.0,25.0,4.5,10.0,3600.0,Cali''] =
     Inr [(''Cali_2023_06'',
        \<lparr>city_year_month = ''Cali_2023_06'', avg_temp_max = Finite 31, avg_temp_min = Finite 20,
         avg_temp_mean = Finite 25, max_temp_recorded = Finite 31, min_temp_recorded = Finite 20,
         temp_stats.total_days = 1\<rparr>),
       (''San_Andres_2023_06'',
        \<lparr>city_year_month = ''San_Andres_2023_06'', avg_temp_max = Finite 29,
         avg_temp_min = Finite 21, avg_temp_mean = Finite 24, max_temp_recorded = Finite 29,
         min_temp_recorded = Finite 21, temp_stats.total_days = 1\<rparr>)] \<and>
   run_step (mapper_parse_precipitation plain_lib) reducer_monthly_totals
     [''2023-06-01,29.0,21.0,24.0,2.5,10.0,3600.0,San_Andres'',
      ''2023-06-01,31.0,20.0,25.0,4.5,10.0,3600.0,Cali''] =
     Inr [(''Cali_2023_06'',
        \<lparr>monthly_total = Finite (9 / 2), days_with_rain = 1,
         max_daily_precipitation = Finite (9 / 2), avg_daily_precipitation = Finite (9 / 2),
         precip_stats.total_days = 1\<rparr>),
       (''San_Andres_2023_06'',
        \<lparr>monthly_total = Finite (5 / 2), days_with_rain = 1,
         max_daily_precipitation = Finite (5 / 2), avg_daily_precipitation = Finite (5 / 2),
         precip_stats.total_days = 1\<rparr>)] \<and>
   (\<forall>stats. mapper_format_output ''San_Andres_2023_06'' stats =
       [(''ERROR'', ErrorText ''Format error: '' ValueError)]) \<and>
   (\<forall>data. mapper_add_season ''San_Andres_2023_06'' data =
       [(''ERROR'', ErrorText ''Season mapping error: '' ValueError)]) \<and>
   temperature_analysis plain_lib
     [''2023-06-01,29.0,21.0,24.0,2.5,10.0,3600.0,San_Andres'',
      ''2023-06-01,31.0,20.0,25.0,4.5,10.0,3600.0,Cali''] =
     Inr [\<lparr>city_year_month = ''Cali_2023_06'', avg_temp_max = Finite 31, avg_temp_min = Finite 20,
         avg_temp_mean = Finite 25, max_temp_recorded = Finite 31, min_temp_recorded = Finite 20,
         temp_stats.total_days = 1, temp_output.city = ''Cali'', temp_output.year = 2023,
         temp_output.month = 6, month_name = ''June''\<rparr>] \<and>
   temp_output.city
        \<lparr>city_year_month = ''Cali_2023_06'', avg_temp_max = Finite 31, avg_temp_min = Finite 20,
         avg_temp_mean = Finite 25, max_temp_recorded = Finite 31, min_temp_recorded = Finite 20,
         temp_stats.total_days = 1, temp_output.city = ''Cali'', temp_output.year = 2023,
         temp_output.month = 6, month_name = ''June''\<rparr> \<noteq> ''San_Andres'' \<and>
   precipitation_analysis plain_lib
     [''2023-06-01,29.0,21.0,24.0,2.5,10.0,3600.0,San_Andres'',
      ''2023-06-01,31.0,20.0,25.0,4.5,10.0,3600.0,Cali''] =
     Inr [\<lparr>season_result.city = ''Cali'', season_result.year = 2023,
         season_result.season = ''Invierno'', total_seasonal_precipitation = Finite (9 / 2),
         avg_monthly_precipitation = Finite (9 / 2), max_monthly_precipitation = Finite (9 / 2),
         total_rainy_days = 1, months_in_season = 1\<rparr>] \<and>
   season_result.city
        \<lparr>season_result.city = ''Cali'', season_result.year = 2023,
         season_result.season = ''Invierno'', total_seasonal_precipitation = Finite (9 / 2),
         avg_monthly_precipitation = Finite (9 / 2), max_monthly_precipitation = Finite (9 / 2),
         total_rainy_days = 1, months_in_season = 1\<rparr> \<noteq> ''San_Andres''"
proof -
  have h: "CHR ''_'' \<in> set ''San_Andres''" by simp
  note c10 = C10_underscore_city_dropped [OF h, where lib = plain_lib and y = 2023 and m = 6
      and l = "''2023-06-01,29.0,21.0,24.0,2.5,10.0,3600.0,San_Andres''"
      and row = "[''2023-06-01'', ''29.0'', ''21.0'', ''24.0'', ''2.5'', ''10.0'', ''3600.0'', ''San_Andres'']"
      and tmax = "Finite 29" and tmin = "Finite 21" and tmean = "Finite 24"
      and rain = "Finite (5 / 2)"
      and lines = "[''2023-06-01,29.0,21.0,24.0,2.5,10.0,3600.0,San_Andres'',
      ''2023-06-01,31.0,20.0,25.0,4.5,10.0,3600.0,Cali'']",
      unfolded san_andres_key]
  have m1: "mapper_parse_data plain_lib ''2023-06-01,29.0,21.0,24.0,2.5,10.0,3600.0,San_Andres'' =
     [(''San_Andres_2023_06'', Payload \<lparr>temp_max = Finite 29, temp_min = Finite 21, temp_mean = Finite 24, count = 1\<rparr>)]"
    using c10 [THEN conjunct1] san_andres_line by simp
  have m2: "mapper_parse_precipitation plain_lib ''2023-06-01,29.0,21.0,24.0,2.5,10.0,3600.0,San_Andres'' =
     [(''San_Andres_2023_06'', Payload (Finite (5 / 2)))]"
    using c10 [THEN conjunct2, THEN conjunct1] san_andres_line by simp
  have a: "\<forall>stats. mapper_format_output ''San_Andres_2023_06'' stats =
       [(''ERROR'', ErrorText ''Format error: '' ValueError)]"
    using c10 [THEN conjunct2, THEN conjunct2, THEN conjunct1] by blast
  have b: "\<forall>data. mapper_add_season ''San_Andres_2023_06'' data =
       [(''ERROR'', ErrorText ''Season mapping error: '' ValueError)]"
    using c10 [THEN conjunct2, THEN conjunct2, THEN conjunct2, THEN conjunct1] by blast
  from c10 [THEN conjunct2, THEN conjunct2, THEN conjunct2, THEN conjunct2, THEN conjunct2,
      THEN conjunct2]
  have n: "temp_output.city
        \<lparr>city_year_month = ''Cali_2023_06'', avg_temp_max = Finite 31, avg_temp_min = Finite 20,
         avg_temp_mean = Finite 25, max_temp_recorded = Finite 31, min_temp_recorded = Finite 20,
         temp_stats.total_days = 1, temp_output.city = ''Cali'', temp_output.year = 2023,
         temp_output.month = 6, month_name = ''June''\<rparr> \<noteq> ''San_Andres'' \<and>
   season_result.city
        \<lparr>season_result.city = ''Cali'', season_result.year = 2023,
         season_result.season = ''Invierno'', total_seasonal_precipitation = Finite (9 / 2),
         avg_monthly_precipitation = Finite (9 / 2), max_monthly_precipitation = Finite (9 / 2),
         total_rainy_days = 1, months_in_season = 1\<rparr> \<noteq> ''San_Andres''"
    unfolding two_cities by (elim exE conjE) simp
  from h san_andres_line m1 m2 two_cities a b n show ?thesis by simp
qed


section \<open>The order of the final temperature rows\<close>

lemma mapper_format_output_stage1:
  assumes "(k2, Payload r) \<in> set (mapper_format_output (stage1_key c y m) s)"
  shows "CHR ''_'' \<notin> set c" "k2 = c @ ''_'' @ py_str y" "temp_output.city r = c"
    "temp_output.year r = y" "temp_output.month r = m"
proof -
  show c: "CHR ''_'' \<notin> set c"
  proof
    assume "CHR ''_'' \<in> set c"
    then have "mapper_format_output (stage1_key c y m) s =
        [(''ERROR'', ErrorText ''Format error: '' ValueError)]"
      by (simp add: mapper_format_output_def format_output_def stage1_key_not_ERROR
          unpack3_stage1_key_underscore then_do_def)
    with assms show False by simp
  qed
  from mapper_format_output_pairs [OF assms] obtain c' ys ms y' m' where
    sp: "py_split (CHR ''_'') (stage1_key c y m) = [c', ys, ms]" and
    i: "py_int ys = Inr y'" "py_int ms = Inr m'" and k: "k2 = c' @ ''_'' @ ys" and
    r: "r = temp_stats.extend s
              \<lparr>temp_output.city = c', temp_output.year = y', temp_output.month = m',
               month_name = month_names ! nat (m' - 1)\<rparr>"
    by auto
  from sp c have e: "c' = c" "ys = py_str y" "ms = py_format_02d m"
    by (simp_all add: split_stage1_key py_split_none)
  with i have "y' = y" "m' = m"
    by (simp_all add: py_int_py_str py_int_py_format_02d)
  with e k r show "k2 = c @ ''_'' @ py_str y" "temp_output.city r = c"
    "temp_output.year r = y" "temp_output.month r = m"
    by (simp_all add: temp_stats.defs)
qed

lemma group_key_inj:
  assumes "CHR ''_'' \<notin> set c" "CHR ''_'' \<notin> set c'"
    and "c @ ''_'' @ py_str y = c' @ ''_'' @ py_str y'"
  shows "c = c'" "y = y'"
proof -
  have sp: "py_split (CHR ''_'') (a @ ''_'' @ py_str z) = [a, py_str z]"
    if "CHR ''_'' \<notin> set a" for a z
  proof -
    have "py_split (CHR ''_'') (a @ CHR ''_'' # py_str z) =
        py_split (CHR ''_'') a @ py_split (CHR ''_'') (py_str z)"
      by (rule py_split_append)
    also have "py_split (CHR ''_'') a = [a]"
      using that by (rule py_split_none)
    also have "py_split (CHR ''_'') (py_str z) = [py_str z]"
      using no_underscore_py_str by (rule py_split_none)
    finally show ?thesis by simp
  qed
  from assms(3) have "py_split (CHR ''_'') (c @ ''_'' @ py_str y) =
      py_split (CHR ''_'') (c' @ ''_'' @ py_str y')"
    by (rule arg_cong)
  then have "[c, py_str y] = [c', py_str y']"
    unfolding sp [OF assms(1)] sp [OF assms(2)] .
  then have e: "c = c'" "py_str y = py_str y'"
    by simp_all
  from e(2) have "py_int (py_str y) = py_int (py_str y')"
    by (rule arg_cong)
  then have "y = y'"
    unfolding py_int_py_str by (simp only: sum.inject)
  with e(1) show "c = c'" "y = y'" by simp_all
qed

lemma reducer_aggregate_temps_shape:
  "reducer_aggregate_temps k vs = Inr [] \<or> (\<exists>s. reducer_aggregate_temps k vs = Inr [(k, s)])"
proof (cases "k = ''ERROR'' \<or> loaded vs = []")
  case True
  then show ?thesis by (auto simp: reducer_aggregate_temps_def)
next
  case False
  then obtain mx mn where "py_max (map temp_max (loaded vs)) = Inr mx"
    "py_min (map temp_min (loaded vs)) = Inr mn"
    using py_max_Cons [of "map temp_max (loaded vs)"] py_min_Cons [of "map temp_min (loaded vs)"]
    by auto
  with False show ?thesis
    by (simp add: reducer_aggregate_temps_def py_truediv_def then_do_def Let_def)
qed

lemma concat_groups_keys:
  assumes "\<And>k vs. (k, vs) \<in> set gs \<Longrightarrow> f (k, vs) = [] \<or> (\<exists>s. f (k, vs) = [(k, s)])"
  shows "fst ` set (concat (map f gs)) \<subseteq> fst ` set gs"
proof
  fix k assume "k \<in> fst ` set (concat (map f gs))"
  then obtain s g where g: "g \<in> set gs" "(k, s) \<in> set (f g)" by auto
  obtain k' vs where g': "g = (k', vs)" by (cases g)
  with assms [of k' vs] g have "k' = k" by auto
  with g g' show "k \<in> fst ` set gs" by force
qed

lemma distinct_concat_groups:
  assumes "distinct (map fst gs)"
    and "\<And>k vs. (k, vs) \<in> set gs \<Longrightarrow> f (k, vs) = [] \<or> (\<exists>s. f (k, vs) = [(k, s)])"
  shows "distinct (map fst (concat (map f gs)))"
  using assms
proof (induction gs)
  case Nil
  show ?case by simp
next
  case (Cons g gs)
  obtain k vs where g: "g = (k, vs)" by (cases g)
  have ih: "distinct (map fst (concat (map f gs)))"
    using Cons by simp
  have sub: "fst ` set (concat (map f gs)) \<subseteq> fst ` set gs"
    by (rule concat_groups_keys) (use Cons.prems(2) in simp)
  from Cons.prems(1) g have "k \<notin> fst ` set gs" by simp
  with sub have "k \<notin> fst ` set (concat (map f gs))" by blast
  then have notin: "k \<notin> set (map fst (concat (map f gs)))" by simp
  from Cons.prems(2) [of k vs] g consider "f g = []" | s where "f g = [(k, s)]" by auto
  then show ?case
  proof cases
    case 1
    with ih show ?thesis by simp
  next
    case 2
    have "map fst (concat (map f (g # gs))) = k # map fst (concat (map f gs))"
      by (simp add: 2)
    with ih notin show ?thesis by (simp only: distinct.simps) simp
  qed
qed

lemma temperature_monthly_distinct:
  assumes "run_step (mapper_parse_data lib) reducer_aggregate_temps lines = Inr monthly"
  shows "distinct (map fst monthly)"
proof -
  from run_step_total [of "mapper_parse_data lib" lines reducer_aggregate_temps]
    reducer_aggregate_temps_total assms
  have "monthly = concat (map (\<lambda>(k, vs). projr (reducer_aggregate_temps k vs))
      (shuffle (concat (map (mapper_parse_data lib) lines))))"
    by simp
  moreover have "distinct (map fst (concat (map (\<lambda>(k, vs). projr (reducer_aggregate_temps k vs))
      (shuffle (concat (map (mapper_parse_data lib) lines))))))"
  proof (rule distinct_concat_groups [OF shuffle_distinct])
    fix k vs
    from reducer_aggregate_temps_shape [of k vs]
    show "(case (k, vs) of (k, vs) \<Rightarrow> projr (reducer_aggregate_temps k vs)) = [] \<or>
       (\<exists>s. (case (k, vs) of (k, vs) \<Rightarrow> projr (reducer_aggregate_temps k vs)) = [(k, s)])"
      by auto
  qed
  ultimately show ?thesis by simp
qed

lemma values_of_append [simp]: "values_of k (xs @ ys) = values_of k xs @ values_of k ys"
  by (simp add: values_of_def)

lemma loaded_append [simp]: "loaded (xs @ ys) = loaded xs @ loaded ys"
  by (induction xs rule: loaded.induct) simp_all

lemma values_of_member: "v \<in> set (values_of k kvs) \<longleftrightarrow> (k, v) \<in> set kvs"
  by (force simp: values_of_def)

lemma mapper_format_output_length: "length (mapper_format_output k s) \<le> 1"
  by (simp add: mapper_format_output_def format_output_def then_do_def
      split: sum.splits prod.splits)

lemma short_list_distinct: "length xs \<le> 1 \<Longrightarrow> distinct (map f xs)"
  by (cases xs) auto

lemma group_months_distinct:
  assumes "distinct (map fst monthly)"
    and "\<forall>(k1, s)\<in>set monthly. \<exists>c y m. k1 = stage1_key c y m"
  shows "distinct (map temp_output.month
     (loaded (values_of k2
        (concat (map (\<lambda>(key, value). mapper_format_output key value) monthly)))))"
  using assms
proof (induction monthly)
  case Nil
  show ?case by (simp add: values_of_def)
next
  case (Cons p rest)
  obtain k1 s where p: "p = (k1, s)" by (cases p)
  from Cons.prems(2) p obtain c y m where k1: "k1 = stage1_key c y m" by auto
  let ?A = "loaded (values_of k2 (mapper_format_output k1 s))"
  let ?B = "loaded (values_of k2
      (concat (map (\<lambda>(key, value). mapper_format_output key value) rest)))"
  have "length ?A \<le> 1"
    using length_loaded_le [of "values_of k2 (mapper_format_output k1 s)"]
      mapper_format_output_length [of k1 s]
    by (simp add: values_of_def) (meson le_trans length_filter_le)
  then have dA: "distinct (map temp_output.month ?A)"
    by (rule short_list_distinct)
  have dB: "distinct (map temp_output.month ?B)"
    using Cons by simp
  have disj: "temp_output.month r \<noteq> temp_output.month r'"
    if "r \<in> set ?A" "r' \<in> set ?B" for r r'
  proof
    assume eq: "temp_output.month r = temp_output.month r'"
    from that(1) have a: "(k2, Payload r) \<in> set (mapper_format_output (stage1_key c y m) s)"
      by (simp add: loaded_member values_of_member k1)
    from that(2) have
      "(k2, Payload r') \<in> set (concat (map (\<lambda>(key, value). mapper_format_output key value) rest))"
      by (simp add: loaded_member values_of_member)
    from concat_map_member [OF this] obtain k1' s' where
      b: "(k1', s') \<in> set rest" "(k2, Payload r') \<in> set (mapper_format_output k1' s')"
      by blast
    from Cons.prems(2) b(1) obtain c' y' m' where k1': "k1' = stage1_key c' y' m'" by auto
    note fa = mapper_format_output_stage1 [OF a]
    note fb = mapper_format_output_stage1 [OF b(2) [unfolded k1']]
    from fa(2) fb(2) have "c @ ''_'' @ py_str y = c' @ ''_'' @ py_str y'" by simp
    from group_key_inj [OF fa(1) fb(1) this] have "c = c'" "y = y'" .
    moreover from eq fa(5) fb(5) have "m = m'" by simp
    ultimately have "k1' = k1" by (simp add: k1 k1')
    with b(1) have "k1 \<in> fst ` set rest" by force
    with Cons.prems(1) p show False by simp
  qed
  from dA dB disj show ?case
    by (auto simp: p)
qed

lemma sort_key_strict:
  "distinct (map f xs) \<Longrightarrow> sorted_wrt (<) (map f (sort_key f xs))"
proof -
  assume "distinct (map f xs)"
  moreover have "mset (map f (sort_key f xs)) = mset (map f xs)" by simp
  ultimately have "distinct (map f (sort_key f xs))"
    by (metis mset_eq_imp_distinct_iff)
  then show ?thesis
    by (simp add: strict_sorted_iff)
qed

lemma temperature_group_sorted:
  assumes "run_step (mapper_parse_data lib) reducer_aggregate_temps lines = Inr monthly"
    and "(k2, vs) \<in> set (shuffle (concat (map (\<lambda>(key, value). mapper_format_output key value)
      monthly)))"
  shows "distinct (map temp_output.month (loaded vs))"
    "\<exists>out. reducer_final_output k2 vs = Inr out \<and>
       sorted_wrt (<) (map temp_output.month out)"
proof -
  have st: "\<forall>(k1, s)\<in>set monthly. \<exists>c y m. k1 = stage1_key c y m"
    using temperature_monthly_days(3) [OF assms(1)] by blast
  from group_months_distinct [OF temperature_monthly_distinct [OF assms(1)] st, of k2]
    shuffle_member [OF assms(2)]
  show d: "distinct (map temp_output.month (loaded vs))" by simp
  from sort_key_strict [OF d]
  show "\<exists>out. reducer_final_output k2 vs = Inr out \<and>
       sorted_wrt (<) (map temp_output.month out)"
    by (simp add: reducer_final_output_def)
qed

lemma concat_all_empty: "(\<And>g. g \<in> set gs \<Longrightarrow> h g = []) \<Longrightarrow> concat (map h gs) = []"
  by (induction gs) simp_all

lemma concat_one_group:
  assumes "distinct (map fst gs)" and "\<And>g. g \<in> set gs \<Longrightarrow> fst g \<noteq> kz \<Longrightarrow> h g = []"
  shows "concat (map h gs) = [] \<or> (\<exists>g\<in>set gs. concat (map h gs) = h g)"
  using assms
proof (induction gs)
  case Nil
  show ?case by simp
next
  case (Cons g gs)
  show ?case
  proof (cases "fst g = kz")
    case True
    from Cons.prems(1) have "fst g \<notin> fst ` set gs" by simp
    with True have "fst g' \<noteq> kz" if "g' \<in> set gs" for g'
      using that by blast
    with Cons.prems(2) have "concat (map h gs) = []"
      by (intro concat_all_empty) simp
    then show ?thesis by simp
  next
    case False
    with Cons.prems(2) have "h g = []" by simp
    moreover have "concat (map h gs) = [] \<or> (\<exists>g\<in>set gs. concat (map h gs) = h g)"
      using Cons by simp
    ultimately show ?thesis by auto
  qed
qed

lemma temperature_rows_sorted:
  assumes "run_step (mapper_parse_data lib) reducer_aggregate_temps lines = Inr monthly"
    and "run_step (\<lambda>(key, value). mapper_format_output key value) reducer_final_output monthly =
      Inr rows"
  shows "sorted_wrt (<) (map temp_output.month
     (filter (\<lambda>r. temp_output.city r = c \<and> temp_output.year r = y) rows))"
proof -
  let ?P = "\<lambda>r. temp_output.city r = c \<and> temp_output.year r = y"
  let ?gs = "shuffle (concat (map (\<lambda>(key, value). mapper_format_output key value) monthly))"
  let ?f = "\<lambda>(k, vs). projr (reducer_final_output k vs)"
  let ?h = "\<lambda>g. filter ?P (?f g)"
  let ?k0 = "c @ ''_'' @ py_str y"
  from run_step_total [of "\<lambda>(key, value). mapper_format_output key value" monthly
      reducer_final_output] reducer_final_output_total assms(2)
  have rows: "rows = concat (map ?f ?gs)" by simp
  have other: "?h g = []" if gin: "g \<in> set ?gs" and gk: "fst g \<noteq> ?k0" for g
  proof -
    obtain k2 vs where g: "g = (k2, vs)" by (cases g)
    have "\<not> ?P r" if r: "r \<in> set (projr (reducer_final_output k2 vs))" for r
    proof
      assume P: "?P r"
      obtain out where out: "reducer_final_output k2 vs = Inr out"
        using reducer_final_output_total by blast
      with r have "r \<in> set out" by simp
      from final_output_member(2) [OF out this] shuffle_member [OF gin [unfolded g]]
      have "(k2, Payload r) \<in>
          set (concat (map (\<lambda>(key, value). mapper_format_output key value) monthly))"
        by blast
      from concat_map_member [OF this] obtain k1 s where
        o: "(k1, s) \<in> set monthly" "(k2, Payload r) \<in> set (mapper_format_output k1 s)"
        by blast
      from temperature_monthly_days(3) [OF assms(1) o(1)] obtain c1 y1 m1 where
        "k1 = stage1_key c1 y1 m1" by blast
      from mapper_format_output_stage1 [OF o(2) [unfolded this]] P
      have "k2 = ?k0" by simp
      with gk g show False by simp
    qed
    then show ?thesis
      by (simp add: g filter_empty_conv)
  qed
  from concat_one_group [where gs = ?gs and h = ?h and kz = ?k0, OF shuffle_distinct] other
  consider "concat (map ?h ?gs) = []" | g where "g \<in> set ?gs" "concat (map ?h ?gs) = ?h g"
    by blast
  then have "sorted_wrt (<) (map temp_output.month (concat (map ?h ?gs)))"
  proof cases
    case 1
    show ?thesis unfolding 1 by simp
  next
    case 2
    obtain k2 vs where g: "g = (k2, vs)" by (cases g)
    from temperature_group_sorted(2) [OF assms(1) 2(1) [unfolded g]]
    have "sorted_wrt (<) (map temp_output.month (?f g))"
      by (auto simp: g)
    then have "sorted_wrt (<) (map temp_output.month (?h g))"
      by (simp add: sorted_wrt_map sorted_wrt_filter)
    then show ?thesis unfolding 2(2) .
  qed
  then show ?thesis
    by (simp add: rows filter_concat comp_def)
qed

lemma reducer_final_output_sorts:
  assumes "key \<noteq> ''ERROR''" "distinct (map temp_output.month (loaded values))"
  shows "\<exists>out. reducer_final_output key values = Inr out \<and> mset out = mset (loaded values) \<and>
     sorted_wrt (<) (map temp_output.month out)"
  using assms(1) sort_key_strict [OF assms(2)]
  by (simp add: reducer_final_output_def)

text \<open>
  Claim C7.  The last reducer of the temperature job emits the records of its group
  sorted by month: on values whose records have pairwise different months, what it emits
  is a rearrangement of the records that is strictly increasing in the month.  The job
  runs to its end on every batch; the first stage emits at most one record per key, so
  in every group of the second stage (one city and year) no two records share a month,
  and the last reducer emits the rows of the group in strictly increasing order of the
  month.  In the final output the rows of any one city and year are therefore strictly
  increasing in the month.
\<close>

theorem C7_rows_increase_by_month:
  "(key \<noteq> ''ERROR'' \<and> distinct (map temp_output.month (loaded values)) \<longrightarrow>
      (\<exists>out. reducer_final_output key values = Inr out \<and> mset out = mset (loaded values) \<and>
         sorted_wrt (<) (map temp_output.month out))) \<and>
   (\<exists>monthly rows.
     run_step (mapper_parse_data lib) reducer_aggregate_temps lines = Inr monthly \<and>
     distinct (map fst monthly) \<and>
     run_step (\<lambda>(key, value). mapper_format_output key value) reducer_final_output monthly =
       Inr rows \<and>
     temperature_analysis lib lines = Inr rows \<and>
     (\<forall>(k2, vs)\<in>set (shuffle (concat (map (\<lambda>(key, value). mapper_format_output key value)
          monthly))).
        distinct (map temp_output.month (loaded vs)) \<and>
        (\<exists>out. reducer_final_output k2 vs = Inr out \<and>
           sorted_wrt (<) (map temp_output.month out))) \<and>
     (\<forall>c y. sorted_wrt (<) (map temp_output.month
        (filter (\<lambda>r. temp_output.city r = c \<and> temp_output.year r = y) rows))))"
proof -
  obtain monthly rows where
    t: "run_step (mapper_parse_data lib) reducer_aggregate_temps lines = Inr monthly"
      "run_step (\<lambda>(key, value). mapper_format_output key value) reducer_final_output monthly =
         Inr rows"
      "temperature_analysis lib lines = Inr rows"
    using temperature_stages by blast
  have d: "distinct (map fst monthly)"
    using t(1) by (rule temperature_monthly_distinct)
  have g: "\<forall>(k2, vs)\<in>set (shuffle (concat (map (\<lambda>(key, value). mapper_format_output key value)
          monthly))).
        distinct (map temp_output.month (loaded vs)) \<and>
        (\<exists>out. reducer_final_output k2 vs = Inr out \<and>
           sorted_wrt (<) (map temp_output.month out))"
    using temperature_group_sorted [OF t(1)] by blast
  have r: "\<forall>c y. sorted_wrt (<) (map temp_output.month
        (filter (\<lambda>r. temp_output.city r = c \<and> temp_output.year r = y) rows))"
    using temperature_rows_sorted [OF t(1,2)] by blast
  have s: "key \<noteq> ''ERROR'' \<and> distinct (map temp_output.month (loaded values)) \<longrightarrow>
      (\<exists>out. reducer_final_output key values = Inr out \<and> mset out = mset (loaded values) \<and>
         sorted_wrt (<) (map temp_output.month out))"
    using reducer_final_output_sorts [of key "values"] by blast
  have "\<exists>monthly rows.
     run_step (mapper_parse_data lib) reducer_aggregate_temps lines = Inr monthly \<and>
     distinct (map fst monthly) \<and>
     run_step (\<lambda>(key, value). mapper_format_output key value) reducer_final_output monthly =
       Inr rows \<and>
     temperature_analysis lib lines = Inr rows \<and>
     (\<forall>(k2, vs)\<in>set (shuffle (concat (map (\<lambda>(key, value). mapper_format_output key value)
          monthly))).
        distinct (map temp_output.month (loaded vs)) \<and>
        (\<exists>out. reducer_final_output k2 vs = Inr out \<and>
           sorted_wrt (<) (map temp_output.month out))) \<and>
     (\<forall>c y. sorted_wrt (<) (map temp_output.month
        (filter (\<lambda>r. temp_output.city r = c \<and> temp_output.year r = y) rows)))"
    using t(1) d t(2,3) g r
    by (intro exI [of _ monthly] exI [of _ rows] conjI)
  with s show ?thesis by (rule conjI)
qed

lemma four_months:
  "temperature_analysis plain_lib
     [''2023-11-05,28.0,19.0,23.0,1.0,10.0,3600.0,Cali'',
      ''2023-03-10,30.0,20.0,25.0,0.0,10.0,3600.0,Cali'',
      ''2023-06-01,31.0,21.0,26.0,4.5,10.0,3600.0,Cali'',
      ''2022-06-01,27.0,18.0,22.0,4.5,10.0,3600.0,Cali''] =
   Inr [\<lparr>city_year_month = ''Cali_2022_06'', avg_temp_max = Finite 27,
        avg_temp_min = Finite 18, avg_temp_mean = Finite 22,
        max_temp_recorded = Finite 27, min_temp_recorded = Finite 18,
        temp_stats.total_days = 1, temp_output.city = ''Cali'', temp_output.year = 2022,
        temp_output.month = 6, month_name = ''June''\<rparr>,
      \<lparr>city_year_month = ''Cali_2023_03'', avg_temp_max = Finite 30,
        avg_temp_min = Finite 20, avg_temp_mean = Finite 25,
        max_temp_recorded = Finite 30, min_temp_recorded = Finite 20,
        temp_stats.total_days = 1, temp_output.city = ''Cali'', temp_output.year = 2023,
        temp_output.month = 3, month_name = ''March''\<rparr>,
      \<lparr>city_year_month = ''Cali_2023_06'', avg_temp_max = Finite 31,
        avg_temp_min = Finite 21, avg_temp_mean = Finite 26,
        max_temp_recorded = Finite 31, min_temp_recorded = Finite 21,
        temp_stats.total_days = 1, temp_output.city = ''Cali'', temp_output.year = 2023,
        temp_output.month = 6, month_name = ''June''\<rparr>,
      \<lparr>city_year_month = ''Cali_2023_11'', avg_temp_max = Finite 28,
        avg_temp_min = Finite 19, avg_temp_mean = Finite 23,
        max_temp_recorded = Finite 28, min_temp_recorded = Finite 19,
        temp_stats.total_days = 1, temp_output.city = ''Cali'', temp_output.year = 2023,
        temp_output.month = 11, month_name = ''November''\<rparr>]"
  by (simp add: temperature_analysis_def run_step_def shuffle_def
      values_of_def mapper_parse_data_def parse_data_def plain_eval float_eval text_eval json_eval
      reducer_aggregate_temps_def mapper_format_output_def format_output_def
      reducer_final_output_def temp_stats.defs temp_output.defs)

theorem C7_rows_increase_by_month_witness:
  "''Cali_2023'' \<noteq> ''ERROR'' \<and>
   distinct (map temp_output.month (loaded
     [Payload \<lparr>city_year_month = ''Cali_2023_11'', avg_temp_max = Finite 28,
        avg_temp_min = Finite 19, avg_temp_mean = Finite 23,
        max_temp_recorded = Finite 28, min_temp_recorded = Finite 19,
        temp_stats.total_days = 1, temp_output.city = ''Cali'', temp_output.year = 2023,
        temp_output.month = 11, month_name = ''November''\<rparr>,
      Payload \<lparr>city_year_month = ''Cali_2023_03'', avg_temp_max = Finite 30,
        avg_temp_min = Finite 20, avg_temp_mean = Finite 25,
        max_temp_recorded = Finite 30, min_temp_recorded = Finite 20,
        temp_stats.total_days = 1, temp_output.city = ''Cali'', temp_output.year = 2023,
        temp_output.month = 3, month_name = ''March''\<rparr>,
      Payload \<lparr>city_year_month = ''Cali_2023_06'', avg_temp_max = Finite 31,
        avg_temp_min = Finite 21, avg_temp_mean = Finite 26,
        max_temp_recorded = Finite 31, min_temp_recorded = Finite 21,
        temp_stats.total_days = 1, temp_output.city = ''Cali'', temp_output.year = 2023,
        temp_output.month = 6, month_name = ''June''\<rparr>])) \<and>
   reducer_final_output ''Cali_2023''
     [Payload \<lparr>city_year_month = ''Cali_2023_11'', avg_temp_max = Finite 28,
        avg_temp_min = Finite 19, avg_temp_mean = Finite 23,
        max_temp_recorded = Finite 28, min_temp_recorded = Finite 19,
        temp_stats.total_days = 1, temp_output.city = ''Cali'', temp_output.year = 2023,
        temp_output.month = 11, month_name = ''November''\<rparr>,
      Payload \<lparr>city_year_month = ''Cali_2023_03'', avg_temp_max = Finite 30,
        avg_temp_min = Finite 20, avg_temp_mean = Finite 25,
        max_temp_recorded = Finite 30, min_temp_recorded = Finite 20,
        temp_stats.total_days = 1, temp_output.city = ''Cali'', temp_output.year = 2023,
        temp_output.month = 3, month_name = ''March''\<rparr>,
      Payload \<lparr>city_year_month = ''Cali_2023_06'', avg_temp_max = Finite 31,
        avg_temp_min = Finite 21, avg_temp_mean = Finite 26,
        max_temp_recorded = Finite 31, min_temp_recorded = Finite 21,
        temp_stats.total_days = 1, temp_output.city = ''Cali'', temp_output.year = 2023,
        temp_output.month = 6, month_name = ''June''\<rparr>] =
   Inr [\<lparr>city_year_month = ''Cali_2023_03'', avg_temp_max = Finite 30,
        avg_temp_min = Finite 20, avg_temp_mean = Finite 25,
        max_temp_recorded = Finite 30, min_temp_recorded = Finite 20,
        temp_stats.total_days = 1, temp_output.city = ''Cali'', temp_output.year = 2023,
        temp_output.month = 3, month_name = ''March''\<rparr>,
      \<lparr>city_year_month = ''Cali_2023_06'', avg_temp_max = Finite 31,
        avg_temp_min = Finite 21, avg_temp_mean = Finite 26,
        max_temp_recorded = Finite 31, min_temp_recorded = Finite 21,
        temp_stats.total_days = 1, temp_output.city = ''Cali'', temp_output.year = 2023,
        temp_output.month = 6, month_name = ''June''\<rparr>,
      \<lparr>city_year_month = ''Cali_2023_11'', avg_temp_max = Finite 28,
        avg_temp_min = Finite 19, avg_temp_mean = Finite 23,
        max_temp_recorded = Finite 28, min_temp_recorded = Finite 19,
        temp_stats.total_days = 1, temp_output.city = ''Cali'', temp_output.year = 2023,
        temp_output.month = 11, month_name = ''November''\<rparr>] \<and>
   map temp_output.month
     [\<lparr>city_year_month = ''Cali_2023_03'', avg_temp_max = Finite 30,
        avg_temp_min = Finite 20, avg_temp_mean = Finite 25,
        max_temp_recorded = Finite 30, min_temp_recorded = Finite 20,
        temp_stats.total_days = 1, temp_output.city = ''Cali'', temp_output.year = 2023,
        temp_output.month = 3, month_name = ''March''\<rparr>,
      \<lparr>city_year_month = ''Cali_2023_06'', avg_temp_max = Finite 31,
        avg_temp_min = Finite 21, avg_temp_mean = Finite 26,
        max_temp_recorded = Finite 31, min_temp_recorded = Finite 21,
        temp_stats.total_days = 1, temp_output.city = ''Cali'', temp_output.year = 2023,
        temp_output.month = 6, month_name = ''June''\<rparr>,
      \<lparr>city_year_month = ''Cali_2023_11'', avg_temp_max = Finite 28,
        avg_temp_min = Finite 19, avg_temp_mean = Finite 23,
        max_temp_recorded = Finite 28, min_temp_recorded = Finite 19,
        temp_stats.total_days = 1, temp_output.city = ''Cali'', temp_output.year = 2023,
        temp_output.month = 11, month_name = ''November''\<rparr>] = [3, 6, 11] \<and>
   sorted_wrt (<) (map temp_output.month
     [\<lparr>city_year_month = ''Cali_2023_03'', avg_temp_max = Finite 30,
        avg_temp_min = Finite 20, avg_temp_mean = Finite 25,
        max_temp_recorded = Finite 30, min_temp_recorded = Finite 20,
        temp_stats.total_days = 1, temp_output.city = ''Cali'', temp_output.year = 2023,
        temp_output.month = 3, month_name = ''March''\<rparr>,
      \<lparr>city_year_month = ''Cali_2023_06'', avg_temp_max = Finite 31,
        avg_temp_min = Finite 21, avg_temp_mean = Finite 26,
        max_temp_recorded = Finite 31, min_temp_recorded = Finite 21,
        temp_stats.total_days = 1, temp_output.city = ''Cali'', temp_output.year = 2023,
        temp_output.month = 6, month_name = ''June''\<rparr>,
      \<lparr>city_year_month = ''Cali_2023_11'', avg_temp_max = Finite 28,
        avg_temp_min = Finite 19, avg_temp_mean = Finite 23,
        max_temp_recorded = Finite 28, min_temp_recorded = Finite 19,
        temp_stats.total_days = 1, temp_output.city = ''Cali'', temp_output.year = 2023,
        temp_output.month = 11, month_name = ''November''\<rparr>]) \<and>
   temperature_analysis plain_lib
     [''2023-11-05,28.0,19.0,23.0,1.0,10.0,3600.0,Cali'',
      ''2023-03-10,30.0,20.0,25.0,0.0,10.0,3600.0,Cali'',
      ''2023-06-01,31.0,21.0,26.0,4.5,10.0,3600.0,Cali'',
      ''2022-06-01,27.0,18.0,22.0,4.5,10.0,3600.0,Cali''] =
   Inr [\<lparr>city_year_month = ''Cali_2022_06'', avg_temp_max = Finite 27,
        avg_temp_min = Finite 18, avg_temp_mean = Finite 22,
        max_temp_recorded = Finite 27, min_temp_recorded = Finite 18,
        temp_stats.total_days = 1, temp_output.city = ''Cali'', temp_output.year = 2022,
        temp_output.month = 6, month_name = ''June''\<rparr>,
      \<lparr>city_year_month = ''Cali_2023_03'', avg_temp_max = Finite 30,
        avg_temp_min = Finite 20, avg_temp_mean = Finite 25,
        max_temp_recorded = Finite 30, min_temp_recorded = Finite 20,
        temp_stats.total_days = 1, temp_output.city = ''Cali'', temp_output.year = 2023,
        temp_output.month = 3, month_name = ''March''\<rparr>,
      \<lparr>city_year_month = ''Cali_2023_06'', avg_temp_max = Finite 31,
        avg_temp_min = Finite 21, avg_temp_mean = Finite 26,
        max_temp_recorded = Finite 31, min_temp_recorded = Finite 21,
        temp_stats.total_days = 1, temp_output.city = ''Cali'', temp_output.year = 2023,
        temp_output.month = 6, month_name = ''June''\<rparr>,
      \<lparr>city_year_month = ''Cali_2023_11'', avg_temp_max = Finite 28,
        avg_temp_min = Finite 19, avg_temp_mean = Finite 23,
        max_temp_recorded = Finite 28, min_temp_recorded = Finite 19,
        temp_stats.total_days = 1, temp_output.city = ''Cali'', temp_output.year = 2023,
        temp_output.month = 11, month_name = ''November''\<rparr>] \<and>
   map temp_output.month (filter (\<lambda>r. temp_output.city r = ''Cali'' \<and> temp_output.year r = 2023)
     [\<lparr>city_year_month = ''Cali_2022_06'', avg_temp_max = Finite 27,
        avg_temp_min = Finite 18, avg_temp_mean = Finite 22,
        max_temp_recorded = Finite 27, min_temp_recorded = Finite 18,
        temp_stats.total_days = 1, temp_output.city = ''Cali'', temp_output.year = 2022,
        temp_output.month = 6, month_name = ''June''\<rparr>,
      \<lparr>city_year_month = ''Cali_2023_03'', avg_temp_max = Finite 30,
        avg_temp_min = Finite 20, avg_temp_mean = Finite 25,
        max_temp_recorded = Finite 30, min_temp_recorded = Finite 20,
        temp_stats.total_days = 1, temp_output.city = ''Cali'', temp_output.year = 2023,
        temp_output.month = 3, month_name = ''March''\<rparr>,
      \<lparr>city_year_month = ''Cali_2023_06'', avg_temp_max = Finite 31,
        avg_temp_min = Finite 21, avg_temp_mean = Finite 26,
        max_temp_recorded = Finite 31, min_temp_recorded = Finite 21,
        temp_stats.total_days = 1, temp_output.city = ''Cali'', temp_output.year = 2023,
        temp_output.month = 6, month_name = ''June''\<rparr>,
      \<lparr>city_year_month = ''Cali_2023_11'', avg_temp_max = Finite 28,
        avg_temp_min = Finite 19, avg_temp_mean = Finite 23,
        max_temp_recorded = Finite 28, min_temp_recorded = Finite 19,
        temp_stats.total_days = 1, temp_output.city = ''Cali'', temp_output.year = 2023,
        temp_output.month = 11, month_name = ''November''\<rparr>]) = [3, 6, 11] \<and>
   sorted_wrt (<) (map temp_output.month (filter (\<lambda>r. temp_output.city r = ''Cali'' \<and> temp_output.year r = 2023)
     [\<lparr>city_year_month = ''Cali_2022_06'', avg_temp_max = Finite 27,
        avg_temp_min = Finite 18, avg_temp_mean = Finite 22,
        max_temp_recorded = Finite 27, min_temp_recorded = Finite 18,
        temp_stats.total_days = 1, temp_output.city = ''Cali'', temp_output.year = 2022,
        temp_output.month = 6, month_name = ''June''\<rparr>,
      \<lparr>city_year_month = ''Cali_2023_03'', avg_temp_max = Finite 30,
        avg_temp_min = Finite 20, avg_temp_mean = Finite 25,
        max_temp_recorded = Finite 30, min_temp_recorded = Finite 20,
        temp_stats.total_days = 1, temp_output.city = ''Cali'', temp_output.year = 2023,
        temp_output.month = 3, month_name = ''March''\<rparr>,
      \<lparr>city_year_month = ''Cali_2023_06'', avg_temp_max = Finite 31,
        avg_temp_min = Finite 21, avg_temp_mean = Finite 26,
        max_temp_recorded = Finite 31, min_temp_recorded = Finite 21,
        temp_stats.total_days = 1, temp_output.city = ''Cali'', temp_output.year = 2023,
        temp_output.month = 6, month_name = ''June''\<rparr>,
      \<lparr>city_year_month = ''Cali_2023_11'', avg_temp_max = Finite 28,
        avg_temp_min = Finite 19, avg_temp_mean = Finite 23,
        max_temp_recorded = Finite 28, min_temp_recorded = Finite 19,
        temp_stats.total_days = 1, temp_output.city = ''Cali'', temp_output.year = 2023,
        temp_output.month = 11, month_name = ''November''\<rparr>]))"
proof -
  let ?vals = "[Payload \<lparr>city_year_month = ''Cali_2023_11'', avg_temp_max = Finite 28,
        avg_temp_min = Finite 19, avg_temp_mean = Finite 23,
        max_temp_recorded = Finite 28, min_temp_recorded = Finite 19,
        temp_stats.total_days = 1, temp_output.city = ''Cali'', temp_output.year = 2023,
        temp_output.month = 11, month_name = ''November''\<rparr>,
      Payload \<lparr>city_year_month = ''Cali_2023_03'', avg_temp_max = Finite 30,
        avg_temp_min = Finite 20, avg_temp_mean = Finite 25,
        max_temp_recorded = Finite 30, min_temp_recorded = Finite 20,
        temp_stats.total_days = 1, temp_output.city = ''Cali'', temp_output.year = 2023,
        temp_output.month = 3, month_name = ''March''\<rparr>,
      Payload \<lparr>city_year_month = ''Cali_2023_06'', avg_temp_max = Finite 31,
        avg_temp_min = Finite 21, avg_temp_mean = Finite 26,
        max_temp_recorded = Finite 31, min_temp_recorded = Finite 21,
        temp_stats.total_days = 1, temp_output.city = ''Cali'', temp_output.year = 2023,
        temp_output.month = 6, month_name = ''June''\<rparr>]"
  let ?out = "[\<lparr>city_year_month = ''Cali_2023_03'', avg_temp_max = Finite 30,
        avg_temp_min = Finite 20, avg_temp_mean = Finite 25,
        max_temp_recorded = Finite 30, min_temp_recorded = Finite 20,
        temp_stats.total_days = 1, temp_output.city = ''Cali'', temp_output.year = 2023,
        temp_output.month = 3, month_name = ''March''\<rparr>,
      \<lparr>city_year_month = ''Cali_2023_06'', avg_temp_max = Finite 31,
        avg_temp_min = Finite 21, avg_temp_mean = Finite 26,
        max_temp_recorded = Finite 31, min_temp_recorded = Finite 21,
        temp_stats.total_days = 1, temp_output.city = ''Cali'', temp_output.year = 2023,
        temp_output.month = 6, month_name = ''June''\<rparr>,
      \<lparr>city_year_month = ''Cali_2023_11'', avg_temp_max = Finite 28,
        avg_temp_min = Finite 19, avg_temp_mean = Finite 23,
        max_temp_recorded = Finite 28, min_temp_recorded = Finite 19,
        temp_stats.total_days = 1, temp_output.city = ''Cali'', temp_output.year = 2023,
        temp_output.month = 11, month_name = ''November''\<rparr>]"
  let ?rows = "[\<lparr>city_year_month = ''Cali_2022_06'', avg_temp_max = Finite 27,
        avg_temp_min = Finite 18, avg_temp_mean = Finite 22,
        max_temp_recorded = Finite 27, min_temp_recorded = Finite 18,
        temp_stats.total_days = 1, temp_output.city = ''Cali'', temp_output.year = 2022,
        temp_output.month = 6, month_name = ''June''\<rparr>,
      \<lparr>city_year_month = ''Cali_2023_03'', avg_temp_max = Finite 30,
        avg_temp_min = Finite 20, avg_temp_mean = Finite 25,
        max_temp_recorded = Finite 30, min_temp_recorded = Finite 20,
        temp_stats.total_days = 1, temp_output.city = ''Cali'', temp_output.year = 2023,
        temp_output.month = 3, month_name = ''March''\<rparr>,
      \<lparr>city_year_month = ''Cali_2023_06'', avg_temp_max = Finite 31,
        avg_temp_min = Finite 21, avg_temp_mean = Finite 26,
        max_temp_recorded = Finite 31, min_temp_recorded = Finite 21,
        temp_stats.total_days = 1, temp_output.city = ''Cali'', temp_output.year = 2023,
        temp_output.month = 6, month_name = ''June''\<rparr>,
      \<lparr>city_year_month = ''Cali_2023_11'', avg_temp_max = Finite 28,
        avg_temp_min = Finite 19, avg_temp_mean = Finite 23,
        max_temp_recorded = Finite 28, min_temp_recorded = Finite 19,
        temp_stats.total_days = 1, temp_output.city = ''Cali'', temp_output.year = 2023,
        temp_output.month = 11, month_name = ''November''\<rparr>]"
  have h1: "''Cali_2023'' \<noteq> ''ERROR''" by simp
  have h2: "distinct (map temp_output.month (loaded ?vals))" by simp
  have e: "reducer_final_output ''Cali_2023'' ?vals = Inr ?out"
    by (simp add: reducer_final_output_def)
  have m1: "map temp_output.month ?out = [3, 6, 11]" by simp
  have m2: "map temp_output.month (filter (\<lambda>r. temp_output.city r = ''Cali'' \<and> temp_output.year r = 2023) ?rows) = [3, 6, 11]" by simp
  note c7 = C7_rows_increase_by_month [of "''Cali_2023''" "?vals" plain_lib
      "[''2023-11-05,28.0,19.0,23.0,1.0,10.0,3600.0,Cali'',
      ''2023-03-10,30.0,20.0,25.0,0.0,10.0,3600.0,Cali'',
      ''2023-06-01,31.0,21.0,26.0,4.5,10.0,3600.0,Cali'',
      ''2022-06-01,27.0,18.0,22.0,4.5,10.0,3600.0,Cali'']"]
  from c7 [THEN conjunct1] h1 h2 have "\<exists>out. reducer_final_output ''Cali_2023'' ?vals = Inr out \<and>
      mset out = mset (loaded ?vals) \<and> sorted_wrt (<) (map temp_output.month out)"
    by (rule mp [OF _ conjI])
  then have s1: "sorted_wrt (<) (map temp_output.month ?out)"
    unfolding e by (elim exE conjE) (simp only: sum.inject)
  from c7 [THEN conjunct2]
  have s2: "sorted_wrt (<) (map temp_output.month (filter (\<lambda>r. temp_output.city r = ''Cali'' \<and> temp_output.year r = 2023) ?rows))"
    unfolding four_months
  proof (elim exE conjE)
    fix monthly rows
    assume r: "Inr ?rows = (Inr rows :: pyexc + temp_output list)"
      and s: "\<forall>c y. sorted_wrt (<) (map temp_output.month
        (filter (\<lambda>r. temp_output.city r = c \<and> temp_output.year r = y) rows))"
    from r have rows: "rows = ?rows" by simp
    from s [rule_format, of "''Cali''" 2023] show ?thesis
      unfolding rows .
  qed
  from h1 h2 e m1 s1 four_months m2 s2 show ?thesis by (intro conjI)
qed

end
